theory Spec2Isabelle
  imports Complex_Main
begin

section \<open>JavaScript numbers\<close>

text \<open>
  The engine computes with JavaScript numbers (IEEE doubles). A finite double is a real
  (with one zero), and the three special values are constructors of their own. Division
  by zero, \<open>0/0\<close>, \<open>Infinity - Infinity\<close>, comparisons with \<open>NaN\<close> and
  \<open>Math.max\<close>/\<open>Math.min\<close> follow ECMAScript. Input data (prices, highs, lows) are
  finite numbers and are reals.

  There are two families of operations. \<open>fadd\<close>, \<open>fsub\<close>, \<open>fmul\<close>, \<open>fdiv\<close>
  (below) are the operations of the machine: they round the exact result to the nearest
  double, ties to even, and overflow to \<open>Infinity\<close>. \<open>calculateRSI\<close>,
  \<open>normalizeData\<close> and the first engine from the combination step on are written with
  them, and what is proved of these holds for every double. \<open>jadd\<close>, \<open>jsub\<close>,
  \<open>jmul\<close>, \<open>jdiv\<close> are exact on finite numbers (no rounding, no overflow); the
  moving averages, the bands, the oscillator, the volatility and the networks are
  written with them, and agree with the code where no operation rounds or where only
  the special values matter (a division by zero, a \<open>NaN\<close> that spreads).
\<close>

datatype jsnum = Num real | PosInf | NegInf | NaN

fun jneg :: "jsnum \<Rightarrow> jsnum" where
  "jneg (Num a) = Num (- a)"
| "jneg PosInf = NegInf"
| "jneg NegInf = PosInf"
| "jneg NaN = NaN"

fun jadd :: "jsnum \<Rightarrow> jsnum \<Rightarrow> jsnum" where
  "jadd (Num a) (Num b) = Num (a + b)"
| "jadd (Num a) PosInf = PosInf"
| "jadd (Num a) NegInf = NegInf"
| "jadd PosInf (Num b) = PosInf"
| "jadd NegInf (Num b) = NegInf"
| "jadd PosInf PosInf = PosInf"
| "jadd NegInf NegInf = NegInf"
| "jadd PosInf NegInf = NaN"
| "jadd NegInf PosInf = NaN"
| "jadd NaN b = NaN"
| "jadd a NaN = NaN"

definition jsub :: "jsnum \<Rightarrow> jsnum \<Rightarrow> jsnum" where
  "jsub a b = jadd a (jneg b)"

fun jmul :: "jsnum \<Rightarrow> jsnum \<Rightarrow> jsnum" where
  "jmul (Num a) (Num b) = Num (a * b)"
| "jmul (Num a) PosInf = (if a = 0 then NaN else if 0 < a then PosInf else NegInf)"
| "jmul (Num a) NegInf = (if a = 0 then NaN else if 0 < a then NegInf else PosInf)"
| "jmul PosInf (Num b) = (if b = 0 then NaN else if 0 < b then PosInf else NegInf)"
| "jmul NegInf (Num b) = (if b = 0 then NaN else if 0 < b then NegInf else PosInf)"
| "jmul PosInf PosInf = PosInf"
| "jmul NegInf NegInf = PosInf"
| "jmul PosInf NegInf = NegInf"
| "jmul NegInf PosInf = NegInf"
| "jmul NaN b = NaN"
| "jmul a NaN = NaN"

fun jdiv :: "jsnum \<Rightarrow> jsnum \<Rightarrow> jsnum" where
  "jdiv (Num a) (Num b) =
     (if b \<noteq> 0 then Num (a / b)
      else if a = 0 then NaN
      else if 0 < a then PosInf else NegInf)"
| "jdiv (Num a) PosInf = Num 0"
| "jdiv (Num a) NegInf = Num 0"
| "jdiv PosInf (Num b) = (if 0 \<le> b then PosInf else NegInf)"
| "jdiv NegInf (Num b) = (if 0 \<le> b then NegInf else PosInf)"
| "jdiv PosInf PosInf = NaN"
| "jdiv NegInf NegInf = NaN"
| "jdiv PosInf NegInf = NaN"
| "jdiv NegInf PosInf = NaN"
| "jdiv NaN b = NaN"
| "jdiv a NaN = NaN"

text \<open>Comparisons: every comparison with \<open>NaN\<close> is false.\<close>

fun jlt :: "jsnum \<Rightarrow> jsnum \<Rightarrow> bool" where
  "jlt (Num a) (Num b) = (a < b)"
| "jlt (Num a) PosInf = True"
| "jlt (Num a) NegInf = False"
| "jlt PosInf b = False"
| "jlt NegInf (Num b) = True"
| "jlt NegInf PosInf = True"
| "jlt NegInf NegInf = False"
| "jlt a NaN = False"
| "jlt NaN b = False"

fun jeq :: "jsnum \<Rightarrow> jsnum \<Rightarrow> bool" where
  "jeq (Num a) (Num b) = (a = b)"
| "jeq PosInf PosInf = True"
| "jeq NegInf NegInf = True"
| "jeq a b = False"

definition jgt :: "jsnum \<Rightarrow> jsnum \<Rightarrow> bool" where
  "jgt a b = jlt b a"

definition jle :: "jsnum \<Rightarrow> jsnum \<Rightarrow> bool" where
  "jle a b = (jlt a b \<or> jeq a b)"

definition jge :: "jsnum \<Rightarrow> jsnum \<Rightarrow> bool" where
  "jge a b = jle b a"

fun jabs :: "jsnum \<Rightarrow> jsnum" where
  "jabs (Num a) = Num \<bar>a\<bar>"
| "jabs PosInf = PosInf"
| "jabs NegInf = PosInf"
| "jabs NaN = NaN"

fun jsqrt :: "jsnum \<Rightarrow> jsnum" where
  "jsqrt (Num a) = (if a < 0 then NaN else Num (sqrt a))"
| "jsqrt PosInf = PosInf"
| "jsqrt NegInf = NaN"
| "jsqrt NaN = NaN"

fun jexp :: "jsnum \<Rightarrow> jsnum" where
  "jexp (Num a) = Num (exp a)"
| "jexp PosInf = PosInf"
| "jexp NegInf = Num 0"
| "jexp NaN = NaN"

fun jlog :: "jsnum \<Rightarrow> jsnum" where
  "jlog (Num a) = (if 0 < a then Num (ln a) else if a = 0 then NegInf else NaN)"
| "jlog PosInf = PosInf"
| "jlog NegInf = NaN"
| "jlog NaN = NaN"

fun jtanh :: "jsnum \<Rightarrow> jsnum" where
  "jtanh (Num a) = Num (tanh a)"
| "jtanh PosInf = Num 1"
| "jtanh NegInf = Num (- 1)"
| "jtanh NaN = NaN"

text \<open>\<open>Math.max(a, b)\<close> and \<open>Math.min(a, b)\<close>: \<open>NaN\<close> if either argument is.\<close>

fun jmax2 :: "jsnum \<Rightarrow> jsnum \<Rightarrow> jsnum" where
  "jmax2 NaN b = NaN"
| "jmax2 a NaN = NaN"
| "jmax2 a b = (if jlt a b then b else a)"

fun jmin2 :: "jsnum \<Rightarrow> jsnum \<Rightarrow> jsnum" where
  "jmin2 NaN b = NaN"
| "jmin2 a NaN = NaN"
| "jmin2 a b = (if jlt b a then b else a)"

text \<open>\<open>Math.max(...xs)\<close> starts from \<open>-Infinity\<close>, \<open>Math.min(...xs)\<close> from \<open>Infinity\<close>.\<close>

definition Math_max :: "jsnum list \<Rightarrow> jsnum" where
  "Math_max xs = foldl jmax2 NegInf xs"

definition Math_min :: "jsnum list \<Rightarrow> jsnum" where
  "Math_min xs = foldl jmin2 PosInf xs"

fun is_finite :: "jsnum \<Rightarrow> bool" where
  "is_finite (Num a) = True"
| "is_finite a = False"

text \<open>The values of a sum of gains or losses: a finite number that is not negative, or
  \<open>Infinity\<close>.\<close>

fun nonneg :: "jsnum \<Rightarrow> bool" where
  "nonneg (Num a) = (0 \<le> a)"
| "nonneg PosInf = True"
| "nonneg a = False"

subsection \<open>Rounding to the nearest double\<close>

text \<open>
  A double has a 53-bit significand; its unit in the last place is \<open>2 ^ (e - 52)\<close> for a
  number in \<open>[2 ^ e, 2 ^ (e + 1))\<close>, with \<open>e\<close> no less than \<open>-1022\<close> (below that the
  numbers are subnormal and the unit stays \<open>2 ^ -1074\<close>). \<open>rnd x\<close> is the multiple of
  the unit nearest to \<open>x\<close>, the even multiple on a tie; \<open>fl x\<close> is the double the
  operation delivers: \<open>Infinity\<close> or \<open>-Infinity\<close> once the rounded magnitude reaches
  \<open>2 ^ 1024\<close>. A numeric literal of the source denotes \<open>fl\<close> of its decimal value.
\<close>

definition rne :: "real \<Rightarrow> int" where
  "rne y = (let f = \<lfloor>y\<rfloor>; d = y - of_int f
            in if d < 1 / 2 then f else if 1 / 2 < d then f + 1
               else if even f then f else f + 1)"

definition ulp_exp :: "real \<Rightarrow> int" where
  "ulp_exp x = max \<lfloor>log 2 \<bar>x\<bar>\<rfloor> (- 1022) - 52"

definition rnd :: "real \<Rightarrow> real" where
  "rnd x = (if x = 0 then 0
            else of_int (rne (x / 2 powr of_int (ulp_exp x))) * 2 powr of_int (ulp_exp x))"

definition overflow_bound :: real where
  "overflow_bound = 2 ^ 1024"

definition fl :: "real \<Rightarrow> jsnum" where
  "fl x = (let r = rnd x
           in if overflow_bound \<le> r then PosInf
              else if r \<le> - overflow_bound then NegInf else Num r)"

fun fadd :: "jsnum \<Rightarrow> jsnum \<Rightarrow> jsnum" where
  "fadd (Num a) (Num b) = fl (a + b)"
| "fadd a b = jadd a b"

definition fsub :: "jsnum \<Rightarrow> jsnum \<Rightarrow> jsnum" where
  "fsub a b = fadd a (jneg b)"

fun fmul :: "jsnum \<Rightarrow> jsnum \<Rightarrow> jsnum" where
  "fmul (Num a) (Num b) = fl (a * b)"
| "fmul a b = jmul a b"

fun fdiv :: "jsnum \<Rightarrow> jsnum \<Rightarrow> jsnum" where
  "fdiv (Num a) (Num b) = (if b \<noteq> 0 then fl (a / b) else jdiv (Num a) (Num b))"
| "fdiv a b = jdiv a b"

text \<open>The doubles: an integer of fewer than 54 bits times a power of two no smaller
  than \<open>2 ^ -1074\<close>.\<close>

definition representable :: "real \<Rightarrow> bool" where
  "representable x \<longleftrightarrow>
     (\<exists>m e. \<bar>m\<bar> < 2 ^ 53 \<and> - 1074 \<le> e \<and> x = of_int m * 2 powr of_int e)"

subsection \<open>Arrays\<close>

text \<open>
  \<open>xs.slice(-n)\<close>: the last \<open>n\<close> elements, the whole array when it is shorter, and
  also when \<open>n = 0\<close> (\<open>slice(-0)\<close> is \<open>slice(0)\<close>).
\<close>

definition slice_last :: "nat \<Rightarrow> 'a list \<Rightarrow> 'a list" where
  "slice_last n xs = (if n = 0 then xs else drop (length xs - n) xs)"

section \<open>Indicator engine\<close>

subsection \<open>RSI\<close>

text \<open>
  \<open>calculateRSI(prices, period = 14)\<close>. The first loop sums the gains and losses of the
  changes \<open>1..period\<close>; the second smooths the averages over the remaining changes.
\<close>

definition rsi_sum_step :: "real list \<Rightarrow> jsnum \<times> jsnum \<Rightarrow> nat \<Rightarrow> jsnum \<times> jsnum" where
  "rsi_sum_step prices gl i =
     (let change = fsub (Num (prices ! i)) (Num (prices ! (i - 1)))
      in if jgt change (Num 0) then (fadd (fst gl) change, snd gl)
         else (fst gl, fsub (snd gl) change))"

definition rsi_smooth_step :: "real list \<Rightarrow> nat \<Rightarrow> jsnum \<times> jsnum \<Rightarrow> nat \<Rightarrow> jsnum \<times> jsnum" where
  "rsi_smooth_step prices period avgs i =
     (let change = fsub (Num (prices ! i)) (Num (prices ! (i - 1)));
          gain = (if jgt change (Num 0) then change else Num 0);
          loss = (if jlt change (Num 0) then jneg change else Num 0)
      in (fdiv (fadd (fmul (fst avgs) (Num (real period - 1))) gain) (Num (real period)),
          fdiv (fadd (fmul (snd avgs) (Num (real period - 1))) loss) (Num (real period))))"

text \<open>The pair (avgGain, avgLoss) after both loops; only read when
  \<open>period + 1 \<le> length prices\<close>, so every index is in range.\<close>

definition rsi_averages :: "real list \<Rightarrow> nat \<Rightarrow> jsnum \<times> jsnum" where
  "rsi_averages prices period =
     (let gl = foldl (rsi_sum_step prices) (Num 0, Num 0) [1..<Suc period];
          avgGain = fdiv (fst gl) (Num (real period));
          avgLoss = fdiv (snd gl) (Num (real period))
      in foldl (rsi_smooth_step prices period) (avgGain, avgLoss) [Suc period..<length prices])"

definition calculateRSI :: "real list \<Rightarrow> nat \<Rightarrow> jsnum" where
  "calculateRSI prices period =
     (if length prices < period + 1 then Num 50
      else let avgGain = fst (rsi_averages prices period);
               avgLoss = snd (rsi_averages prices period)
           in if jeq avgLoss (Num 0) then Num 100
              else let rs = fdiv avgGain avgLoss
                   in fsub (Num 100) (fdiv (Num 100) (fadd (Num 1) rs)))"

subsection \<open>Moving averages, MACD, Bollinger bands\<close>

definition calculateEMA :: "real list \<Rightarrow> nat \<Rightarrow> real" where
  "calculateEMA prices period =
     (if prices = [] then 0
      else if length prices = 1 then prices ! 0
      else let multiplier = 2 / (real period + 1)
           in foldl (\<lambda>ema i. prices ! i * multiplier + ema * (1 - multiplier))
                (prices ! 0) [1..<length prices])"

text \<open>\<open>prices[prices.length - 1] || 0\<close> is the last price, or 0 for the empty array.\<close>

definition calculateSMA :: "real list \<Rightarrow> nat \<Rightarrow> jsnum" where
  "calculateSMA prices period =
     (if length prices < period then (if prices = [] then Num 0 else Num (last prices))
      else let recentPrices = slice_last period prices
           in jdiv (Num (sum_list recentPrices)) (Num (real period)))"

record MACD =
  macdLine :: jsnum
  signal :: jsnum
  histogram :: jsnum

text \<open>The signal line is the EMA of the one-element array \<open>[macd]\<close>, which is
  \<open>macd\<close> itself.\<close>

definition calculateMACD :: "real list \<Rightarrow> MACD" where
  "calculateMACD prices =
     (let ema12 = calculateEMA prices 12;
          ema26 = calculateEMA prices 26;
          macd = ema12 - ema26;
          macdArray = [macd];
          signal = calculateEMA macdArray 9;
          histogram = macd - signal
      in \<lparr>macdLine = Num macd, signal = Num signal, histogram = Num histogram\<rparr>)"

record BollingerBands =
  upper :: jsnum
  middle :: jsnum
  lower :: jsnum

text \<open>Reading the last element of an empty array gives \<open>undefined\<close>, which every
  arithmetic operation and comparison turns into \<open>NaN\<close>; the model writes \<open>NaN\<close>.\<close>

definition calculateBollingerBands :: "real list \<Rightarrow> nat \<Rightarrow> real \<Rightarrow> BollingerBands" where
  "calculateBollingerBands prices period stdDev =
     (if length prices < period then
        (let lastPrice = (if prices = [] then NaN else Num (last prices))
         in \<lparr>upper = lastPrice, middle = lastPrice, lower = lastPrice\<rparr>)
      else
        (let recentPrices = slice_last period prices;
             sma = jdiv (Num (sum_list recentPrices)) (Num (real period));
             variance = jdiv (foldl (\<lambda>sum price. jadd sum (jmul (jsub (Num price) sma) (jsub (Num price) sma)))
                               (Num 0) recentPrices) (Num (real period));
             standardDeviation = jsqrt variance
         in \<lparr>upper = jadd sma (jmul standardDeviation (Num stdDev)),
             middle = sma,
             lower = jsub sma (jmul standardDeviation (Num stdDev))\<rparr>))"

subsection \<open>Stochastic oscillator, volatility, support and resistance\<close>

record Stochastic =
  percentK :: jsnum
  percentD :: jsnum

definition calculateStochastic :: "real list \<Rightarrow> real list \<Rightarrow> real list \<Rightarrow> nat \<Rightarrow> Stochastic" where
  "calculateStochastic highs lows closes period =
     (if length closes < period then \<lparr>percentK = Num 50, percentD = Num 50\<rparr>
      else
        (let recentHighs = slice_last period highs;
             recentLows = slice_last period lows;
             currentClose = (if closes = [] then NaN else Num (last closes));
             highestHigh = Math_max (map Num recentHighs);
             lowestLow = Math_min (map Num recentLows);
             k = jmul (jdiv (jsub currentClose lowestLow) (jsub highestHigh lowestLow)) (Num 100);
             d = k
         in \<lparr>percentK = k, percentD = d\<rparr>))"

definition jsum :: "jsnum list \<Rightarrow> jsnum" where
  "jsum xs = foldl jadd (Num 0) xs"

definition calculateVolatility :: "real list \<Rightarrow> nat \<Rightarrow> jsnum" where
  "calculateVolatility prices period =
     (if length prices < period then Num 0
      else
        (let returns = map (\<lambda>i. jlog (jdiv (Num (prices ! i)) (Num (prices ! (i - 1)))))
                         [1..<min (length prices) (period + 1)];
             mean = jdiv (jsum returns) (Num (real (length returns)));
             variance = jdiv (jsum (map (\<lambda>ret. jmul (jsub ret mean) (jsub ret mean)) returns))
                             (Num (real (length returns)))
         in jmul (jsqrt variance) (Num (sqrt 252))))"

record SupportResistance =
  sr_support :: jsnum
  sr_resistance :: jsnum

definition calculateSupportResistance :: "real list \<Rightarrow> real list \<Rightarrow> nat \<Rightarrow> SupportResistance" where
  "calculateSupportResistance highs lows period =
     (if length highs < period \<or> length lows < period then
        (let lastHigh = (if highs = [] then 0 else last highs);
             lastLow = (if lows = [] then 0 else last lows)
         in \<lparr>sr_support = Num lastLow, sr_resistance = Num lastHigh\<rparr>)
      else
        (let recentHighs = slice_last period highs;
             recentLows = slice_last period lows;
             resistance = Math_max (map Num recentHighs);
             support = Math_min (map Num recentLows)
         in \<lparr>sr_support = support, sr_resistance = resistance\<rparr>))"

subsection \<open>The indicator snapshot\<close>

text \<open>A bar. Its numbers come from the market-data provider and are finite.\<close>

record MarketData =
  symbol :: string
  price :: real
  change :: real
  changePercent :: real
  volume :: real
  high :: real
  low :: real
  openPrice :: real
  timestamp :: real

text \<open>The fields \<open>macd.macd\<close>, \<open>stochastic.k\<close> and \<open>stochastic.d\<close> of the source are
  \<open>macdLine\<close>, \<open>percentK\<close> and \<open>percentD\<close> here.\<close>

record TechnicalIndicators =
  rsi :: jsnum
  macd :: MACD
  bollingerBands :: BollingerBands
  sma20 :: jsnum
  sma50 :: jsnum
  ema12 :: jsnum
  ema26 :: jsnum
  stochastic :: Stochastic
  volatility :: jsnum
  support :: jsnum
  resistance :: jsnum

definition calculateTechnicalIndicators :: "MarketData list \<Rightarrow> TechnicalIndicators" where
  "calculateTechnicalIndicators marketData =
     (if marketData = [] then
        \<lparr>rsi = Num 50,
         macd = \<lparr>macdLine = Num 0, signal = Num 0, histogram = Num 0\<rparr>,
         bollingerBands = \<lparr>upper = Num 0, middle = Num 0, lower = Num 0\<rparr>,
         sma20 = Num 0, sma50 = Num 0, ema12 = Num 0, ema26 = Num 0,
         stochastic = \<lparr>percentK = Num 50, percentD = Num 50\<rparr>,
         volatility = Num 0, support = Num 0, resistance = Num 0\<rparr>
      else
        (let prices = map price marketData;
             highs = map high marketData;
             lows = map low marketData;
             closes = map price marketData
         in \<lparr>rsi = calculateRSI prices 14,
             macd = calculateMACD prices,
             bollingerBands = calculateBollingerBands prices 20 2,
             sma20 = calculateSMA prices 20,
             sma50 = calculateSMA prices 50,
             ema12 = Num (calculateEMA prices 12),
             ema26 = Num (calculateEMA prices 26),
             stochastic = calculateStochastic highs lows closes 14,
             volatility = calculateVolatility prices 20,
             support = sr_support (calculateSupportResistance highs lows 20),
             resistance = sr_resistance (calculateSupportResistance highs lows 20)\<rparr>))"

section \<open>Feature extractor\<close>

definition normalizeData :: "jsnum list \<Rightarrow> jsnum list" where
  "normalizeData data =
     (let min = Math_min data;
          max = Math_max data;
          range = fsub max min
      in if jeq range (Num 0) then map (\<lambda>_. Num 0.5) data
         else map (\<lambda>value. fdiv (fsub value min) range) data)"

definition extractFeatures :: "MarketData list \<Rightarrow> TechnicalIndicators \<Rightarrow> jsnum list" where
  "extractFeatures marketData indicators =
     (if marketData = [] then replicate 15 (Num 0)
      else
        (let latest = last marketData
         in normalizeData
              [rsi indicators,
               jmul (macdLine (macd indicators)) (Num 1000),
               upper (bollingerBands indicators),
               middle (bollingerBands indicators),
               lower (bollingerBands indicators),
               sma20 indicators,
               sma50 indicators,
               ema12 indicators,
               ema26 indicators,
               percentK (stochastic indicators),
               percentD (stochastic indicators),
               jmul (volatility indicators) (Num 100),
               Num (changePercent latest),
               jdiv (jsub (Num (price latest)) (support indicators)) (support indicators),
               jdiv (jsub (resistance indicators) (Num (price latest))) (Num (price latest))]))"

section \<open>Rule-based scorer\<close>

record RuleSignals =
  rb_confidence :: real
  rb_reasoning :: "string list"

text \<open>The two counters and the reasoning list, as the six checks update them.\<close>

type_synonym tally = "nat \<times> nat \<times> string list"

definition bullish :: "string \<Rightarrow> tally \<Rightarrow> tally" where
  "bullish msg t = (case t of (bullishSignals, bearishSignals, reasoning) \<Rightarrow>
     (bullishSignals + 1, bearishSignals, reasoning @ [msg]))"

definition bearish :: "string \<Rightarrow> tally \<Rightarrow> tally" where
  "bearish msg t = (case t of (bullishSignals, bearishSignals, reasoning) \<Rightarrow>
     (bullishSignals, bearishSignals + 1, reasoning @ [msg]))"

text \<open>The six checks, in the order of the source; each adds at most one vote and its
  reason.\<close>

definition checkRSI :: "TechnicalIndicators \<Rightarrow> tally \<Rightarrow> tally" where
  "checkRSI indicators t =
     (if jlt (rsi indicators) (Num 30)
        then bullish ''RSI oversold (< 30) - bullish signal'' t
      else if jgt (rsi indicators) (Num 70)
        then bearish ''RSI overbought (> 70) - bearish signal'' t
      else t)"

definition checkMACD :: "TechnicalIndicators \<Rightarrow> tally \<Rightarrow> tally" where
  "checkMACD indicators t =
     (if jgt (macdLine (macd indicators)) (signal (macd indicators))
         \<and> jgt (histogram (macd indicators)) (Num 0)
        then bullish ''MACD bullish crossover'' t
      else if jlt (macdLine (macd indicators)) (signal (macd indicators))
         \<and> jlt (histogram (macd indicators)) (Num 0)
        then bearish ''MACD bearish crossover'' t
      else t)"

definition checkBollingerBands :: "TechnicalIndicators \<Rightarrow> MarketData \<Rightarrow> tally \<Rightarrow> tally" where
  "checkBollingerBands indicators currentData t =
     (if jle (Num (price currentData)) (lower (bollingerBands indicators))
        then bullish ''Price at lower Bollinger Band - oversold'' t
      else if jge (Num (price currentData)) (upper (bollingerBands indicators))
        then bearish ''Price at upper Bollinger Band - overbought'' t
      else t)"

definition checkMovingAverages :: "TechnicalIndicators \<Rightarrow> MarketData \<Rightarrow> tally \<Rightarrow> tally" where
  "checkMovingAverages indicators currentData t =
     (if jgt (ema12 indicators) (ema26 indicators)
         \<and> jgt (Num (price currentData)) (sma20 indicators)
        then bullish ''Price above SMA20 with EMA12 > EMA26 - bullish trend'' t
      else if jlt (ema12 indicators) (ema26 indicators)
         \<and> jlt (Num (price currentData)) (sma20 indicators)
        then bearish ''Price below SMA20 with EMA12 < EMA26 - bearish trend'' t
      else t)"

definition checkStochastic :: "TechnicalIndicators \<Rightarrow> tally \<Rightarrow> tally" where
  "checkStochastic indicators t =
     (if jlt (percentK (stochastic indicators)) (Num 20)
         \<and> jlt (percentD (stochastic indicators)) (Num 20)
        then bullish ''Stochastic oversold - bullish signal'' t
      else if jgt (percentK (stochastic indicators)) (Num 80)
         \<and> jgt (percentD (stochastic indicators)) (Num 80)
        then bearish ''Stochastic overbought - bearish signal'' t
      else t)"

definition checkSupportResistance :: "TechnicalIndicators \<Rightarrow> MarketData \<Rightarrow> tally \<Rightarrow> tally" where
  "checkSupportResistance indicators currentData t =
     (let priceNearSupport =
            jlt (jdiv (jabs (jsub (Num (price currentData)) (support indicators)))
                      (Num (price currentData))) (Num 0.01);
          priceNearResistance =
            jlt (jdiv (jabs (jsub (Num (price currentData)) (resistance indicators)))
                      (Num (price currentData))) (Num 0.01)
      in if priceNearSupport
           then bullish ''Price near support level - potential bounce'' t
         else if priceNearResistance
           then bearish ''Price near resistance level - potential rejection'' t
         else t)"

definition analyzeRuleBasedSignals :: "TechnicalIndicators \<Rightarrow> MarketData \<Rightarrow> RuleSignals" where
  "analyzeRuleBasedSignals indicators currentData =
     (let t0 = (0, 0, []);
          t1 = checkRSI indicators t0;
          t2 = checkMACD indicators t1;
          t3 = checkBollingerBands indicators currentData t2;
          t4 = checkMovingAverages indicators currentData t3;
          t5 = checkStochastic indicators t4;
          t6 = checkSupportResistance indicators currentData t5
      in case t6 of (bullishSignals, bearishSignals, reasoning) \<Rightarrow>
           (let totalSignals = bullishSignals + bearishSignals;
                confidence = (if totalSignals = 0 then 0.5
                              else real bullishSignals / real totalSignals)
            in \<lparr>rb_confidence = confidence, rb_reasoning = reasoning\<rparr>))"

section \<open>Prediction log and model evaluator\<close>

datatype Direction = CALL | PUT

text \<open>
  \<open>JSON.stringify\<close> writes a finite number as itself and \<open>NaN\<close>, \<open>Infinity\<close> and
  \<open>-Infinity\<close> as \<open>null\<close>. A JSON number-or-null is a \<open>real option\<close>.
\<close>

fun json_of_num :: "jsnum \<Rightarrow> real option" where
  "json_of_num (Num a) = Some a"
| "json_of_num a = None"

text \<open>An entry of the log \<open>predictions_<symbol>\<close>; \<open>actualOutcome = None\<close> is
  \<open>null\<close>, an outcome not yet resolved.\<close>

record PredictionEntry =
  pe_timestamp :: real
  pe_prediction :: Direction
  pe_confidence :: "real option"
  pe_features :: "real option list"
  actualOutcome :: "Direction option"

text \<open>
  What a storage key holds: nothing (\<open>getItem\<close> returns \<open>null\<close>; the map has no
  entry), a text that \<open>JSON.parse\<close> rejects, or the JSON text of a value.
\<close>

datatype 'a stored = Unparsable | Parsed 'a

type_synonym prediction_store = "string \<rightharpoonup> PredictionEntry list stored"

record ModelMetrics =
  accuracy :: real
  precision :: real
  recall :: real
  f1Score :: real
  sharpeRatio :: real
  winRate :: real
  totalTrades :: nat
  profitableTrades :: nat

definition zeroMetrics :: ModelMetrics where
  "zeroMetrics = \<lparr>accuracy = 0, precision = 0, recall = 0, f1Score = 0, sharpeRatio = 0,
                  winRate = 0, totalTrades = 0, profitableTrades = 0\<rparr>"

text \<open>\<open>x / y || 0\<close> for finite \<open>x\<close>, \<open>y\<close> with \<open>0 \<le> x \<le> y\<close>: \<open>0/0\<close> is
  \<open>NaN\<close>, which \<open>||\<close> replaces by 0.\<close>

definition ratio_or_zero :: "real \<Rightarrow> real \<Rightarrow> real" where
  "ratio_or_zero x y = (if y = 0 then 0 else x / y)"

definition evaluateModel :: "prediction_store \<Rightarrow> string \<Rightarrow> ModelMetrics" where
  "evaluateModel store symb =
     (case store symb of
        None \<Rightarrow> zeroMetrics
      | Some Unparsable \<Rightarrow> zeroMetrics
      | Some (Parsed predictions) \<Rightarrow>
          if length predictions = 0 then zeroMetrics
          else
            (let completedPredictions = filter (\<lambda>p. actualOutcome p \<noteq> None) predictions
             in if length completedPredictions = 0 then zeroMetrics
                else
                  (let wasCorrect = (\<lambda>pred. Some (pe_prediction pred) = actualOutcome pred);
                       correct = length (filter wasCorrect completedPredictions);
                       profitable = length (filter wasCorrect completedPredictions);
                       truePositives = length (filter (\<lambda>pred. pe_prediction pred = CALL
                                          \<and> actualOutcome pred = Some CALL) completedPredictions);
                       falsePositives = length (filter (\<lambda>pred. pe_prediction pred = CALL
                                          \<and> actualOutcome pred = Some PUT) completedPredictions);
                       falseNegatives = length (filter (\<lambda>pred. pe_prediction pred = PUT
                                          \<and> actualOutcome pred = Some CALL) completedPredictions);
                       n = real (length completedPredictions);
                       accuracy = real correct / n;
                       precision = ratio_or_zero (real truePositives)
                                     (real truePositives + real falsePositives);
                       recall = ratio_or_zero (real truePositives)
                                  (real truePositives + real falseNegatives);
                       f1Score = ratio_or_zero (2 * (precision * recall)) (precision + recall);
                       winRate = real profitable / n;
                       returns = map (\<lambda>pred. if wasCorrect pred then 0.8 else - 1.0)
                                     completedPredictions;
                       avgReturn = sum_list returns / real (length returns);
                       variance = sum_list (map (\<lambda>ret. (ret - avgReturn)\<^sup>2) returns)
                                    / real (length returns);
                       sharpeRatio = (if 0 < variance then avgReturn / sqrt variance else 0)
                   in \<lparr>accuracy = accuracy, precision = precision, recall = recall,
                       f1Score = f1Score, sharpeRatio = sharpeRatio, winRate = winRate,
                       totalTrades = length completedPredictions,
                       profitableTrades = profitable\<rparr>)))"

record TradingSignal =
  sig_symbol :: string
  direction :: Direction
  confidence :: jsnum
  duration :: nat
  entryPrice :: real
  stopLoss :: jsnum
  takeProfit :: jsnum
  sig_timestamp :: real
  reasoning :: "string list"
  technicalIndicators :: TechnicalIndicators

text \<open>
  \<open>storePrediction(symbol, signal, features)\<close> on the store of the keys
  \<open>predictions_<symbol>\<close> and the engine's map \<open>historicalPredictions\<close>. The store is
  taken to be reliable (\<open>getItem\<close> and \<open>setItem\<close> do not throw); when the stored text
  does not parse, \<open>JSON.parse\<close> throws, the \<open>catch\<close> logs, and nothing is written.
\<close>

definition newEntry :: "TradingSignal \<Rightarrow> jsnum list \<Rightarrow> PredictionEntry" where
  "newEntry sig features =
     \<lparr>pe_timestamp = sig_timestamp sig,
      pe_prediction = direction sig,
      pe_confidence = json_of_num (confidence sig),
      pe_features = map json_of_num features,
      actualOutcome = None\<rparr>"

definition storePrediction ::
  "prediction_store \<times> (string \<rightharpoonup> PredictionEntry list) \<Rightarrow> string \<Rightarrow> TradingSignal \<Rightarrow> jsnum list
     \<Rightarrow> prediction_store \<times> (string \<rightharpoonup> PredictionEntry list)" where
  "storePrediction st symb sig features =
     (case fst st symb of
        Some Unparsable \<Rightarrow> st
      | existing \<Rightarrow>
          (let predictions0 = (case existing of Some (Parsed ps) \<Rightarrow> ps | _ \<Rightarrow> []);
               predictions1 = predictions0 @ [newEntry sig features];
               predictions = (if 1000 < length predictions1 then slice_last 1000 predictions1
                              else predictions1)
           in ((fst st)(symb \<mapsto> Parsed predictions), (snd st)(symb \<mapsto> predictions))))"

section \<open>The neural network model (MLModelTraining)\<close>

text \<open>A value read back from JSON may be \<open>null\<close>; arithmetic converts \<open>null\<close> to 0.\<close>

datatype jsval = Null | Number jsnum

fun toNumber :: "jsval \<Rightarrow> jsnum" where
  "toNumber Null = Num 0"
| "toNumber (Number a) = a"

fun json_of_val :: "jsval \<Rightarrow> real option" where
  "json_of_val Null = None"
| "json_of_val (Number a) = json_of_num a"

fun val_of_json :: "real option \<Rightarrow> jsval" where
  "val_of_json None = Null"
| "val_of_json (Some a) = Number (Num a)"

datatype Activation = Relu | Sigmoid | Tanh

record ModelArchitecture =
  inputSize :: nat
  hiddenLayers :: "nat list"
  outputSize :: nat
  activationFunction :: Activation
  learningRate :: real
  epochs :: nat
  batchSize :: nat

record 'n TrainingMetrics =
  epoch :: nat
  loss :: 'n
  tm_accuracy :: 'n
  validationLoss :: 'n
  validationAccuracy :: 'n
  tm_learningRate :: real

record MLModel =
  architecture :: ModelArchitecture
  weights :: "jsval list list"
  biases :: "jsval list list"
  trainingHistory :: "jsval TrainingMetrics list"
  ml_symbol :: string

definition sigmoid :: "jsnum \<Rightarrow> jsnum" where
  "sigmoid x = jdiv (Num 1) (jadd (Num 1) (jexp (jneg x)))"

definition relu :: "jsnum \<Rightarrow> jsnum" where
  "relu x = jmax2 (Num 0) x"

fun activate :: "jsnum \<Rightarrow> Activation \<Rightarrow> jsnum" where
  "activate x Relu = jmax2 (Num 0) x"
| "activate x Sigmoid = jdiv (Num 1) (jadd (Num 1) (jexp (jneg x)))"
| "activate x Tanh = jtanh x"

text \<open>\<open>layerWeights[i]\<close> as a factor: \<open>undefined\<close> out of range, which the product
  turns into \<open>NaN\<close>.\<close>

definition weightAt :: "jsval list \<Rightarrow> nat \<Rightarrow> jsnum" where
  "weightAt layerWeights i = (if i < length layerWeights then toNumber (layerWeights ! i) else NaN)"

text \<open>One layer of \<open>forwardPropagate\<close>: the sums before activation and the activations.\<close>

definition forwardLayer ::
  "Activation \<Rightarrow> jsval list \<Rightarrow> jsval list \<Rightarrow> jsval list \<Rightarrow> jsval list \<times> jsnum list" where
  "forwardLayer activationFunc previousOutput layerWeights layerBiases =
     (let layerSize = length layerBiases;
          prevLayerSize = length previousOutput;
          layerOutput = map (\<lambda>neuron.
              foldl (\<lambda>sum prevNeuron.
                       Number (jadd (toNumber sum)
                                 (jmul (toNumber (previousOutput ! prevNeuron))
                                       (weightAt layerWeights (neuron * prevLayerSize + prevNeuron)))))
                    (layerBiases ! neuron) [0..<prevLayerSize])
            [0..<layerSize];
          layerActivation = map (\<lambda>sum. activate (toNumber sum) activationFunc) layerOutput
      in (layerOutput, layerActivation))"

datatype js_error = TypeError | Error string

text \<open>
  The loop over the layers. The next layer reads \<open>outputs[layer]\<close>, the sums of the
  previous layer. When \<open>biases\<close> is shorter than \<open>weights\<close>, \<open>biases[layer]\<close> is
  \<open>undefined\<close> and reading its length throws a TypeError.
\<close>

definition forwardStep ::
  "MLModel \<Rightarrow> js_error + (jsval list list \<times> jsnum list list) \<Rightarrow> nat
     \<Rightarrow> js_error + (jsval list list \<times> jsnum list list)" where
  "forwardStep m acc layer =
     (case acc of
        Inl e \<Rightarrow> Inl e
      | Inr (outputs, activations) \<Rightarrow>
          if length (biases m) \<le> layer then Inl TypeError
          else
            (let activationFunc = (if layer = length (weights m) - 1 then Sigmoid
                                   else activationFunction (architecture m));
                 r = forwardLayer activationFunc (outputs ! layer) (weights m ! layer) (biases m ! layer)
             in Inr (outputs @ [fst r], activations @ [snd r])))"

definition forwardPropagate ::
  "MLModel \<Rightarrow> jsnum list \<Rightarrow> js_error + (jsval list list \<times> jsnum list list)" where
  "forwardPropagate m input =
     foldl (forwardStep m) (Inr ([map Number input], [input])) [0..<length (weights m)]"

text \<open>\<open>predict\<close> returns \<open>activations[activations.length - 1][0]\<close>; when that array is
  empty the result is \<open>undefined\<close>, written \<open>NaN\<close>.\<close>

definition predict :: "MLModel \<Rightarrow> jsnum list \<Rightarrow> js_error + jsnum" where
  "predict m features =
     (case forwardPropagate m features of
        Inl e \<Rightarrow> Inl e
      | Inr (outputs, activations) \<Rightarrow>
          Inr (if last activations = [] then NaN else last activations ! 0))"

subsection \<open>Construction\<close>

text \<open>
  The constructor merges the architecture it is given into the defaults and calls
  \<open>initializeWeights\<close>: for each pair of consecutive layers, \<open>current * next\<close> weights
  drawn with \<open>Math.random\<close> and scaled by the Xavier limit, and \<open>next\<close> zero biases.
  \<open>random i j\<close> is the value \<open>Math.random()\<close> returns for weight \<open>j\<close> of layer \<open>i\<close>.
\<close>

definition defaultArchitecture :: ModelArchitecture where
  "defaultArchitecture =
     \<lparr>inputSize = 15, hiddenLayers = [32, 16], outputSize = 1, activationFunction = Relu,
      learningRate = 0.001, epochs = 100, batchSize = 32\<rparr>"

definition layerSizes :: "ModelArchitecture \<Rightarrow> nat list" where
  "layerSizes arch = inputSize arch # hiddenLayers arch @ [outputSize arch]"

definition initializeWeights ::
  "ModelArchitecture \<Rightarrow> (nat \<Rightarrow> nat \<Rightarrow> real) \<Rightarrow> jsval list list \<times> jsval list list" where
  "initializeWeights arch random =
     (let layers = layerSizes arch
      in (map (\<lambda>i. let currentLayerSize = layers ! i;
                        nextLayerSize = layers ! (i + 1);
                        limit = jsqrt (jdiv (Num 6) (Num (real (currentLayerSize + nextLayerSize))))
                    in map (\<lambda>j. Number (jmul (Num (random i j * 2 - 1)) limit))
                         [0..<currentLayerSize * nextLayerSize])
            [0..<length layers - 1],
          map (\<lambda>i. replicate (layers ! (i + 1)) (Number (Num 0))) [0..<length layers - 1]))"

definition newModel :: "string \<Rightarrow> ModelArchitecture \<Rightarrow> (nat \<Rightarrow> nat \<Rightarrow> real) \<Rightarrow> MLModel" where
  "newModel symb arch random =
     \<lparr>architecture = arch,
      weights = fst (initializeWeights arch random),
      biases = snd (initializeWeights arch random),
      trainingHistory = [],
      ml_symbol = symb\<rparr>"

text \<open>The shape \<open>initializeWeights\<close> gives to the weights and biases of an architecture.
  \<open>updateWeights\<close> changes the numbers in place, and \<open>saveModel\<close> and \<open>loadModel\<close>
  write and read the arrays element by element, so a model keeps its shape.\<close>

definition hasShape :: "ModelArchitecture \<Rightarrow> MLModel \<Rightarrow> bool" where
  "hasShape arch m \<longleftrightarrow>
     (let layers = layerSizes arch
      in map length (weights m) = map (\<lambda>i. layers ! i * layers ! (i + 1)) [0..<length layers - 1]
       \<and> map length (biases m) = map (\<lambda>i. layers ! (i + 1)) [0..<length layers - 1])"

subsection \<open>Saving and loading\<close>

record ModelData =
  md_architecture :: ModelArchitecture
  md_weights :: "real option list list"
  md_biases :: "real option list list"
  md_trainingHistory :: "real option TrainingMetrics list"
  md_timestamp :: real

definition metrics_to_json :: "jsval TrainingMetrics \<Rightarrow> real option TrainingMetrics" where
  "metrics_to_json t =
     \<lparr>epoch = epoch t, loss = json_of_val (loss t), tm_accuracy = json_of_val (tm_accuracy t),
      validationLoss = json_of_val (validationLoss t),
      validationAccuracy = json_of_val (validationAccuracy t),
      tm_learningRate = tm_learningRate t\<rparr>"

definition metrics_of_json :: "real option TrainingMetrics \<Rightarrow> jsval TrainingMetrics" where
  "metrics_of_json t =
     \<lparr>epoch = epoch t, loss = val_of_json (loss t), tm_accuracy = val_of_json (tm_accuracy t),
      validationLoss = val_of_json (validationLoss t),
      validationAccuracy = val_of_json (validationAccuracy t),
      tm_learningRate = tm_learningRate t\<rparr>"

type_synonym model_store = "string \<rightharpoonup> ModelData stored"

text \<open>\<open>saveModel\<close> writes the key \<open>ml_model_<symbol>\<close>; the store is reliable and
  \<open>now\<close> is \<open>Date.now()\<close>.\<close>

definition saveModel :: "real \<Rightarrow> model_store \<Rightarrow> MLModel \<Rightarrow> model_store" where
  "saveModel now store m =
     store(ml_symbol m \<mapsto> Parsed
       \<lparr>md_architecture = architecture m,
        md_weights = map (map json_of_val) (weights m),
        md_biases = map (map json_of_val) (biases m),
        md_trainingHistory = map metrics_to_json (trainingHistory m),
        md_timestamp = now\<rparr>)"

definition loadModel :: "model_store \<Rightarrow> MLModel \<Rightarrow> bool \<times> MLModel" where
  "loadModel store m =
     (case store (ml_symbol m) of
        None \<Rightarrow> (False, m)
      | Some Unparsable \<Rightarrow> (False, m)
      | Some (Parsed modelData) \<Rightarrow>
          (True, m\<lparr>architecture := md_architecture modelData,
                   weights := map (map val_of_json) (md_weights modelData),
                   biases := map (map val_of_json) (md_biases modelData),
                   trainingHistory := map metrics_of_json (md_trainingHistory modelData)\<rparr>))"

text \<open>The values that a JSON round trip gives back unchanged: \<open>null\<close> and the finite
  numbers.\<close>

fun survives_json :: "jsval \<Rightarrow> bool" where
  "survives_json Null = True"
| "survives_json (Number a) = is_finite a"

definition metrics_survive :: "jsval TrainingMetrics \<Rightarrow> bool" where
  "metrics_survive t \<longleftrightarrow>
     survives_json (loss t) \<and> survives_json (tm_accuracy t)
     \<and> survives_json (validationLoss t) \<and> survives_json (validationAccuracy t)"

subsection \<open>Training samples\<close>

record TrainingData =
  td_features :: "jsnum list"
  label :: nat
  td_timestamp :: real

text \<open>\<open>prepareTrainingData\<close>: one sample for each bar but the last that has an
  indicator snapshot (\<open>if (!indicators) continue\<close>).\<close>

definition trainingSample :: "MarketData \<Rightarrow> MarketData \<Rightarrow> TechnicalIndicators \<Rightarrow> TrainingData" where
  "trainingSample currentData nextData indicators =
     (let p = Num (price currentData);
          features =
            [jdiv (rsi indicators) (Num 100),
             jtanh (jmul (macdLine (macd indicators)) (Num 1000)),
             jdiv (jsub (upper (bollingerBands indicators)) p) p,
             jdiv (jsub (middle (bollingerBands indicators)) p) p,
             jdiv (jsub (lower (bollingerBands indicators)) p) p,
             jdiv (jsub (sma20 indicators) p) p,
             jdiv (jsub (sma50 indicators) p) p,
             jdiv (jsub (ema12 indicators) p) p,
             jdiv (jsub (ema26 indicators) p) p,
             jdiv (percentK (stochastic indicators)) (Num 100),
             jdiv (percentD (stochastic indicators)) (Num 100),
             jtanh (jmul (volatility indicators) (Num 10)),
             jtanh (jdiv (Num (changePercent currentData)) (Num 10)),
             jdiv (jsub p (support indicators)) (support indicators),
             jdiv (jsub (resistance indicators) p) p]
      in \<lparr>td_features = features,
          label = (if price currentData < price nextData then 1 else 0),
          td_timestamp = timestamp currentData\<rparr>)"

definition prepareTrainingData :: "MarketData list \<Rightarrow> TechnicalIndicators list \<Rightarrow> TrainingData list" where
  "prepareTrainingData marketDataHistory indicatorsHistory =
     map (\<lambda>i. trainingSample (marketDataHistory ! i) (marketDataHistory ! (i + 1))
                 (indicatorsHistory ! i))
       (filter (\<lambda>i. i < length indicatorsHistory) [0..<length marketDataHistory - 1])"

section \<open>Signal generator\<close>

text \<open>
  The collaborators, as the results of their calls: the two market-data fetches (they
  catch their own errors and return the empty list or \<open>null\<close>), the sentiment analysis
  and the economic calendar of the data collection, the clock, and the two number
  formats the reasoning strings use (\<open>x.toFixed(1)\<close> and the decimal form of a count).
  \<open>fetchHistoricalData\<close> takes the symbol and the range (\<open>'3mo'\<close> by default).
  \<open>fit\<close> stands for the epochs of \<open>trainModel\<close>, which shuffle the samples with
  \<open>Math.random\<close>: any function from the model and the samples to the model it leaves
  behind and the error it throws, if it throws one.
\<close>

record SentimentAnalysis =
  overallSentiment :: real
  fearGreedIndex :: real

datatype Impact = LowImpact | MediumImpact | HighImpact

record EconomicData =
  ed_timestamp :: real
  impact :: Impact

record Collaborators =
  fetchHistoricalData :: "string \<Rightarrow> string \<Rightarrow> MarketData list"
  fetchRealTimeData :: "string \<Rightarrow> MarketData option"
  calculateSentimentAnalysis :: "string \<Rightarrow> SentimentAnalysis"
  getUpcomingEvents :: "string \<Rightarrow> nat \<Rightarrow> EconomicData list"
  dateNow :: real
  toFixed1 :: "jsnum \<Rightarrow> string"
  showCount :: "nat \<Rightarrow> string"
  fit :: "MLModel \<Rightarrow> TrainingData list \<Rightarrow> MLModel \<times> js_error option"

text \<open>The engine, together with the persistent store it reads and writes.\<close>

record Engine =
  modelWeights :: "string \<rightharpoonup> real list"
  historicalPredictions :: "string \<rightharpoonup> PredictionEntry list"
  mlModels :: "string \<rightharpoonup> MLModel"
  isTraining :: bool
  predictionStore :: prediction_store
  modelStore :: model_store

subsection \<open>The first engine (src/unnamed/part_000)\<close>

text \<open>\<open>weights[i]\<close> and \<open>features[i]\<close> as operands: \<open>undefined\<close> out of range,
  which arithmetic turns into \<open>NaN\<close>.\<close>

definition numAt :: "real list \<Rightarrow> int \<Rightarrow> jsnum" where
  "numAt xs i = (if 0 \<le> i \<and> i < int (length xs) then Num (xs ! nat i) else NaN)"

definition featureAt :: "jsnum list \<Rightarrow> nat \<Rightarrow> jsnum" where
  "featureAt xs i = (if i < length xs then xs ! i else NaN)"

definition neuralNetworkPredict :: "(string \<rightharpoonup> real list) \<Rightarrow> jsnum list \<Rightarrow> string \<Rightarrow> jsnum" where
  "neuralNetworkPredict allWeights features symb =
     (case allWeights symb of
        None \<Rightarrow> Num 0.5
      | Some ws \<Rightarrow>
          (let inputSize = 15;
               hiddenSize = 32;
               hidden = map (\<lambda>h.
                   (let sum0 = foldl (\<lambda>sum i. jadd sum (jmul (featureAt features i)
                                                   (numAt ws (int (h * inputSize + i)))))
                                 (Num 0) [0..<inputSize];
                        sum1 = jadd sum0 (numAt ws (int (inputSize * hiddenSize + h)))
                    in relu sum1))
                 [0..<hiddenSize];
               output0 = foldl (\<lambda>output h. jadd output (jmul (hidden ! h)
                                   (numAt ws (int (inputSize * hiddenSize + hiddenSize + h)))))
                           (Num 0) [0..<hiddenSize];
               output1 = jadd output0 (numAt ws (int (length ws) - 1))
           in sigmoid output1))"

text \<open>\<open>(mlPrediction * 0.6) + (ruleBasedSignals.confidence * 0.4)\<close>, in doubles. The
  scorer's ratio is kept as the exact quotient in \<open>RuleSignals\<close>; the number the code
  holds is the double nearest to it.\<close>

definition combineBase :: "jsnum \<Rightarrow> RuleSignals \<Rightarrow> jsnum" where
  "combineBase mlPrediction ruleBasedSignals =
     fadd (fmul mlPrediction (fl 0.6)) (fmul (fl (rb_confidence ruleBasedSignals)) (fl 0.4))"

text \<open>From the combined confidence to the signal: the direction, the reasoning, the
  risk levels and the reported confidence.\<close>

definition signalBase ::
  "Collaborators \<Rightarrow> MarketData \<Rightarrow> TechnicalIndicators \<Rightarrow> RuleSignals \<Rightarrow> jsnum \<Rightarrow> nat
     \<Rightarrow> TradingSignal option" where
  "signalBase env currentData indicators ruleBasedSignals combinedConfidence dur =
     (let decided =
            (if jgt combinedConfidence (fl 0.6) then
               Some (CALL, [''Strong bullish signal (''
                             @ toFixed1 env (fmul combinedConfidence (Num 100)) @ ''% confidence)''])
             else if jlt combinedConfidence (fl 0.4) then
               Some (PUT, [''Strong bearish signal (''
                            @ toFixed1 env (fmul (fsub (Num 1) combinedConfidence) (Num 100))
                            @ ''% confidence)''])
             else None)
      in case decided of
           None \<Rightarrow> None
         | Some (dir, reasoning0) \<Rightarrow>
             (let reasoning1 = reasoning0 @ rb_reasoning ruleBasedSignals;
                  p = Num (price currentData);
                  volatilityAdjustment = fmul (fmul (volatility indicators) p) (fl 0.01);
                  stopLoss = (if dir = CALL then fsub p volatilityAdjustment
                              else fadd p volatilityAdjustment);
                  takeProfit = (if dir = CALL then fadd p (fmul volatilityAdjustment (Num 2))
                                else fsub p (fmul volatilityAdjustment (Num 2)))
              in Some \<lparr>sig_symbol = symbol currentData,
                       direction = dir,
                       confidence = fmul (jabs (fsub combinedConfidence (Num 0.5))) (Num 2),
                       duration = dur,
                       entryPrice = price currentData,
                       stopLoss = stopLoss,
                       takeProfit = takeProfit,
                       sig_timestamp = dateNow env,
                       reasoning = reasoning1,
                       technicalIndicators = indicators\<rparr>))"

text \<open>The combined confidence of a call that has its data, as a function of the inputs.\<close>

definition combinedConfidenceBase ::
  "Engine \<Rightarrow> MarketData list \<Rightarrow> MarketData \<Rightarrow> string \<Rightarrow> jsnum" where
  "combinedConfidenceBase eng historicalData currentData symb =
     (let indicators = calculateTechnicalIndicators (historicalData @ [currentData]);
          features = extractFeatures (historicalData @ [currentData]) indicators;
          mlPrediction = neuralNetworkPredict (modelWeights eng) features symb;
          ruleBasedSignals = analyzeRuleBasedSignals indicators currentData
      in combineBase mlPrediction ruleBasedSignals)"

definition generateTradingSignalBase ::
  "Collaborators \<Rightarrow> Engine \<Rightarrow> string \<Rightarrow> nat \<Rightarrow> TradingSignal option \<times> Engine" where
  "generateTradingSignalBase env eng symb dur =
     (let historicalData = fetchHistoricalData env symb ''3mo''
      in if historicalData = [] then (None, eng)
         else case fetchRealTimeData env symb of
           None \<Rightarrow> (None, eng)
         | Some currentData \<Rightarrow>
             (let indicators = calculateTechnicalIndicators (historicalData @ [currentData]);
                  features = extractFeatures (historicalData @ [currentData]) indicators;
                  ruleBasedSignals = analyzeRuleBasedSignals indicators currentData;
                  combinedConfidence = combinedConfidenceBase eng historicalData currentData symb
              in case signalBase env currentData indicators ruleBasedSignals combinedConfidence dur of
                   None \<Rightarrow> (None, eng)
                 | Some sig \<Rightarrow>
                     (let st = storePrediction (predictionStore eng, historicalPredictions eng)
                                 symb sig features
                      in (Some sig, eng\<lparr>predictionStore := fst st,
                                         historicalPredictions := snd st\<rparr>))))"

subsection \<open>The engine of src/components/TradingBotEngine.ts\<close>

definition calculateEconomicImpact :: "Collaborators \<Rightarrow> EconomicData list \<Rightarrow> real" where
  "calculateEconomicImpact env events =
     foldl (\<lambda>totalImpact event.
              (let imp = (case impact event of HighImpact \<Rightarrow> 3 | MediumImpact \<Rightarrow> 2 | LowImpact \<Rightarrow> 1);
                   daysUntil = (ed_timestamp event - dateNow env) / (24 * 60 * 60 * 1000);
                   timeWeight = max 0 (1 - daysUntil / 7)
               in totalImpact + imp * timeWeight))
       0 events"

definition extractEnhancedFeatures ::
  "Collaborators \<Rightarrow> MarketData list \<Rightarrow> TechnicalIndicators \<Rightarrow> string \<Rightarrow> jsnum list" where
  "extractEnhancedFeatures env marketData indicators symb =
     (if marketData = [] then replicate 18 (Num 0)
      else
        (let latest = last marketData;
             sentiment = calculateSentimentAnalysis env symb;
             currency1 = take 3 symb;
             currency2 = take 3 (drop 3 symb);
             upcomingEvents1 = getUpcomingEvents env currency1 3;
             upcomingEvents2 = getUpcomingEvents env currency2 3;
             economicImpact1 = calculateEconomicImpact env upcomingEvents1;
             economicImpact2 = calculateEconomicImpact env upcomingEvents2;
             technicalFeatures = normalizeData
               [rsi indicators,
                jmul (macdLine (macd indicators)) (Num 1000),
                upper (bollingerBands indicators),
                middle (bollingerBands indicators),
                lower (bollingerBands indicators),
                sma20 indicators,
                sma50 indicators,
                ema12 indicators,
                ema26 indicators,
                percentK (stochastic indicators),
                percentD (stochastic indicators),
                jmul (volatility indicators) (Num 100),
                Num (changePercent latest),
                jdiv (jsub (Num (price latest)) (support indicators)) (support indicators),
                jdiv (jsub (resistance indicators) (Num (price latest))) (Num (price latest))]
         in technicalFeatures @
              [Num ((overallSentiment sentiment + 1) / 2),
               Num (fearGreedIndex sentiment / 100),
               Num (economicImpact1 / 10),
               Num (economicImpact2 / 10)]))"

definition combineEnhanced :: "jsnum \<Rightarrow> RuleSignals \<Rightarrow> SentimentAnalysis \<Rightarrow> jsnum" where
  "combineEnhanced mlPrediction ruleBasedSignals sentiment =
     (let sentimentWeight = \<bar>overallSentiment sentiment\<bar> * 0.1;
          mlWeight = 0.6 - sentimentWeight;
          ruleWeight = 0.4
      in jadd (jadd (jmul mlPrediction (Num mlWeight))
                    (jmul (Num (rb_confidence ruleBasedSignals)) (Num ruleWeight)))
              (Num (if 0 < overallSentiment sentiment then sentimentWeight else - sentimentWeight)))"

definition signalEnhanced ::
  "Collaborators \<Rightarrow> string \<Rightarrow> MarketData \<Rightarrow> TechnicalIndicators \<Rightarrow> RuleSignals
     \<Rightarrow> SentimentAnalysis \<Rightarrow> jsnum \<Rightarrow> nat \<Rightarrow> TradingSignal option" where
  "signalEnhanced env symb currentData indicators ruleBasedSignals sentiment combinedConfidence dur =
     (let decided =
            (if jgt combinedConfidence (Num 0.65) then
               Some (CALL, [''Strong bullish signal (''
                             @ toFixed1 env (jmul combinedConfidence (Num 100)) @ ''% confidence)''])
             else if jlt combinedConfidence (Num 0.35) then
               Some (PUT, [''Strong bearish signal (''
                            @ toFixed1 env (jmul (jsub (Num 1) combinedConfidence) (Num 100))
                            @ ''% confidence)''])
             else None)
      in case decided of
           None \<Rightarrow> None
         | Some (dir, reasoning0) \<Rightarrow>
             (let s = overallSentiment sentiment;
                  reasoning1 =
                    (if 0.3 < \<bar>s\<bar> then
                       reasoning0 @ [''Market sentiment: ''
                          @ (if 0 < s then ''Positive'' else ''Negative'')
                          @ '' ('' @ toFixed1 env (Num (\<bar>s\<bar> * 100)) @ ''%)'']
                     else reasoning0);
                  reasoning2 = reasoning1 @ rb_reasoning ruleBasedSignals;
                  currency1 = take 3 symb;
                  currency2 = take 3 (drop 3 symb);
                  upcomingEvents = getUpcomingEvents env currency1 1 @ getUpcomingEvents env currency2 1;
                  reasoning3 =
                    (if 0 < length upcomingEvents then
                       reasoning2 @ [showCount env (length upcomingEvents)
                          @ '' economic event(s) in next 24h may impact price'']
                     else reasoning2);
                  p = Num (price currentData);
                  volatilityAdjustment = jmul (jmul (volatility indicators) p) (Num 0.015);
                  sentimentAdjustment = Num (\<bar>s\<bar> * price currentData * 0.005);
                  stopLoss = (if dir = CALL then jsub p (jadd volatilityAdjustment sentimentAdjustment)
                              else jadd p (jadd volatilityAdjustment sentimentAdjustment));
                  takeProfit = (if dir = CALL then jadd p (jmul volatilityAdjustment (Num 2.5))
                                else jsub p (jmul volatilityAdjustment (Num 2.5)))
              in Some \<lparr>sig_symbol = symbol currentData,
                       direction = dir,
                       confidence = jmul (jabs (jsub combinedConfidence (Num 0.5))) (Num 2),
                       duration = dur,
                       entryPrice = price currentData,
                       stopLoss = stopLoss,
                       takeProfit = takeProfit,
                       sig_timestamp = dateNow env,
                       reasoning = reasoning3,
                       technicalIndicators = indicators\<rparr>))"

text \<open>The combined confidence of a call that has its data, its model and a prediction;
  \<open>None\<close> when \<open>predict\<close> throws.\<close>

definition combinedConfidenceEnhanced ::
  "Collaborators \<Rightarrow> MLModel \<Rightarrow> MarketData list \<Rightarrow> MarketData \<Rightarrow> string \<Rightarrow> jsnum option" where
  "combinedConfidenceEnhanced env mlModel historicalData currentData symb =
     (let indicators = calculateTechnicalIndicators (historicalData @ [currentData]);
          features = extractEnhancedFeatures env (historicalData @ [currentData]) indicators symb
      in case predict mlModel features of
           Inl e \<Rightarrow> None
         | Inr mlPrediction \<Rightarrow>
             (let sentiment = calculateSentimentAnalysis env symb;
                  ruleBasedSignals = analyzeRuleBasedSignals indicators currentData
              in Some (combineEnhanced mlPrediction ruleBasedSignals sentiment)))"

text \<open>An error thrown inside the \<open>try\<close> (only \<open>predict\<close> can throw) is caught and the
  call returns \<open>null\<close>.\<close>

definition generateTradingSignal ::
  "Collaborators \<Rightarrow> Engine \<Rightarrow> string \<Rightarrow> nat \<Rightarrow> TradingSignal option \<times> Engine" where
  "generateTradingSignal env eng symb dur =
     (let historicalData = fetchHistoricalData env (symb @ ''=X'') ''3mo''
      in if historicalData = [] then (None, eng)
         else case fetchRealTimeData env (symb @ ''=X'') of
           None \<Rightarrow> (None, eng)
         | Some currentData \<Rightarrow>
             (let indicators = calculateTechnicalIndicators (historicalData @ [currentData])
              in case mlModels eng symb of
                   None \<Rightarrow> (None, eng)
                 | Some mlModel \<Rightarrow>
                     (let features = extractEnhancedFeatures env (historicalData @ [currentData])
                                       indicators symb
                      in case combinedConfidenceEnhanced env mlModel historicalData currentData symb of
                           None \<Rightarrow> (None, eng)
                         | Some combinedConfidence \<Rightarrow>
                             (let sentiment = calculateSentimentAnalysis env symb;
                                  ruleBasedSignals = analyzeRuleBasedSignals indicators currentData
                              in case signalEnhanced env symb currentData indicators ruleBasedSignals
                                        sentiment combinedConfidence dur of
                                   None \<Rightarrow> (None, eng)
                                 | Some sig \<Rightarrow>
                                     (let st = storePrediction
                                                 (predictionStore eng, historicalPredictions eng)
                                                 symb sig features
                                      in (Some sig, eng\<lparr>predictionStore := fst st,
                                                         historicalPredictions := snd st\<rparr>))))))"

subsection \<open>The models of the engine\<close>

definition getSupportedSymbols :: "string list" where
  "getSupportedSymbols = [''EURUSD'', ''EURJPY'', ''USDCHF'']"

text \<open>
  \<open>initializeMLModels\<close>: one model per supported symbol, built with 18 inputs and the
  hidden layers 64, 32, 16, then overwritten by the stored model if there is one. These
  are the only models the engine ever holds; \<open>extractEnhancedFeatures\<close> gives them 19
  features.
\<close>

definition engineArchitecture :: ModelArchitecture where
  "engineArchitecture =
     defaultArchitecture\<lparr>inputSize := 18, hiddenLayers := [64, 32, 16], learningRate := 0.001,
                          epochs := 150, batchSize := 64\<rparr>"

definition initializeMLModels ::
  "(string \<Rightarrow> nat \<Rightarrow> nat \<Rightarrow> real) \<Rightarrow> model_store \<Rightarrow> (string \<rightharpoonup> MLModel)" where
  "initializeMLModels random store =
     map_of (map (\<lambda>symb. (symb, snd (loadModel store (newModel symb engineArchitecture (random symb)))))
               getSupportedSymbols)"

subsection \<open>Training\<close>

type_synonym training_results = "string \<rightharpoonup> jsval TrainingMetrics list"

text \<open>
  \<open>mlModel.trainModel(trainingData)\<close>: the epochs, then \<open>saveModel\<close>, then the history
  is returned. When the epochs throw, the model stays as they left it and nothing is
  saved.
\<close>

definition trainModel ::
  "Collaborators \<Rightarrow> model_store \<Rightarrow> MLModel \<Rightarrow> TrainingData list
     \<Rightarrow> (js_error + jsval TrainingMetrics list) \<times> MLModel \<times> model_store" where
  "trainModel env store m trainingData =
     (case fit env m trainingData of
        (m', Some e) \<Rightarrow> (Inl e, m', store)
      | (m', None) \<Rightarrow> (Inr (trainingHistory m'), m', saveModel (dateNow env) store m'))"

text \<open>One round of the loop over \<open>symbolsToTrain\<close>; \<open>Inl\<close> is an error thrown out of
  the loop body, with the state at the throw.\<close>

definition trainSymbol ::
  "Collaborators \<Rightarrow> training_results \<times> Engine \<Rightarrow> string
     \<Rightarrow> (js_error \<times> training_results \<times> Engine) + (training_results \<times> Engine)" where
  "trainSymbol env acc s =
     (let results = fst acc;
          eng = snd acc;
          historicalData = fetchHistoricalData env (s @ ''=X'') ''1y''
      in if length historicalData < 100 then Inr (results, eng)
         else
           (let indicatorsHistory =
                  map (\<lambda>i. calculateTechnicalIndicators (take (i + 1) historicalData))
                      [20..<length historicalData];
                trainingData = prepareTrainingData (drop 20 historicalData) indicatorsHistory
            in case mlModels eng s of
                 None \<Rightarrow> Inr (results, eng)
               | Some mlModel \<Rightarrow>
                   if 50 < length trainingData then
                     (case trainModel env (modelStore eng) mlModel trainingData of
                        (Inl e, m', store') \<Rightarrow>
                          Inl (e, results, eng\<lparr>mlModels := (mlModels eng)(s \<mapsto> m'),
                                                modelStore := store'\<rparr>)
                      | (Inr metrics, m', store') \<Rightarrow>
                          Inr (results(s \<mapsto> metrics),
                               eng\<lparr>mlModels := (mlModels eng)(s \<mapsto> m'), modelStore := store'\<rparr>))
                   else Inr (results, eng)))"

fun trainLoop ::
  "Collaborators \<Rightarrow> string list \<Rightarrow> training_results \<times> Engine \<Rightarrow> training_results \<times> Engine" where
  "trainLoop env [] acc = acc"
| "trainLoop env (s # rest) acc =
     (case trainSymbol env acc s of
        Inl (e, results, eng) \<Rightarrow> (results, eng)
      | Inr acc' \<Rightarrow> trainLoop env rest acc')"

text \<open>
  \<open>trainModels(symbol?)\<close>. The guard throws before the \<open>try\<close>; an error inside the
  \<open>try\<close> is caught and logged; \<open>finally\<close> clears the flag; the results so far are
  returned. A missing or empty \<open>symbol\<close> trains every supported symbol.
\<close>

definition trainModels ::
  "Collaborators \<Rightarrow> Engine \<Rightarrow> string option \<Rightarrow> (js_error + training_results) \<times> Engine" where
  "trainModels env eng symbolArg =
     (if isTraining eng then (Inl (Error ''Training already in progress''), eng)
      else
        (let eng1 = eng\<lparr>isTraining := True\<rparr>;
             symbolsToTrain = (case symbolArg of
                                 None \<Rightarrow> getSupportedSymbols
                               | Some s \<Rightarrow> if s = [] then getSupportedSymbols else [s]);
             r = trainLoop env symbolsToTrain (Map.empty, eng1)
         in (Inr (fst r), (snd r)\<lparr>isTraining := False\<rparr>)))"

definition isModelTraining :: "Engine \<Rightarrow> bool" where
  "isModelTraining eng = isTraining eng"

section \<open>Example inputs\<close>

definition exampleSignal :: TradingSignal where
  "exampleSignal =
     \<lparr>sig_symbol = ''EURUSD'', direction = CALL, confidence = Num 0.5, duration = 1,
      entryPrice = 1.1, stopLoss = Num 1, takeProfit = Num 1.2, sig_timestamp = 0,
      reasoning = [], technicalIndicators = calculateTechnicalIndicators []\<rparr>"

definition exampleModel :: MLModel where
  "exampleModel =
     \<lparr>architecture = \<lparr>inputSize = 1, hiddenLayers = [], outputSize = 1,
                       activationFunction = Relu, learningRate = 0.001, epochs = 100,
                       batchSize = 32\<rparr>,
      weights = [[Number (Num 0)]], biases = [[Number (Num 0)]], trainingHistory = [],
      ml_symbol = ''EURUSD''\<rparr>"

definition exampleEnv :: Collaborators where
  "exampleEnv =
     \<lparr>fetchHistoricalData = (\<lambda>s range. []),
      fetchRealTimeData = (\<lambda>s. None),
      calculateSentimentAnalysis = (\<lambda>s. \<lparr>overallSentiment = 0, fearGreedIndex = 50\<rparr>),
      getUpcomingEvents = (\<lambda>currency days. []),
      dateNow = 0,
      toFixed1 = (\<lambda>x. ''?''),
      showCount = (\<lambda>n. ''?''),
      fit = (\<lambda>m samples. (m, None))\<rparr>"

definition exampleEngine :: Engine where
  "exampleEngine =
     \<lparr>modelWeights = Map.empty, historicalPredictions = Map.empty,
      mlModels = [''EURUSD'' \<mapsto> exampleModel], isTraining = False,
      predictionStore = Map.empty, modelStore = Map.empty\<rparr>"

definition flatBar :: MarketData where
  "flatBar = \<lparr>symbol = ''EURUSD'', price = 1.1, change = 0, changePercent = 0, volume = 0,
               high = 1.1, low = 1.1, openPrice = 1.1, timestamp = 0\<rparr>"

definition flatBars :: "MarketData list" where
  "flatBars = replicate 30 flatBar"

definition nanModel :: MLModel where
  "nanModel =
     \<lparr>architecture = \<lparr>inputSize = 1, hiddenLayers = [], outputSize = 1,
                       activationFunction = Relu, learningRate = 0.001, epochs = 100,
                       batchSize = 32\<rparr>,
      weights = [[Number NaN]], biases = [[Number (Num 0)]], trainingHistory = [],
      ml_symbol = ''EURUSD''\<rparr>"

text \<open>The data of a call: one flat bar of history, or twenty-nine, and the same bar as
  the current one.\<close>

definition flatEnv :: Collaborators where
  "flatEnv = exampleEnv
     \<lparr>fetchHistoricalData := (\<lambda>sy range. [flatBar]),
      fetchRealTimeData := (\<lambda>sy. Some flatBar)\<rparr>"

definition flatSeriesEnv :: Collaborators where
  "flatSeriesEnv = exampleEnv
     \<lparr>fetchHistoricalData := (\<lambda>sy range. replicate 29 flatBar),
      fetchRealTimeData := (\<lambda>sy. Some flatBar)\<rparr>"

text \<open>An engine as its constructor leaves it, every \<open>Math.random()\<close> being 0.5 and the
  store empty; the first engine keeps its weights under the keys with \<open>=X\<close>.\<close>

definition initialWeights :: "real list" where
  "initialWeights = replicate (15 * 32 + 32 + 32 + 1) ((0.5 - 0.5) * 2)"

definition initialEngine :: Engine where
  "initialEngine =
     \<lparr>modelWeights = [''EURUSD=X'' \<mapsto> initialWeights, ''EURJPY=X'' \<mapsto> initialWeights,
                      ''USDCHF=X'' \<mapsto> initialWeights],
      historicalPredictions = Map.empty,
      mlModels = initializeMLModels (\<lambda>symb i j. 0.5) Map.empty,
      isTraining = False, predictionStore = Map.empty, modelStore = Map.empty\<rparr>"

text \<open>Fifteen prices that alternate between 0 and \<open>2 ^ 1023\<close> (a double; twice it is
  beyond the largest double), and fifteen that alternate between 2 and 1.\<close>

definition huge :: real where
  "huge = 2 ^ 1023"

definition swingPrices :: "real list" where
  "swingPrices = [0, huge, 0, huge, 0, huge, 0, huge, 0, huge, 0, huge, 0, huge, 0]"

definition zigzagPrices :: "real list" where
  "zigzagPrices = [2, 1, 2, 1, 2, 1, 2, 1, 2, 1, 2, 1, 2, 1, 2]"


section \<open>Rounding\<close>

text \<open>\<open>rne\<close> fixes the integers, is monotone across them and is odd.\<close>

lemma rne_of_int: "rne (of_int n) = n"
  by (simp add: rne_def)

lemma rne_le: "y \<le> of_int n \<Longrightarrow> rne y \<le> n"
proof -
  assume a: "y \<le> of_int n"
  show ?thesis
  proof (cases "y = of_int n")
    case True then show ?thesis by (simp add: rne_of_int)
  next
    case False
    then have "y < of_int n" using a by simp
    then have "\<lfloor>y\<rfloor> < n" by (simp add: floor_less_iff)
    then show ?thesis by (simp add: rne_def Let_def)
  qed
qed

lemma rne_ge: "of_int n \<le> y \<Longrightarrow> n \<le> rne y"
proof -
  assume "of_int n \<le> y"
  then have "n \<le> \<lfloor>y\<rfloor>" by (simp add: le_floor_iff)
  then show ?thesis by (simp add: rne_def Let_def)
qed

lemma rne_minus: "rne (- y) = - rne y"
proof (cases "y = of_int \<lfloor>y\<rfloor>")
  case True
  then obtain n where "y = of_int n" by metis
  then show ?thesis using rne_of_int[of n] rne_of_int[of "- n"] by simp
next
  case False
  define f where "f = \<lfloor>y\<rfloor>"
  define d where "d = y - of_int f"
  have lt: "of_int f < y" using False of_int_floor_le[of y] unfolding f_def by linarith
  have d: "0 < d" "d < 1" using lt unfolding d_def f_def by linarith+
  have fm: "\<lfloor>- y\<rfloor> = - f - 1"
    using lt unfolding f_def by (intro floor_unique) (simp_all, linarith+)
  have dm: "- y - of_int (- f - 1) = 1 - d" unfolding d_def by simp
  have par: "even (- f - 1) \<longleftrightarrow> odd f" by simp
  have a: "rne y = (if d < 1 / 2 then f else if 1 / 2 < d then f + 1
                    else if even f then f else f + 1)"
    unfolding rne_def Let_def f_def[symmetric] d_def[symmetric] ..
  have b: "rne (- y) = (if 1 - d < 1 / 2 then - f - 1 else if 1 / 2 < 1 - d then - f - 1 + 1
                    else if odd f then - f - 1 else - f - 1 + 1)"
    unfolding rne_def Let_def fm dm par ..
  show ?thesis unfolding a b using d by auto
qed


lemma floor_log_bounds:
  assumes "x \<noteq> 0"
  shows "2 powr of_int \<lfloor>log 2 \<bar>x\<bar>\<rfloor> \<le> \<bar>x\<bar>" "\<bar>x\<bar> < 2 powr of_int (\<lfloor>log 2 \<bar>x\<bar>\<rfloor> + 1)"
  using floor_log_eq_powr_iff[of "\<bar>x\<bar>" 2 "\<lfloor>log 2 \<bar>x\<bar>\<rfloor>"] assms by simp_all

lemma powr_int_mono: "a \<le> b \<Longrightarrow> (2::real) powr of_int a \<le> 2 powr of_int b"
  by (simp add: powr_mono)

lemma powr_int_less_cancel: "(2::real) powr of_int a < 2 powr of_int b \<Longrightarrow> a < b"
  by simp

lemma powr_int_diff: "a \<le> b \<Longrightarrow> (2::real) powr of_int b / 2 powr of_int a = 2 ^ nat (b - a)"
proof -
  assume "a \<le> b"
  have "(2::real) powr of_int b / 2 powr of_int a = 2 powr (of_int b - of_int a)"
    by (simp add: powr_diff)
  also have "\<dots> = 2 powr of_int (int (nat (b - a)))" using \<open>a \<le> b\<close> by simp
  also have "\<dots> = 2 ^ nat (b - a)" by (simp only: powr_realpow zero_less_numeral of_int_of_nat_eq)
  finally show ?thesis .
qed

lemma ulp_exp_upper:
  assumes "x \<noteq> 0"
  shows "\<bar>x\<bar> < 2 powr of_int (ulp_exp x + 53)"
proof -
  have "\<lfloor>log 2 \<bar>x\<bar>\<rfloor> + 1 \<le> ulp_exp x + 53" by (simp add: ulp_exp_def)
  then show ?thesis using floor_log_bounds(2)[OF assms] powr_int_mono order_less_le_trans by blast
qed

lemma ulp_exp_lower:
  assumes "x \<noteq> 0" "- 1074 < ulp_exp x"
  shows "2 powr of_int (ulp_exp x + 52) \<le> \<bar>x\<bar>"
proof -
  have "ulp_exp x + 52 = \<lfloor>log 2 \<bar>x\<bar>\<rfloor>" using assms(2) by (simp add: ulp_exp_def max_def split: if_splits)
  then show ?thesis using floor_log_bounds(1)[OF assms(1)] by simp
qed

lemma ulp_exp_mono:
  assumes "x \<noteq> 0" "\<bar>x\<bar> \<le> \<bar>y\<bar>"
  shows "ulp_exp x \<le> ulp_exp y"
proof -
  have "log 2 \<bar>x\<bar> \<le> log 2 \<bar>y\<bar>" using assms by simp
  then have "\<lfloor>log 2 \<bar>x\<bar>\<rfloor> \<le> \<lfloor>log 2 \<bar>y\<bar>\<rfloor>" by (rule floor_mono)
  then show ?thesis by (simp add: ulp_exp_def)
qed

lemma ulp_exp_minus: "ulp_exp (- x) = ulp_exp x"
  by (simp add: ulp_exp_def)

lemma rnd_minus: "rnd (- x) = - rnd x"
  by (simp add: rnd_def ulp_exp_minus rne_minus)

lemma representable_minus: "representable x \<Longrightarrow> representable (- x)"
  unfolding representable_def
proof (elim exE conjE)
  fix m e assume "\<bar>m\<bar> < 2 ^ 53" "- 1074 \<le> e" "x = of_int m * 2 powr of_int e"
  then have "\<bar>- m\<bar> < 2 ^ 53 \<and> - 1074 \<le> e \<and> - x = of_int (- m) * 2 powr of_int e" by simp
  then show "\<exists>m e. \<bar>m\<bar> < 2 ^ 53 \<and> - 1074 \<le> e \<and> - x = of_int m * 2 powr of_int e" by blast
qed

lemma representable_quot:
  assumes "representable c" "c \<noteq> 0" "k \<le> ulp_exp c"
  shows "\<exists>N::int. c / 2 powr of_int k = of_int N"
proof -
  obtain m e where me: "\<bar>m\<bar> < 2 ^ 53" "- 1074 \<le> e" "c = of_int m * 2 powr of_int e"
    using assms(1) unfolding representable_def by blast
  have "\<bar>c\<bar> = of_int \<bar>m\<bar> * 2 powr of_int e" using me(3) by (simp add: abs_mult)
  also have "\<dots> < 2 ^ 53 * 2 powr of_int e"
  proof -
    have "(of_int \<bar>m\<bar> :: real) < of_int (2 ^ 53)" using me(1) by (simp only: of_int_less_iff)
    then show ?thesis by simp
  qed
  also have "\<dots> = 2 powr of_int (53 + e)"
    by (simp add: powr_add powr_numeral)
  finally have up: "\<bar>c\<bar> < 2 powr of_int (53 + e)" .
  have "2 powr of_int \<lfloor>log 2 \<bar>c\<bar>\<rfloor> < (2::real) powr of_int (53 + e)"
    using floor_log_bounds(1)[OF assms(2)] up by linarith
  then have "\<lfloor>log 2 \<bar>c\<bar>\<rfloor> < 53 + e" by (rule powr_int_less_cancel)
  then have "ulp_exp c \<le> e" using me(2) by (simp add: ulp_exp_def)
  then have ke: "k \<le> e" using assms(3) by simp
  have "c / 2 powr of_int k = of_int m * (2 powr of_int e / 2 powr of_int k)"
    using me(3) by simp
  also have "\<dots> = of_int m * 2 ^ nat (e - k)" by (simp only: powr_int_diff[OF ke])
  also have "\<dots> = of_int (m * 2 ^ nat (e - k))" by simp
  finally show ?thesis by blast
qed

lemma rnd_representable:
  assumes "representable x"
  shows "rnd x = x"
proof (cases "x = 0")
  case True then show ?thesis by (simp add: rnd_def)
next
  case False
  obtain N :: int where N: "x / 2 powr of_int (ulp_exp x) = of_int N"
    using representable_quot[OF assms False order_refl] by blast
  have "rnd x = of_int N * 2 powr of_int (ulp_exp x)"
    using False by (simp add: rnd_def N rne_of_int)
  also have "\<dots> = x" using N by (simp add: field_simps)
  finally show ?thesis .
qed

lemma rnd_nonneg: "0 \<le> x \<Longrightarrow> 0 \<le> rnd x"
proof -
  assume a: "0 \<le> x"
  have "0 \<le> rne (x / 2 powr of_int (ulp_exp x))"
    by (rule rne_ge) (use a in simp)
  then show ?thesis by (simp add: rnd_def)
qed

lemma rnd_le_pos:
  assumes "representable c" "0 < x" "x \<le> c"
  shows "rnd x \<le> c"
proof -
  have x0: "x \<noteq> 0" and c0: "c \<noteq> 0" using assms by auto
  have "ulp_exp x \<le> ulp_exp c" by (rule ulp_exp_mono) (use assms in simp_all)
  then obtain N :: int where N: "c / 2 powr of_int (ulp_exp x) = of_int N"
    using representable_quot[OF assms(1) c0] by blast
  have "x / 2 powr of_int (ulp_exp x) \<le> c / 2 powr of_int (ulp_exp x)"
    using assms(3) by (simp add: divide_right_mono)
  then have "rne (x / 2 powr of_int (ulp_exp x)) \<le> N" unfolding N by (rule rne_le)
  then have "(of_int (rne (x / 2 powr of_int (ulp_exp x))) :: real) \<le> of_int N" by simp
  then have "rnd x \<le> of_int N * 2 powr of_int (ulp_exp x)"
    using x0 by (simp add: rnd_def)
  also have "\<dots> = c" using N by (simp add: field_simps)
  finally show ?thesis .
qed

lemma rnd_ge_pos:
  assumes "representable c" "0 < c" "c \<le> x"
  shows "c \<le> rnd x"
proof -
  have x0: "x \<noteq> 0" and c0: "c \<noteq> 0" using assms by auto
  have mono: "ulp_exp c \<le> ulp_exp x" by (rule ulp_exp_mono) (use assms in simp_all)
  show ?thesis
  proof (cases "ulp_exp c = ulp_exp x")
    case True
    obtain N :: int where N: "c / 2 powr of_int (ulp_exp x) = of_int N"
      using representable_quot[OF assms(1) c0, of "ulp_exp x"] True by auto
    have "c / 2 powr of_int (ulp_exp x) \<le> x / 2 powr of_int (ulp_exp x)"
      using assms(3) by (simp add: divide_right_mono)
    then have "N \<le> rne (x / 2 powr of_int (ulp_exp x))" unfolding N by (rule rne_ge)
    then have "(of_int N :: real) \<le> of_int (rne (x / 2 powr of_int (ulp_exp x)))" by simp
    then have "of_int N * 2 powr of_int (ulp_exp x) \<le> rnd x"
      using x0 by (simp add: rnd_def)
    moreover have "of_int N * 2 powr of_int (ulp_exp x) = c" using N by (simp add: field_simps)
    ultimately show ?thesis by simp
  next
    case False
    then have lt: "ulp_exp c < ulp_exp x" using mono by simp
    have "- 1074 \<le> ulp_exp c" by (simp add: ulp_exp_def)
    then have big: "- 1074 < ulp_exp x" using lt by simp
    have low: "2 powr of_int (ulp_exp x + 52) \<le> x"
      using ulp_exp_lower[OF x0 big] assms by simp
    have "2 powr of_int (ulp_exp x + 52) / 2 powr of_int (ulp_exp x) \<le> x / 2 powr of_int (ulp_exp x)"
      using low by (simp only: divide_right_mono powr_ge_zero)
    moreover have "(2::real) powr of_int (ulp_exp x + 52) / 2 powr of_int (ulp_exp x) = of_int (2 ^ 52)"
      using powr_int_diff[of "ulp_exp x" "ulp_exp x + 52"] by simp
    ultimately have "2 ^ 52 \<le> rne (x / 2 powr of_int (ulp_exp x))"
      by (intro rne_ge) simp
    then have "(of_int (2 ^ 52) :: real) \<le> of_int (rne (x / 2 powr of_int (ulp_exp x)))"
      by (simp only: of_int_le_iff)
    then have "of_int (2 ^ 52) * 2 powr of_int (ulp_exp x) \<le> rnd x"
      using x0 by (simp add: rnd_def)
    moreover have "of_int (2 ^ 52) * 2 powr of_int (ulp_exp x) = (2::real) powr of_int (ulp_exp x + 52)"
      by (simp add: powr_add powr_numeral)
    moreover have "c < 2 powr of_int (ulp_exp c + 53)"
      using ulp_exp_upper[OF c0] assms(2) by simp
    moreover have "(2::real) powr of_int (ulp_exp c + 53) \<le> 2 powr of_int (ulp_exp x + 52)"
      by (rule powr_int_mono) (use lt in simp)
    ultimately show ?thesis by linarith
  qed
qed

lemma rnd_le:
  assumes "representable c" "x \<le> c"
  shows "rnd x \<le> c"
proof -
  consider "0 < x" | "x \<le> 0" "0 \<le> c" | "x \<le> 0" "c < 0" by linarith
  then show ?thesis
  proof cases
    case 1 then show ?thesis using rnd_le_pos[OF assms(1) _ assms(2)] by simp
  next
    case 2
    have "0 \<le> rnd (- x)" by (rule rnd_nonneg) (use 2 in simp)
    then show ?thesis using 2 by (simp add: rnd_minus)
  next
    case 3
    have "- c \<le> rnd (- x)"
      by (rule rnd_ge_pos[OF representable_minus[OF assms(1)]]) (use 3 assms in simp_all)
    then show ?thesis by (simp add: rnd_minus)
  qed
qed

lemma rnd_ge:
  assumes "representable c" "c \<le> x"
  shows "c \<le> rnd x"
proof -
  have "rnd (- x) \<le> - c"
    by (rule rnd_le[OF representable_minus[OF assms(1)]]) (use assms in simp)
  then show ?thesis by (simp add: rnd_minus)
qed

text \<open>\<open>fl\<close> fixes the doubles, stays on the same side of every double, and overflows
  from \<open>2 ^ 1024\<close> on.\<close>

lemma overflow_bound_gt: "1024 < overflow_bound"
  by (simp add: overflow_bound_def)

lemma representableI:
  "\<bar>m\<bar> < 2 ^ 53 \<Longrightarrow> - 1074 \<le> e \<Longrightarrow> x = of_int m * 2 powr of_int e \<Longrightarrow> representable x"
  unfolding representable_def by blast

lemma representable_0: "representable 0"
  by (rule representableI[of 0 0]) simp_all

lemma representable_1: "representable 1"
  by (rule representableI[of 1 0]) simp_all

lemma representable_100: "representable 100"
  by (rule representableI[of 100 0]) simp_all

lemma representable_half: "representable (1 / 2)"
  by (rule representableI[of 1 "- 1"]) simp_all

lemma representable_big: "representable overflow_bound"
  unfolding overflow_bound_def by (rule representableI[of 1 1024]) (simp_all add: powr_numeral)

lemma rnd_eval:
  assumes "2 powr of_int k \<le> \<bar>x\<bar>" "\<bar>x\<bar> < 2 powr of_int (k + 1)" "- 1022 \<le> k"
  shows "rnd x = of_int (rne (x / 2 powr of_int (k - 52))) * 2 powr of_int (k - 52)"
proof -
  have x0: "x \<noteq> 0" using assms(1) powr_gt_zero[of 2 "of_int k"] by auto
  have "\<lfloor>log 2 \<bar>x\<bar>\<rfloor> = k"
    using floor_log_eq_powr_iff[of "\<bar>x\<bar>" 2 k] x0 assms by simp
  then have "ulp_exp x = k - 52" using assms(3) by (simp add: ulp_exp_def)
  then show ?thesis using x0 by (simp add: rnd_def)
qed

lemma fl_0: "fl 0 = Num 0"
  using overflow_bound_gt by (simp add: fl_def rnd_def)

lemma fl_representable:
  "representable x \<Longrightarrow> - overflow_bound < x \<Longrightarrow> x < overflow_bound \<Longrightarrow> fl x = Num x"
  by (simp add: fl_def rnd_representable Let_def)

lemma fl_between:
  assumes "representable a" "representable b" "a \<le> x" "x \<le> b"
    "- overflow_bound < a" "b < overflow_bound"
  shows "\<exists>r. fl x = Num r \<and> a \<le> r \<and> r \<le> b"
proof -
  have "a \<le> rnd x" "rnd x \<le> b"
    using rnd_ge[OF assms(1,3)] rnd_le[OF assms(2,4)] by simp_all
  then show ?thesis using assms(5,6) by (simp add: fl_def Let_def)
qed

lemma fl_ge:
  assumes "representable a" "a \<le> x" "- overflow_bound < a"
  shows "fl x = PosInf \<or> (\<exists>r. fl x = Num r \<and> a \<le> r)"
proof -
  have "a \<le> rnd x" using rnd_ge[OF assms(1,2)] .
  then show ?thesis using assms(3) by (simp add: fl_def Let_def)
qed

lemma fl_le:
  assumes "representable b" "x \<le> b" "b < overflow_bound"
  shows "fl x = NegInf \<or> (\<exists>r. fl x = Num r \<and> r \<le> b)"
proof -
  have "rnd x \<le> b" using rnd_le[OF assms(1,2)] .
  then show ?thesis using assms(3) by (simp add: fl_def Let_def)
qed

lemma fl_overflow: "overflow_bound \<le> x \<Longrightarrow> fl x = PosInf"
  using rnd_ge[OF representable_big, of x] by (simp add: fl_def Let_def)

lemma overflow_bound_big: "2 ^ 53 < overflow_bound"
  by (simp add: overflow_bound_def)

lemma representable_of_int: "\<bar>n\<bar> < 2 ^ 53 \<Longrightarrow> representable (of_int n)"
  by (rule representableI[of n 0]) simp_all

lemma fl_of_int:
  assumes "\<bar>n\<bar> < 2 ^ 53"
  shows "fl (of_int n) = Num (of_int n)"
proof -
  have "\<bar>real_of_int n\<bar> < 2 ^ 53"
  proof -
    have "real_of_int \<bar>n\<bar> < real_of_int (2 ^ 53)" using assms by (simp only: of_int_less_iff)
    then show ?thesis by simp
  qed
  then have "- overflow_bound < real_of_int n" "real_of_int n < overflow_bound"
    using overflow_bound_big by linarith+
  then show ?thesis using fl_representable[OF representable_of_int[OF assms]] by simp
qed

lemma fl_numeral: "numeral k < (2::int) ^ 53 \<Longrightarrow> fl (numeral k) = Num (numeral k)"
  using fl_of_int[of "numeral k"] by simp

lemma fl_neg_numeral: "numeral k < (2::int) ^ 53 \<Longrightarrow> fl (- numeral k) = Num (- numeral k)"
  using fl_of_int[of "- numeral k"] by simp

lemma fl_1: "fl 1 = Num 1"
  using fl_of_int[of 1] by simp

lemma fl_neg_1: "fl (- 1) = Num (- 1)"
  using fl_of_int[of "- 1"] by simp

lemma fl_half: "fl (1 / 2) = Num (1 / 2)"
  using fl_representable[OF representable_half] overflow_bound_gt by simp

lemma fl_cases: "fl x = PosInf \<or> fl x = NegInf \<or> (\<exists>r. fl x = Num r)"
  by (simp add: fl_def Let_def)

lemma fl_not_NaN: "fl x \<noteq> NaN"
  by (simp add: fl_def Let_def)

text \<open>The value of \<open>fl\<close> at a number whose binade is known.\<close>

lemma representable_pow2: "- 1074 \<le> j \<Longrightarrow> representable (2 powr of_int j)"
  by (rule representableI[of 1 j]) simp_all

lemma fl_eval:
  assumes "2 powr of_int k \<le> \<bar>x\<bar>" "\<bar>x\<bar> < 2 powr of_int (k + 1)" "- 1022 \<le> k" "k < 1023"
  shows "fl x = Num (of_int (rne (x / 2 powr of_int (k - 52))) * 2 powr of_int (k - 52))"
proof -
  have r: "representable (2 powr of_int (k + 1))" "representable (- (2 powr of_int (k + 1)))"
    using representable_pow2[of "k + 1"] representable_minus assms(3) by simp_all
  have "(2::real) powr of_int (k + 1) \<le> 2 powr of_int 1023"
    by (rule powr_int_mono) (use assms(4) in simp)
  also have "\<dots> < overflow_bound" by (simp add: overflow_bound_def powr_numeral)
  finally have b: "2 powr of_int (k + 1) < overflow_bound" .
  have "rnd x \<le> 2 powr of_int (k + 1)" "- (2 powr of_int (k + 1)) \<le> rnd x"
    using rnd_le[OF r(1), of x] rnd_ge[OF r(2), of x] assms(2) by simp_all
  then have "\<not> overflow_bound \<le> rnd x" "\<not> rnd x \<le> - overflow_bound" using b by simp_all
  then show ?thesis by (simp add: fl_def Let_def rnd_eval[OF assms(1,2,3)])
qed

text \<open>The result of \<open>rnd\<close> is a double, and the doubles of a binade are the multiples of
  its unit.\<close>

lemma rne_abs_bound:
  assumes "\<bar>y\<bar> \<le> of_int n"
  shows "\<bar>rne y\<bar> \<le> n"
proof -
  have "y \<le> of_int n" "of_int (- n) \<le> y" using assms by simp_all
  then have "rne y \<le> n" "- n \<le> rne y" using rne_le rne_ge by blast+
  then show ?thesis by simp
qed

lemma rnd_is_representable: "representable (rnd x)"
proof (cases "x = 0")
  case True
  then show ?thesis by (simp add: rnd_def representable_0)
next
  case False
  define e where "e = ulp_exp x"
  define N where "N = rne (x / 2 powr of_int e)"
  have e: "- 1074 \<le> e" by (simp add: e_def ulp_exp_def)
  have r: "rnd x = of_int N * 2 powr of_int e" using False by (simp add: rnd_def N_def e_def)
  have "\<bar>x\<bar> < 2 powr of_int (e + 53)" using ulp_exp_upper[OF False] by (simp add: e_def)
  then have "\<bar>x\<bar> / 2 powr of_int e < 2 powr of_int (e + 53) / 2 powr of_int e"
    by (simp add: divide_strict_right_mono)
  also have "\<dots> = 2 ^ 53" using powr_int_diff[of e "e + 53"] by simp
  finally have "\<bar>x / 2 powr of_int e\<bar> \<le> of_int (2 ^ 53)" by simp
  then have N: "\<bar>N\<bar> \<le> 2 ^ 53" unfolding N_def by (rule rne_abs_bound)
  show ?thesis
  proof (cases "\<bar>N\<bar> < 2 ^ 53")
    case True
    then show ?thesis using representableI[OF True e r] by simp
  next
    case False
    then have "N = 2 ^ 53 \<or> N = - (2 ^ 53)" using N by auto
    then have "rnd x = of_int (if 0 < N then 1 else - 1) * 2 powr of_int (e + 53)"
      unfolding r by (auto simp: powr_add powr_numeral)
    then show ?thesis
      by (intro representableI[of "if 0 < N then 1 else - 1" "e + 53"]) (use e in auto)
  qed
qed

lemma representable_grid:
  assumes "representable r" "2 powr of_int k \<le> r" "r < 2 powr of_int (k + 1)" "- 1022 \<le> k"
  shows "\<exists>N::int. r = of_int N * 2 powr of_int (k - 52)"
proof -
  have "0 < (2::real) powr of_int k" by simp
  then have r0: "r \<noteq> 0" "0 < r" using assms(2) by linarith+
  have "\<lfloor>log 2 \<bar>r\<bar>\<rfloor> = k"
    using floor_log_eq_powr_iff[of "\<bar>r\<bar>" 2 k] r0 assms by simp
  then have "ulp_exp r = k - 52" using assms(4) by (simp add: ulp_exp_def)
  then obtain N :: int where "r / 2 powr of_int (k - 52) = of_int N"
    using representable_quot[OF assms(1) r0(1), of "k - 52"] by auto
  then have "r = of_int N * 2 powr of_int (k - 52)" by (simp add: field_simps)
  then show ?thesis by blast
qed

section \<open>Properties of the indicator engine\<close>

subsection \<open>RSI\<close>

lemma fsub_Num: "fsub (Num a) (Num b) = fl (a - b)"
  by (simp add: fsub_def)

lemma fl_nonneg: "0 \<le> x \<Longrightarrow> nonneg (fl x)"
  using fl_ge[OF representable_0, of x] overflow_bound_gt by auto

lemma fl_nonpos: "x \<le> 0 \<Longrightarrow> nonneg (jneg (fl x))"
  using fl_le[OF representable_0, of x] overflow_bound_gt by auto

lemma fadd_nonneg: "nonneg a \<Longrightarrow> nonneg b \<Longrightarrow> nonneg (fadd a b)"
  by (cases a; cases b) (simp_all add: fl_nonneg)

lemma fmul_nonneg: "nonneg a \<Longrightarrow> 0 < c \<Longrightarrow> nonneg (fmul a (Num c))"
  by (cases a) (simp_all add: fl_nonneg)

lemma fdiv_nonneg: "nonneg a \<Longrightarrow> 0 < c \<Longrightarrow> nonneg (fdiv a (Num c))"
  by (cases a) (simp_all add: fl_nonneg)

lemma change_gain: "jgt (fl x) (Num 0) \<Longrightarrow> nonneg (fl x)"
  using fl_cases[of x] by (auto simp: jgt_def)

lemma change_loss: "\<not> jgt (fl x) (Num 0) \<Longrightarrow> nonneg (jneg (fl x))"
  using fl_cases[of x] by (auto simp: jgt_def)

lemma change_loss': "jlt (fl x) (Num 0) \<Longrightarrow> nonneg (jneg (fl x))"
  using fl_cases[of x] by auto

lemma rsi_sum_step_nonneg:
  assumes "nonneg (fst gl)" "nonneg (snd gl)"
  shows "nonneg (fst (rsi_sum_step prices gl i)) \<and> nonneg (snd (rsi_sum_step prices gl i))"
  using assms
  by (simp add: rsi_sum_step_def Let_def fsub_Num fadd_nonneg change_gain)
     (simp add: fsub_def[of "snd gl"] fadd_nonneg change_loss)

lemma rsi_sum_nonneg:
  "nonneg (fst gl) \<Longrightarrow> nonneg (snd gl) \<Longrightarrow>
   nonneg (fst (foldl (rsi_sum_step prices) gl is)) \<and> nonneg (snd (foldl (rsi_sum_step prices) gl is))"
proof (induction "is" arbitrary: gl)
  case Nil
  then show ?case by simp
next
  case (Cons i "is")
  show ?case using Cons.IH rsi_sum_step_nonneg[OF Cons.prems] by simp
qed

lemma rsi_smooth_step_nonneg:
  assumes "1 < period" "nonneg (fst avgs)" "nonneg (snd avgs)"
  shows "nonneg (fst (rsi_smooth_step prices period avgs i))
       \<and> nonneg (snd (rsi_smooth_step prices period avgs i))"
proof -
  let ?change = "fl (prices ! i - prices ! (i - 1))"
  have g: "nonneg (if jgt ?change (Num 0) then ?change else Num 0)"
    by (simp add: change_gain)
  have l: "nonneg (if jlt ?change (Num 0) then jneg ?change else Num 0)"
    by (simp add: change_loss')
  have p: "0 < real period - 1" "0 < real period" using assms(1) by simp_all
  show ?thesis
    unfolding rsi_smooth_step_def Let_def fsub_Num fst_conv snd_conv
    using fdiv_nonneg[OF fadd_nonneg[OF fmul_nonneg[OF assms(2) p(1)] g] p(2)]
          fdiv_nonneg[OF fadd_nonneg[OF fmul_nonneg[OF assms(3) p(1)] l] p(2)]
    by simp
qed

lemma rsi_smooth_nonneg:
  assumes "1 < period"
  shows "nonneg (fst avgs) \<Longrightarrow> nonneg (snd avgs) \<Longrightarrow>
     nonneg (fst (foldl (rsi_smooth_step prices period) avgs is))
   \<and> nonneg (snd (foldl (rsi_smooth_step prices period) avgs is))"
proof (induction "is" arbitrary: avgs)
  case Nil
  then show ?case by simp
next
  case (Cons i "is")
  show ?case using Cons.IH rsi_smooth_step_nonneg[OF assms Cons.prems] by simp
qed

lemma rsi_averages_nonneg:
  assumes "1 < period"
  shows "nonneg (fst (rsi_averages prices period)) \<and> nonneg (snd (rsi_averages prices period))"
proof -
  let ?gl = "foldl (rsi_sum_step prices) (Num 0, Num 0) [1..<Suc period]"
  have gl: "nonneg (fst ?gl) \<and> nonneg (snd ?gl)" by (rule rsi_sum_nonneg) simp_all
  have p: "0 < real period" using assms by simp
  have "nonneg (fdiv (fst ?gl) (Num (real period)))" "nonneg (fdiv (snd ?gl) (Num (real period)))"
    using gl fdiv_nonneg[OF _ p] by blast+
  then show ?thesis
    unfolding rsi_averages_def Let_def
    by (intro rsi_smooth_nonneg[OF assms]) simp_all
qed

text \<open>The last line, \<open>100 - 100 / (1 + rs)\<close>, for a relative strength that is not
  negative.\<close>

lemma rsi_formula_range:
  assumes "nonneg rs"
  shows "\<exists>r. fsub (Num 100) (fdiv (Num 100) (fadd (Num 1) rs)) = Num r \<and> 0 \<le> r \<and> r \<le> 100"
proof -
  have inf: "fsub (Num 100) (fdiv (Num 100) PosInf) = Num 100"
    by (simp add: fsub_Num fl_numeral)
  have ob: "- overflow_bound < 0" "100 < overflow_bound" "- overflow_bound < 1"
    using overflow_bound_gt by simp_all
  show ?thesis
  proof (cases rs)
    case (Num q)
    then have q: "0 \<le> q" using assms by simp
    have "fl (1 + q) = PosInf \<or> (\<exists>s. fl (1 + q) = Num s \<and> 1 \<le> s)"
      by (rule fl_ge[OF representable_1 _ ob(3)]) (use q in simp)
    then show ?thesis
    proof
      assume "fl (1 + q) = PosInf"
      then show ?thesis using Num inf by simp
    next
      assume "\<exists>s. fl (1 + q) = Num s \<and> 1 \<le> s"
      then obtain s where s: "fl (1 + q) = Num s" "1 \<le> s" by blast
      have "0 \<le> 100 / s" "100 / s \<le> 100" using s(2) by (simp_all add: divide_le_eq)
      then obtain d where d: "fl (100 / s) = Num d" "0 \<le> d" "d \<le> 100"
        using fl_between[OF representable_0 representable_100 _ _ ob(1,2), of "100 / s"] by blast
      have "0 \<le> 100 - d" "100 - d \<le> 100" using d by simp_all
      then obtain r where r: "fl (100 - d) = Num r" "0 \<le> r" "r \<le> 100"
        using fl_between[OF representable_0 representable_100 _ _ ob(1,2), of "100 - d"] by blast
      have "fsub (Num 100) (fdiv (Num 100) (fadd (Num 1) rs)) = Num r"
        using Num s d r by (simp add: fsub_Num)
      then show ?thesis using r by blast
    qed
  next
    case PosInf
    then show ?thesis using inf by simp
  qed (use assms in simp_all)
qed

lemma calculateRSI_range:
  assumes "1 < period" "period + 1 \<le> length prices"
    "rsi_averages prices period \<noteq> (PosInf, PosInf)"
  shows "\<exists>r. calculateRSI prices period = Num r \<and> 0 \<le> r \<and> r \<le> 100"
proof -
  let ?g = "fst (rsi_averages prices period)"
  let ?l = "snd (rsi_averages prices period)"
  have nn: "nonneg ?g" "nonneg ?l" using rsi_averages_nonneg[OF assms(1)] by blast+
  show ?thesis
  proof (cases "jeq ?l (Num 0)")
    case True
    then show ?thesis using assms(2) by (simp add: calculateRSI_def)
  next
    case False
    have "nonneg (fdiv ?g ?l)"
    proof (cases ?l)
      case (Num l)
      then have "0 < l" using nn(2) False by simp
      then show ?thesis using fdiv_nonneg[OF nn(1)] Num by simp
    next
      case PosInf
      then have "?g \<noteq> PosInf" using assms(3) by (metis prod.collapse)
      then obtain g where "?g = Num g" using nn(1) by (cases ?g) simp_all
      then show ?thesis using PosInf by simp
    qed (use nn(2) in simp_all)
    from rsi_formula_range[OF this] show ?thesis
      using False assms(2) by (simp add: calculateRSI_def Let_def)
  qed
qed

lemma calculateRSI_overflow:
  assumes "period + 1 \<le> length prices" "rsi_averages prices period = (PosInf, PosInf)"
  shows "calculateRSI prices period = NaN"
  using assms by (simp add: calculateRSI_def fsub_def)

text \<open>A series that never falls has no loss.\<close>

lemma sorted_change:
  assumes "sorted prices" "0 < i" "i < length prices"
  shows "jgt (fl (prices ! i - prices ! (i - 1))) (Num 0)
       \<or> fl (prices ! i - prices ! (i - 1)) = Num 0"
proof -
  have "prices ! (i - 1) \<le> prices ! i" using assms by (simp add: sorted_nth_mono)
  then have "nonneg (fl (prices ! i - prices ! (i - 1)))" by (intro fl_nonneg) simp
  then show ?thesis by (cases "fl (prices ! i - prices ! (i - 1))") (auto simp: jgt_def)
qed

lemma rsi_sum_sorted:
  assumes "sorted prices" "\<forall>i\<in>set is. 0 < i \<and> i < length prices"
  shows "snd gl = Num 0 \<Longrightarrow> snd (foldl (rsi_sum_step prices) gl is) = Num 0"
  using assms(2)
proof (induction "is" arbitrary: gl)
  case Nil
  then show ?case by simp
next
  case (Cons i "is")
  have "snd (rsi_sum_step prices gl i) = Num 0"
    using sorted_change[OF assms(1), of i] Cons.prems
    by (auto simp: rsi_sum_step_def Let_def fsub_Num fl_0)
  then show ?case using Cons by simp
qed

lemma rsi_smooth_sorted:
  assumes "sorted prices" "0 < period" "\<forall>i\<in>set is. 0 < i \<and> i < length prices"
  shows "snd avgs = Num 0 \<Longrightarrow> snd (foldl (rsi_smooth_step prices period) avgs is) = Num 0"
  using assms(3)
proof (induction "is" arbitrary: avgs)
  case Nil
  then show ?case by simp
next
  case (Cons i "is")
  have "\<not> jlt (fl (prices ! i - prices ! (i - 1))) (Num 0)"
    using sorted_change[OF assms(1), of i] Cons.prems(2)
    by (cases "fl (prices ! i - prices ! (i - 1))") (auto simp: jgt_def)
  then have "snd (rsi_smooth_step prices period avgs i) = Num 0"
    using assms(2) Cons.prems(1) by (simp add: rsi_smooth_step_def Let_def fsub_Num fl_0)
  then show ?case using Cons by simp
qed

lemma rsi_averages_sorted:
  assumes "sorted prices" "0 < period" "period + 1 \<le> length prices"
  shows "snd (rsi_averages prices period) = Num 0"
proof -
  let ?gl = "foldl (rsi_sum_step prices) (Num 0, Num 0) [1..<Suc period]"
  have s: "snd ?gl = Num 0"
    by (rule rsi_sum_sorted[OF assms(1)]) (use assms(3) in auto)
  have "snd (fdiv (fst ?gl) (Num (real period)), fdiv (snd ?gl) (Num (real period))) = Num 0"
    using s assms(2) by (simp add: fl_0)
  then show ?thesis
    unfolding rsi_averages_def Let_def
    by (intro rsi_smooth_sorted[OF assms(1,2)]) auto
qed

lemma calculateRSI_sorted:
  assumes "sorted prices" "0 < period" "period + 1 \<le> length prices"
  shows "calculateRSI prices period = Num 100"
  using assms(3) rsi_averages_sorted[OF assms] by (simp add: calculateRSI_def)

text \<open>Two series: one that swings by \<open>2 ^ 1023\<close>, whose sums overflow, and one that
  swings by 1.\<close>

lemma huge_pos: "0 < huge" "\<not> huge < 0" "\<not> huge \<le> 0" "huge \<noteq> 0"
  by (simp_all add: huge_def)

lemma huge_double: "huge + huge = overflow_bound" "2 * huge = overflow_bound"
  by (simp_all add: huge_def overflow_bound_def)

lemma representable_huge: "representable huge"
  unfolding huge_def by (rule representableI[of 1 1023]) (simp_all add: powr_numeral)

lemma fl_huge: "fl huge = Num huge" "fl (- huge) = Num (- huge)"
proof -
  have b: "- overflow_bound < huge" "huge < overflow_bound"
    using huge_pos(1) huge_double(1) by linarith+
  show "fl huge = Num huge" by (rule fl_representable[OF representable_huge b])
  show "fl (- huge) = Num (- huge)"
    by (rule fl_representable[OF representable_minus[OF representable_huge]]) (use b in simp_all)
qed

lemma fl_huge_twice: "fl (huge + huge) = PosInf" "fl (2 * huge) = PosInf"
  using fl_overflow[of "huge + huge"] fl_overflow[of "2 * huge"] huge_double by simp_all

lemma swing_averages: "rsi_averages swingPrices 14 = (PosInf, PosInf)"
  by (simp add: rsi_averages_def rsi_sum_step_def swingPrices_def Let_def upt_rec fsub_def
        jgt_def huge_pos fl_huge fl_huge_twice fl_0)

lemma zigzag_averages: "rsi_averages zigzagPrices 14 = (Num (1 / 2), Num (1 / 2))"
  by (simp add: rsi_averages_def rsi_sum_step_def zigzagPrices_def Let_def upt_rec fsub_def
        jgt_def fl_numeral fl_neg_numeral fl_1 fl_neg_1 fl_half fl_0)

text \<open>
  C4 (as amended). For every period greater than 1 (the code uses 14) and every series
  of finite prices: \<open>calculateRSI\<close> returns 50 when there are fewer than \<open>period + 1\<close>
  prices; it returns 100 whenever the smoothed average loss is exactly 0, and so for
  every strictly increasing series of at least \<open>period + 1\<close> prices; its result is a
  finite number in \<open>[0, 100]\<close> unless the smoothed average gain and the smoothed average
  loss have both overflowed to \<open>Infinity\<close>, and then it is \<open>NaN\<close>.
\<close>

theorem calculateRSI_spec:
  assumes "1 < period"
  shows "(length prices < period + 1 \<longrightarrow> calculateRSI prices period = Num 50)
       \<and> (period + 1 \<le> length prices \<and> jeq (snd (rsi_averages prices period)) (Num 0)
            \<longrightarrow> calculateRSI prices period = Num 100)
       \<and> (period + 1 \<le> length prices \<and> sorted_wrt (<) prices
            \<longrightarrow> calculateRSI prices period = Num 100)
       \<and> (period + 1 \<le> length prices \<and> rsi_averages prices period = (PosInf, PosInf)
            \<longrightarrow> calculateRSI prices period = NaN)
       \<and> (length prices < period + 1 \<or> rsi_averages prices period \<noteq> (PosInf, PosInf)
            \<longrightarrow> (\<exists>r. calculateRSI prices period = Num r \<and> 0 \<le> r \<and> r \<le> 100))"
proof (intro conjI impI)
  have p: "0 < period" using assms by simp
  show "calculateRSI prices period = Num 50" if "length prices < period + 1"
    using that by (simp add: calculateRSI_def)
  show "calculateRSI prices period = Num 100"
    if "period + 1 \<le> length prices \<and> jeq (snd (rsi_averages prices period)) (Num 0)"
    using that by (simp add: calculateRSI_def)
  show "calculateRSI prices period = Num 100"
    if "period + 1 \<le> length prices \<and> sorted_wrt (<) prices"
    using that calculateRSI_sorted[OF strict_sorted_imp_sorted p, of prices] by simp
  show "calculateRSI prices period = NaN"
    if "period + 1 \<le> length prices \<and> rsi_averages prices period = (PosInf, PosInf)"
    using that calculateRSI_overflow by blast
  show "\<exists>r. calculateRSI prices period = Num r \<and> 0 \<le> r \<and> r \<le> 100"
    if h: "length prices < period + 1 \<or> rsi_averages prices period \<noteq> (PosInf, PosInf)"
  proof (cases "length prices < period + 1")
    case True
    then show ?thesis by (simp add: calculateRSI_def)
  next
    case False
    then show ?thesis using h calculateRSI_range[OF assms, of prices] by simp
  qed
qed

theorem calculateRSI_spec_witness:
  "(1::nat) < 14
   \<and> calculateRSI [1, 2] 14 = Num 50
   \<and> calculateRSI [1, 2, 3, 4, 5, 6, 7, 8, 9, 10, 11, 12, 13, 14, 15, 16] 14 = Num 100
   \<and> rsi_averages swingPrices 14 = (PosInf, PosInf)
   \<and> calculateRSI swingPrices 14 = NaN
   \<and> rsi_averages zigzagPrices 14 = (Num (1 / 2), Num (1 / 2))
   \<and> (\<exists>r. calculateRSI zigzagPrices 14 = Num r \<and> 0 \<le> r \<and> r \<le> 100)"
  using calculateRSI_spec[of 14 "[1, 2]"]
        calculateRSI_spec[of 14 "[1, 2, 3, 4, 5, 6, 7, 8, 9, 10, 11, 12, 13, 14, 15, 16]"]
        calculateRSI_spec[of 14 swingPrices]
        calculateRSI_spec[of 14 zigzagPrices]
        swing_averages zigzag_averages
  by (simp add: swingPrices_def zigzagPrices_def)

text \<open>The claim as stated, for every input, fails: fifteen finite prices on which the
  result is \<open>NaN\<close>.\<close>

theorem calculateRSI_overflow_counterexample:
  "length swingPrices = 15
   \<and> fl huge = Num huge
   \<and> calculateRSI swingPrices 14 = NaN"
  using swing_averages by (simp add: calculateRSI_def fl_huge fsub_def swingPrices_def)

lemma zigzag_rsi: "calculateRSI zigzagPrices 14 = Num 50"
  using zigzag_averages
  by (simp add: calculateRSI_def fsub_Num fl_numeral fl_1 zigzagPrices_def)

subsection \<open>Math.max, Math.min and normalizeData\<close>

lemma foldl_max_Max: "foldl max (m::real) xs = Max (insert m (set xs))"
proof (induction xs arbitrary: m)
  case Nil
  then show ?case by simp
next
  case (Cons x xs)
  have "Max (insert (max m x) (set xs)) = Max (insert m (insert x (set xs)))"
    by (cases "set xs = {}") (simp_all add: max.assoc max.commute)
  then show ?case using Cons by simp
qed

lemma foldl_min_Min: "foldl min (m::real) xs = Min (insert m (set xs))"
proof (induction xs arbitrary: m)
  case Nil
  then show ?case by simp
next
  case (Cons x xs)
  have "Min (insert (min m x) (set xs)) = Min (insert m (insert x (set xs)))"
    by (cases "set xs = {}") (simp_all add: min.assoc min.commute)
  then show ?case using Cons by simp
qed

lemma foldl_jmax2_Num: "foldl jmax2 (Num m) (map Num xs) = Num (foldl max m xs)"
  by (induction xs arbitrary: m) (simp_all add: max_def)

lemma foldl_jmin2_Num: "foldl jmin2 (Num m) (map Num xs) = Num (foldl min m xs)"
  by (induction xs arbitrary: m) (simp_all add: min_def)

lemma Math_max_Num: "xs \<noteq> [] \<Longrightarrow> Math_max (map Num xs) = Num (Max (set xs))"
  by (cases xs) (simp_all add: Math_max_def foldl_jmax2_Num foldl_max_Max)

lemma Math_min_Num: "xs \<noteq> [] \<Longrightarrow> Math_min (map Num xs) = Num (Min (set xs))"
  by (cases xs) (simp_all add: Math_min_def foldl_jmin2_Num foldl_min_Min)

lemma jsub_Num: "jsub (Num a) (Num b) = Num (a - b)"
  by (simp add: jsub_def)

lemma normalizeData_Num:
  assumes "xs \<noteq> []"
  shows "normalizeData (map Num xs) =
     (if jeq (fl (Max (set xs) - Min (set xs))) (Num 0) then map (\<lambda>_. Num 0.5) xs
      else map (\<lambda>v. fdiv (fl (v - Min (set xs))) (fl (Max (set xs) - Min (set xs)))) xs)"
proof -
  define mx where "mx = Max (set xs)"
  define mn where "mn = Min (set xs)"
  have m: "Math_max (map Num xs) = Num mx" "Math_min (map Num xs) = Num mn"
    using assms by (simp_all add: Math_max_Num Math_min_Num mx_def mn_def)
  have "normalizeData (map Num xs) =
     (if jeq (fl (mx - mn)) (Num 0) then map (\<lambda>_. Num 0.5) xs
      else map (\<lambda>v. fdiv (fl (v - mn)) (fl (mx - mn))) xs)"
    unfolding normalizeData_def m Let_def fsub_Num by (simp add: comp_def fsub_Num)
  then show ?thesis by (simp only: mx_def mn_def)
qed

text \<open>
  C8 (as amended). For every non-empty vector of finite numbers: when the range
  \<open>max - min\<close>, as the subtraction delivers it, is a finite number greater than 0,
  \<open>normalizeData\<close> maps each maximum element to 1 and each minimum element to 0; when
  the subtraction overflows to \<open>Infinity\<close>, each maximum element is mapped to \<open>NaN\<close>;
  and when all elements are equal, every element is mapped to 0.5.
\<close>

theorem normalizeData_finite:
  assumes "xs \<noteq> []"
  shows "(\<forall>r. fsub (Num (Max (set xs))) (Num (Min (set xs))) = Num r \<and> 0 < r \<longrightarrow>
            (\<forall>i<length xs.
               (xs ! i = Max (set xs) \<longrightarrow> normalizeData (map Num xs) ! i = Num 1)
             \<and> (xs ! i = Min (set xs) \<longrightarrow> normalizeData (map Num xs) ! i = Num 0)))
       \<and> (fsub (Num (Max (set xs))) (Num (Min (set xs))) = PosInf \<longrightarrow>
            (\<forall>i<length xs. xs ! i = Max (set xs) \<longrightarrow> normalizeData (map Num xs) ! i = NaN))
       \<and> ((\<forall>x\<in>set xs. \<forall>y\<in>set xs. x = y) \<longrightarrow>
            normalizeData (map Num xs) = replicate (length xs) (Num 0.5))"
proof -
  have pos: "normalizeData (map Num xs) ! i = Num 1"
    if "fsub (Num (Max (set xs))) (Num (Min (set xs))) = Num r" "0 < r"
      "i < length xs" "xs ! i = Max (set xs)" for i r
    using that unfolding normalizeData_Num[OF assms] by (simp add: fsub_Num fl_1)
  have neg: "normalizeData (map Num xs) ! i = Num 0"
    if "fsub (Num (Max (set xs))) (Num (Min (set xs))) = Num r" "0 < r"
      "i < length xs" "xs ! i = Min (set xs)" for i r
    using that unfolding normalizeData_Num[OF assms] by (simp add: fsub_Num fl_0)
  have ovf: "normalizeData (map Num xs) ! i = NaN"
    if "fsub (Num (Max (set xs))) (Num (Min (set xs))) = PosInf"
      "i < length xs" "xs ! i = Max (set xs)" for i
    using that unfolding normalizeData_Num[OF assms] by (simp add: fsub_Num)
  have flat: "normalizeData (map Num xs) = replicate (length xs) (Num 0.5)"
    if eq: "\<forall>x\<in>set xs. \<forall>y\<in>set xs. x = y"
  proof -
    have "Max (set xs) \<in> set xs" "Min (set xs) \<in> set xs"
      using assms by simp_all
    then have "Max (set xs) = Min (set xs)" using eq by blast
    then show ?thesis
      by (simp add: normalizeData_Num[OF assms] map_replicate_const fl_0)
  qed
  from pos neg ovf flat show ?thesis by blast
qed

theorem normalizeData_finite_witness:
  "[3, 1, 2::real] \<noteq> []
   \<and> fsub (Num 3) (Num 1) = Num 2
   \<and> normalizeData (map Num [3, 1, 2]) ! 0 = Num 1
   \<and> normalizeData (map Num [3, 1, 2]) ! 1 = Num 0
   \<and> fsub (Num huge) (Num (- huge)) = PosInf
   \<and> normalizeData (map Num [huge, - huge]) ! 0 = NaN
   \<and> normalizeData (map Num [7, 7]) = [Num 0.5, Num 0.5]"
  using normalizeData_finite[of "[3, 1, 2]"] normalizeData_finite[of "[7, 7]"]
        normalizeData_finite[of "[huge, - huge]"]
  by (simp add: numeral_2_eq_2 fsub_Num fl_numeral fl_huge_twice huge_pos)

text \<open>
  C8 as stated (every numeric vector) fails on finite numbers whose range overflows:
  for \<open>[2 ^ 1023, - (2 ^ 1023)]\<close> the range is \<open>Infinity > 0\<close> and the maximum element
  is mapped to \<open>Infinity / Infinity = NaN\<close>. It fails in the same way on a vector with
  an infinite element.
\<close>

theorem normalizeData_overflow_counterexample:
  "fl huge = Num huge
   \<and> Math_max [Num huge, Num (- huge)] = Num huge
   \<and> jlt (Num 0) (fsub (Math_max [Num huge, Num (- huge)]) (Math_min [Num huge, Num (- huge)]))
   \<and> normalizeData [Num huge, Num (- huge)] ! 0 = NaN
   \<and> normalizeData [PosInf, Num 1] ! 0 = NaN"
  by (simp add: normalizeData_def Math_max_def Math_min_def fsub_def fl_huge fl_huge_twice huge_pos)

subsection \<open>Stochastic oscillator\<close>

lemma jmul_inf_100: "jmul PosInf (Num 100) = PosInf" "jmul NegInf (Num 100) = NegInf"
  by simp_all

lemma Math_max_Num_cases: "Math_max (map Num xs) = (if xs = [] then NegInf else Num (Max (set xs)))"
  by (simp add: Math_max_Num) (simp add: Math_max_def)

lemma Math_min_Num_cases: "Math_min (map Num xs) = (if xs = [] then PosInf else Num (Min (set xs)))"
  by (simp add: Math_min_Num) (simp add: Math_min_def)

lemma Math_max_replicate: "Math_max (replicate n (Num c)) = (if n = 0 then NegInf else Num c)"
  using Math_max_Num_cases[of "replicate n c"] by simp

lemma Math_min_replicate: "Math_min (replicate n (Num c)) = (if n = 0 then PosInf else Num c)"
  using Math_min_Num_cases[of "replicate n c"] by simp

lemma stochastic_degenerate:
  assumes len: "period \<le> length closes"
    and eq: "jeq (Math_max (map Num (slice_last period highs)))
                 (Math_min (map Num (slice_last period lows)))"
  shows "\<exists>v. Math_min (map Num (slice_last period lows)) = Num v
           \<and> percentK (calculateStochastic highs lows closes period) =
               (if closes = [] then NaN
                else if last closes = v then NaN
                else if v < last closes then PosInf else NegInf)
           \<and> percentD (calculateStochastic highs lows closes period) =
               percentK (calculateStochastic highs lows closes period)"
proof -
  let ?hs = "slice_last period highs" and ?ls = "slice_last period lows"
  from eq have ne: "?hs \<noteq> []" "?ls \<noteq> []"
    by (auto simp: Math_max_Num_cases Math_min_Num_cases split: if_splits)
  then have hh: "Math_max (map Num ?hs) = Num (Max (set ?hs))"
    and ll: "Math_min (map Num ?ls) = Num (Min (set ?ls))"
    by (simp_all add: Math_max_Num Math_min_Num)
  from eq have same: "Max (set ?hs) = Min (set ?ls)" by (simp add: hh ll)
  have k: "percentK (calculateStochastic highs lows closes period) =
        jmul (jdiv (jsub (if closes = [] then NaN else Num (last closes)) (Num (Min (set ?ls))))
                   (Num 0)) (Num 100)"
    using len by (simp add: calculateStochastic_def Let_def hh ll same jsub_Num)
  have d: "percentD (calculateStochastic highs lows closes period) =
        percentK (calculateStochastic highs lows closes period)"
    using len by (simp add: calculateStochastic_def Let_def)
  show ?thesis
    by (rule exI[of _ "Min (set ?ls)"]) (simp add: ll k d jsub_def)
qed

text \<open>
  C9 (as amended). \<open>calculateStochastic\<close> divides by \<open>highestHigh - lowestLow\<close>
  without a guard: for every input of finite numbers with at least \<open>period\<close> closes
  whose trailing-window highest high equals its lowest low, \<open>%K\<close> and \<open>%D\<close> are equal
  and not finite numbers (so outside \<open>[0, 100]\<close>, and not the neutral 50): they are
  \<open>NaN\<close> when the last close equals that common value, as in a flat series, and
  \<open>Infinity\<close> or \<open>-Infinity\<close> otherwise.
\<close>

theorem calculateStochastic_zero_range:
  assumes "period \<le> length closes"
    and "jeq (Math_max (map Num (slice_last period highs)))
             (Math_min (map Num (slice_last period lows)))"
  shows "\<not> is_finite (percentK (calculateStochastic highs lows closes period))
       \<and> percentD (calculateStochastic highs lows closes period) =
           percentK (calculateStochastic highs lows closes period)
       \<and> (closes \<noteq> [] \<and> Num (last closes) = Math_min (map Num (slice_last period lows))
            \<longrightarrow> percentK (calculateStochastic highs lows closes period) = NaN)
       \<and> (closes \<noteq> [] \<and> Num (last closes) \<noteq> Math_min (map Num (slice_last period lows))
            \<longrightarrow> percentK (calculateStochastic highs lows closes period) = PosInf
              \<or> percentK (calculateStochastic highs lows closes period) = NegInf)"
proof -
  from stochastic_degenerate[OF assms] obtain v where
    v: "Math_min (map Num (slice_last period lows)) = Num v"
    and k: "percentK (calculateStochastic highs lows closes period) =
               (if closes = [] then NaN
                else if last closes = v then NaN
                else if v < last closes then PosInf else NegInf)"
    and d: "percentD (calculateStochastic highs lows closes period) =
               percentK (calculateStochastic highs lows closes period)"
    by blast
  show ?thesis unfolding d v k by simp
qed

theorem calculateStochastic_zero_range_witness:
  "(14::nat) \<le> length (replicate 14 (1.1::real))
   \<and> percentK (calculateStochastic (replicate 14 1.1) (replicate 14 1.1) (replicate 14 1.1) 14) = NaN
   \<and> percentD (calculateStochastic (replicate 14 1.1) (replicate 14 1.1) (replicate 14 1.1) 14) = NaN
   \<and> \<not> is_finite (percentK (calculateStochastic (replicate 14 1) (replicate 14 1) (replicate 14 2) 14))"
  using calculateStochastic_zero_range[of 14 "replicate 14 1.1" "replicate 14 1.1" "replicate 14 1.1"]
        calculateStochastic_zero_range[of 14 "replicate 14 2" "replicate 14 1" "replicate 14 1"]
  by (simp add: slice_last_def Math_max_replicate Math_min_replicate)

text \<open>
  C9 as stated (\<open>NaN\<close> for every such input) fails when the last close differs from
  the common value of the highs and lows: the quotient is then \<open>1 / 0 = Infinity\<close>.
\<close>

theorem calculateStochastic_infinity_counterexample:
  "14 \<le> length (replicate 14 (2::real))
   \<and> jeq (Math_max (map Num (slice_last 14 (replicate 14 1))))
          (Math_min (map Num (slice_last 14 (replicate 14 1))))
   \<and> percentK (calculateStochastic (replicate 14 1) (replicate 14 1) (replicate 14 2) 14) = PosInf
   \<and> percentD (calculateStochastic (replicate 14 1) (replicate 14 1) (replicate 14 2) 14) = PosInf"
  by (simp add: calculateStochastic_def slice_last_def Math_max_replicate Math_min_replicate
        jsub_def Let_def)

subsection \<open>Model evaluator and prediction log\<close>

lemma evaluateModel_no_completed:
  assumes "\<forall>p\<in>set predictions. actualOutcome p = None"
  shows "evaluateModel (store(symb \<mapsto> Parsed predictions)) symb = zeroMetrics"
proof -
  have "filter (\<lambda>p. actualOutcome p \<noteq> None) predictions = []"
    using assms by (simp add: filter_empty_conv)
  then show ?thesis by (simp add: evaluateModel_def Let_def)
qed

text \<open>
  C7. \<open>evaluateModel\<close> returns the all-zero \<open>ModelMetrics\<close> when the symbol has no
  stored log, when the stored text does not parse (the \<open>catch\<close> branch), when the log
  is empty, and when no entry of the log has a resolved \<open>actualOutcome\<close>. It is a total
  function: no error reaches the caller.
\<close>

theorem evaluateModel_unresolved:
  assumes "store symb = None \<or> store symb = Some Unparsable
         \<or> (\<exists>predictions. store symb = Some (Parsed predictions)
               \<and> (\<forall>p\<in>set predictions. actualOutcome p = None))"
  shows "evaluateModel store symb = zeroMetrics"
  using assms
proof (elim disjE exE conjE)
  assume "store symb = None"
  then show ?thesis by (simp add: evaluateModel_def)
next
  assume "store symb = Some Unparsable"
  then show ?thesis by (simp add: evaluateModel_def)
next
  fix predictions
  assume s: "store symb = Some (Parsed predictions)"
    and u: "\<forall>p\<in>set predictions. actualOutcome p = None"
  from u have "filter (\<lambda>p. actualOutcome p \<noteq> None) predictions = []"
    by (simp add: filter_empty_conv)
  then show ?thesis using s by (simp add: evaluateModel_def Let_def)
qed

theorem evaluateModel_unresolved_witness:
  "evaluateModel Map.empty ''EURUSD'' = zeroMetrics
   \<and> evaluateModel [''EURUSD'' \<mapsto> Parsed []] ''EURUSD'' = zeroMetrics
   \<and> evaluateModel [''EURUSD'' \<mapsto> Parsed
         [\<lparr>pe_timestamp = 1, pe_prediction = CALL, pe_confidence = Some 0.4,
           pe_features = [], actualOutcome = None\<rparr>]] ''EURUSD'' = zeroMetrics"
  using evaluateModel_unresolved[of Map.empty "''EURUSD''"]
        evaluateModel_unresolved[of "[''EURUSD'' \<mapsto> Parsed []]" "''EURUSD''"]
        evaluateModel_unresolved[of "[''EURUSD'' \<mapsto> Parsed
         [\<lparr>pe_timestamp = 1, pe_prediction = CALL, pe_confidence = Some 0.4,
           pe_features = [], actualOutcome = None\<rparr>]]" "''EURUSD''"]
  by simp

lemma storePrediction_parsed:
  assumes "fst st symb \<noteq> Some Unparsable"
  shows "storePrediction st symb sig features =
     (let old = (case fst st symb of Some (Parsed ps) \<Rightarrow> ps | _ \<Rightarrow> []);
          new = old @ [newEntry sig features];
          kept = drop (length new - 1000) new
      in ((fst st)(symb \<mapsto> Parsed kept), (snd st)(symb \<mapsto> kept)))"
proof (cases "fst st symb")
  case None
  then show ?thesis
    by (simp add: storePrediction_def newEntry_def Let_def slice_last_def)
next
  case (Some b)
  then obtain ps where "b = Parsed ps" using assms by (cases b) auto
  then show ?thesis using Some
    by (simp add: storePrediction_def newEntry_def Let_def slice_last_def)
qed

text \<open>
  C10. After every call of \<open>storePrediction\<close> the stored log of the symbol has at
  most 1000 entries. When the stored log parses (or is absent), the new log, in the
  store and in \<open>historicalPredictions\<close>, is the old one with the new entry appended,
  cut to its last 1000 entries: the oldest are dropped. When the stored text does not
  parse, nothing is written.
\<close>

theorem storePrediction_bounded:
  "(\<forall>ps. fst (storePrediction st symb sig features) symb = Some (Parsed ps)
           \<longrightarrow> length ps \<le> 1000)
   \<and> (fst st symb \<noteq> Some Unparsable \<longrightarrow>
        (let old = (case fst st symb of Some (Parsed ps) \<Rightarrow> ps | _ \<Rightarrow> []);
             new = old @ [newEntry sig features]
         in fst (storePrediction st symb sig features) symb
              = Some (Parsed (drop (length new - 1000) new))
          \<and> snd (storePrediction st symb sig features) symb
              = Some (drop (length new - 1000) new)))
   \<and> (fst st symb = Some Unparsable \<longrightarrow> storePrediction st symb sig features = st)"
proof (cases "fst st symb = Some Unparsable")
  case True
  then show ?thesis by (simp add: storePrediction_def)
next
  case False
  show ?thesis
    using False by (simp add: storePrediction_parsed[OF False] Let_def)
qed

theorem storePrediction_bounded_witness:
  "fst (storePrediction (Map.empty, Map.empty) ''EURUSD'' exampleSignal []) ''EURUSD''
     = Some (Parsed [newEntry exampleSignal []])
   \<and> fst (storePrediction ([''EURUSD'' \<mapsto> Parsed (replicate 1000 (newEntry exampleSignal [NaN]))],
                            Map.empty) ''EURUSD'' exampleSignal []) ''EURUSD''
     = Some (Parsed (replicate 999 (newEntry exampleSignal [NaN]) @ [newEntry exampleSignal []]))
   \<and> storePrediction ([''EURUSD'' \<mapsto> Unparsable], Map.empty) ''EURUSD'' exampleSignal []
     = ([''EURUSD'' \<mapsto> Unparsable], Map.empty)"
  using storePrediction_bounded[of "(Map.empty, Map.empty)" "''EURUSD''" exampleSignal "[]"]
        storePrediction_bounded[of
          "([''EURUSD'' \<mapsto> Parsed (replicate 1000 (newEntry exampleSignal [NaN]))], Map.empty)"
          "''EURUSD''" exampleSignal "[]"]
        storePrediction_bounded[of "([''EURUSD'' \<mapsto> Unparsable], Map.empty)"
          "''EURUSD''" exampleSignal "[]"]
  by (simp add: Let_def)

section \<open>The flat series\<close>

lemma calculateEMA_flat:
  assumes "0 < n"
  shows "calculateEMA (replicate n c) period = c"
proof -
  have inv: "foldl (\<lambda>ema i. replicate n c ! i * m + ema * (1 - m)) c is = c"
    if "\<forall>i\<in>set is. i < n" for m "is"
    using that by (induction "is") (simp_all add: algebra_simps)
  show ?thesis
    using assms by (simp add: calculateEMA_def Let_def inv)
qed

lemma slice_last_replicate:
  "0 < k \<Longrightarrow> k \<le> n \<Longrightarrow> slice_last k (replicate n c) = replicate k c"
  by (simp add: slice_last_def)

lemma calculateSMA_flat:
  assumes "0 < n" "0 < period"
  shows "calculateSMA (replicate n c) period = Num c"
  using assms by (simp add: calculateSMA_def Let_def slice_last_replicate sum_list_replicate)

lemma bb_variance_flat:
  "foldl (\<lambda>sum price. jadd sum (jmul (jsub (Num price) (Num c)) (jsub (Num price) (Num c))))
     (Num 0) (replicate k c) = Num 0"
  by (induction k) (simp_all add: jsub_def)

lemma calculateBollingerBands_flat:
  assumes "0 < n" "0 < period"
  shows "calculateBollingerBands (replicate n c) period k =
           \<lparr>upper = Num c, middle = Num c, lower = Num c\<rparr>"
proof (cases "n < period")
  case True
  then show ?thesis using assms by (simp add: calculateBollingerBands_def Let_def)
next
  case False
  then have sl: "slice_last period (replicate n c) = replicate period c"
    using assms by (simp add: slice_last_replicate)
  have sma: "jdiv (Num (sum_list (replicate period c))) (Num (real period)) = Num c"
    using assms by (simp add: sum_list_replicate)
  show ?thesis
    unfolding calculateBollingerBands_def Let_def sl sma bb_variance_flat
    using False assms by (simp add: jsub_def)
qed

lemma calculateSupportResistance_flat:
  assumes "0 < n" "0 < period"
  shows "calculateSupportResistance (replicate n c) (replicate n c) period =
           \<lparr>sr_support = Num c, sr_resistance = Num c\<rparr>"
  using assms
  by (simp add: calculateSupportResistance_def Let_def slice_last_replicate
        Math_max_replicate Math_min_replicate)

lemma calculateStochastic_flat:
  assumes "0 < period" "period \<le> n"
  shows "calculateStochastic (replicate n c) (replicate n c) (replicate n c) period =
           \<lparr>percentK = NaN, percentD = NaN\<rparr>"
  using assms
  by (simp add: calculateStochastic_def Let_def slice_last_replicate
        Math_max_replicate Math_min_replicate jsub_def)

lemma jsum_zeros: "jsum (replicate k (Num 0)) = Num 0"
  unfolding jsum_def by (induction k) simp_all

lemma calculateVolatility_flat:
  assumes "c \<noteq> 0" "0 < period" "period < n"
  shows "calculateVolatility (replicate n c) period = Num 0"
proof -
  let ?f = "\<lambda>i. jlog (jdiv (Num (replicate n c ! i)) (Num (replicate n c ! (i - 1))))"
  let ?is = "[1..<min (length (replicate n c)) (period + 1)]"
  have "map ?f ?is = map (\<lambda>_. Num 0) ?is"
    by (rule map_cong) (use assms in auto)
  also have "\<dots> = replicate period (Num 0)"
    using assms by (auto simp: map_replicate_const min_def)
  finally have r: "map ?f ?is = replicate period (Num 0)" .
  have "\<not> length (replicate n c) < period" using assms by simp
  then show ?thesis
    unfolding calculateVolatility_def Let_def r
    using assms by (simp add: jsum_zeros jsub_def)
qed

lemma map_const_replicate:
  "\<forall>x\<in>set xs. f x = c \<Longrightarrow> map f xs = replicate (length xs) c"
  by (induction xs) simp_all

lemma calculateMACD_flat:
  "0 < n \<Longrightarrow> calculateMACD (replicate n c) =
     \<lparr>macdLine = Num 0, signal = Num 0, histogram = Num 0\<rparr>"
  by (simp add: calculateMACD_def Let_def calculateEMA_flat) (simp add: calculateEMA_def)

lemma flat_snapshot:
  assumes n: "20 < length bars"
    and flat: "\<forall>b\<in>set bars. price b = c \<and> high b = c \<and> low b = c"
    and c: "c \<noteq> 0"
  shows "calculateTechnicalIndicators bars =
     \<lparr>rsi = Num 100,
      macd = \<lparr>macdLine = Num 0, signal = Num 0, histogram = Num 0\<rparr>,
      bollingerBands = \<lparr>upper = Num c, middle = Num c, lower = Num c\<rparr>,
      sma20 = Num c, sma50 = Num c, ema12 = Num c, ema26 = Num c,
      stochastic = \<lparr>percentK = NaN, percentD = NaN\<rparr>,
      volatility = Num 0, support = Num c, resistance = Num c\<rparr>"
proof -
  let ?n = "length bars"
  have p: "map price bars = replicate ?n c" "map high bars = replicate ?n c"
    "map low bars = replicate ?n c"
    using flat by (simp_all add: map_const_replicate)
  have ne: "bars \<noteq> []" "0 < ?n" using n by auto
  have r: "calculateRSI (replicate ?n c) 14 = Num 100"
    by (rule calculateRSI_sorted) (use n in simp_all)
  show ?thesis
    unfolding calculateTechnicalIndicators_def Let_def p
    using n ne c
    by (simp add: r calculateMACD_flat calculateBollingerBands_flat calculateSMA_flat
          calculateEMA_flat calculateStochastic_flat calculateVolatility_flat
          calculateSupportResistance_flat)
qed

lemma flat_scored:
  assumes "price bar = c" "c \<noteq> 0"
  shows "analyzeRuleBasedSignals
     \<lparr>rsi = Num 100,
      macd = \<lparr>macdLine = Num 0, signal = Num 0, histogram = Num 0\<rparr>,
      bollingerBands = \<lparr>upper = Num c, middle = Num c, lower = Num c\<rparr>,
      sma20 = Num c, sma50 = Num c, ema12 = Num c, ema26 = Num c,
      stochastic = \<lparr>percentK = NaN, percentD = NaN\<rparr>,
      volatility = Num 0, support = Num c, resistance = Num c\<rparr> bar =
     \<lparr>rb_confidence = 2 / 3,
      rb_reasoning = [''RSI overbought (> 70) - bearish signal'',
                      ''Price at lower Bollinger Band - oversold'',
                      ''Price near support level - potential bounce'']\<rparr>"
  using assms
  by (simp add: analyzeRuleBasedSignals_def checkRSI_def checkMACD_def checkBollingerBands_def
        checkMovingAverages_def checkStochastic_def checkSupportResistance_def Let_def
        bullish_def bearish_def jgt_def jle_def jge_def jsub_def)

lemma flat_series_scored:
  assumes "length bars = 30"
    and "\<forall>b\<in>set bars. price b = 11 / 10 \<and> high b = 11 / 10 \<and> low b = 11 / 10"
  shows "calculateRSI (map price bars) 14 = Num 100
       \<and> rsi (calculateTechnicalIndicators bars) = Num 100
       \<and> analyzeRuleBasedSignals (calculateTechnicalIndicators bars) (last bars) =
           \<lparr>rb_confidence = 2 / 3,
            rb_reasoning = [''RSI overbought (> 70) - bearish signal'',
                            ''Price at lower Bollinger Band - oversold'',
                            ''Price near support level - potential bounce'']\<rparr>"
proof -
  have n: "20 < length bars" and ne: "bars \<noteq> []" using assms(1) by auto
  have l: "price (last bars) = 11 / 10" using assms(2) ne by simp
  have p: "map price bars = replicate (length bars) (11 / 10)"
    using assms(2) by (simp add: map_const_replicate)
  have r: "calculateRSI (map price bars) 14 = Num 100"
    unfolding p by (rule calculateRSI_sorted) (use n in simp_all)
  have s: "calculateTechnicalIndicators bars =
     \<lparr>rsi = Num 100,
      macd = \<lparr>macdLine = Num 0, signal = Num 0, histogram = Num 0\<rparr>,
      bollingerBands = \<lparr>upper = Num (11 / 10), middle = Num (11 / 10), lower = Num (11 / 10)\<rparr>,
      sma20 = Num (11 / 10), sma50 = Num (11 / 10), ema12 = Num (11 / 10), ema26 = Num (11 / 10),
      stochastic = \<lparr>percentK = NaN, percentD = NaN\<rparr>,
      volatility = Num 0, support = Num (11 / 10), resistance = Num (11 / 10)\<rparr>"
    by (rule flat_snapshot[OF n assms(2)]) simp
  show ?thesis
    unfolding s using r flat_scored[OF l] by simp
qed

text \<open>
  C3 (as amended). For a 30-bar series in which every close, high and low equals
  1.10000, the RSI is 100 (the average loss is exactly 0), and the rule-based scorer
  applied to the indicator snapshot and the last bar fires three checks: RSI overbought
  (bearish), price at the lower Bollinger band and price near support (both bullish).
  It returns confidence \<open>2/3\<close> and these three reasons, in this order.
\<close>

theorem flat_series_rule_score:
  assumes "length bars = 30"
    and "\<forall>b\<in>set bars. price b = 11 / 10 \<and> high b = 11 / 10 \<and> low b = 11 / 10"
  shows "calculateRSI (map price bars) 14 = Num 100
       \<and> rsi (calculateTechnicalIndicators bars) = Num 100
       \<and> analyzeRuleBasedSignals (calculateTechnicalIndicators bars) (last bars) =
           \<lparr>rb_confidence = 2 / 3,
            rb_reasoning = [''RSI overbought (> 70) - bearish signal'',
                            ''Price at lower Bollinger Band - oversold'',
                            ''Price near support level - potential bounce'']\<rparr>"
  using assms by (rule flat_series_scored)

theorem flat_series_rule_score_witness:
  "length flatBars = 30
   \<and> price flatBar = 11 / 10 \<and> high flatBar = 11 / 10 \<and> low flatBar = 11 / 10
   \<and> calculateRSI (map price flatBars) 14 = Num 100
   \<and> rb_confidence (analyzeRuleBasedSignals (calculateTechnicalIndicators flatBars) (last flatBars))
       = 2 / 3"
proof -
  have a: "length flatBars = 30" by (simp add: flatBars_def)
  have b: "\<forall>b\<in>set flatBars. price b = 11 / 10 \<and> high b = 11 / 10 \<and> low b = 11 / 10"
    by (simp add: flatBars_def flatBar_def)
  show ?thesis using a flat_series_rule_score[OF a b] by (simp add: flatBar_def)
qed

text \<open>
  C3 as stated (RSI 50, confidence 0.5, no reasons) fails on the flat series itself.
\<close>

theorem flat_series_counterexample:
  "length flatBars = 30
   \<and> price flatBar = 1.1 \<and> high flatBar = 1.1 \<and> low flatBar = 1.1
   \<and> calculateRSI (map price flatBars) 14 \<noteq> Num 50
   \<and> rb_confidence (analyzeRuleBasedSignals (calculateTechnicalIndicators flatBars) (last flatBars))
       \<noteq> 0.5
   \<and> rb_reasoning (analyzeRuleBasedSignals (calculateTechnicalIndicators flatBars) (last flatBars))
       \<noteq> []"
proof -
  have a: "length flatBars = 30" by (simp add: flatBars_def)
  have b: "\<forall>b\<in>set flatBars. price b = 11 / 10 \<and> high b = 11 / 10 \<and> low b = 11 / 10"
    by (simp add: flatBars_def flatBar_def)
  show ?thesis using a flat_series_scored[OF a b] by (simp add: flatBar_def)
qed

section \<open>Saving and loading the model\<close>

lemma val_of_json_of_val: "survives_json v \<Longrightarrow> val_of_json (json_of_val v) = v"
  by (cases v rule: json_of_val.cases) (auto elim: is_finite.elims)

lemma json_matrix_roundtrip:
  assumes "\<forall>row\<in>set rows. \<forall>v\<in>set row. survives_json v"
  shows "map (map val_of_json) (map (map json_of_val) rows) = rows"
proof -
  have "map val_of_json (map json_of_val row) = row" if "row \<in> set rows" for row
    using that assms by (simp add: map_idI val_of_json_of_val)
  then show ?thesis by (simp add: map_idI)
qed

lemma metrics_roundtrip: "metrics_survive t \<Longrightarrow> metrics_of_json (metrics_to_json t) = t"
  by (simp add: metrics_survive_def metrics_of_json_def metrics_to_json_def val_of_json_of_val)

lemma forwardStep_cong:
  assumes "architecture a = architecture b" "weights a = weights b" "biases a = biases b"
  shows "forwardStep a = forwardStep b"
  by (intro ext) (simp only: forwardStep_def assms)

lemma predict_cong:
  assumes "architecture a = architecture b" "weights a = weights b" "biases a = biases b"
  shows "predict a features = predict b features"
  by (simp add: predict_def forwardPropagate_def forwardStep_cong[OF assms] assms)

lemma loadModel_saveModel:
  assumes "ml_symbol m0 = ml_symbol m"
  shows "loadModel (saveModel now store m) m0 =
     (True, m0\<lparr>architecture := architecture m,
               weights := map (map val_of_json) (map (map json_of_val) (weights m)),
               biases := map (map val_of_json) (map (map json_of_val) (biases m)),
               trainingHistory := map metrics_of_json (map metrics_to_json (trainingHistory m))\<rparr>)"
  using assms by (simp add: loadModel_def saveModel_def)

text \<open>
  C5 (as amended). For every model state whose weights and biases are finite numbers
  (or \<open>null\<close>) and every feature vector: after \<open>saveModel\<close>, \<open>loadModel\<close> on a model
  object of the same symbol succeeds and restores the architecture, the weights and the
  biases exactly, so that \<open>predict\<close> on that feature vector returns the same output as
  before; the training history is restored exactly when its numbers are finite too.
\<close>

theorem save_load_roundtrip:
  assumes sym: "ml_symbol m0 = ml_symbol m"
    and w: "\<forall>row\<in>set (weights m). \<forall>v\<in>set row. survives_json v"
    and b: "\<forall>row\<in>set (biases m). \<forall>v\<in>set row. survives_json v"
  shows "fst (loadModel (saveModel now store m) m0)
       \<and> architecture (snd (loadModel (saveModel now store m) m0)) = architecture m
       \<and> weights (snd (loadModel (saveModel now store m) m0)) = weights m
       \<and> biases (snd (loadModel (saveModel now store m) m0)) = biases m
       \<and> predict (snd (loadModel (saveModel now store m) m0)) features = predict m features
       \<and> ((\<forall>t\<in>set (trainingHistory m). metrics_survive t) \<longrightarrow>
            trainingHistory (snd (loadModel (saveModel now store m) m0)) = trainingHistory m)"
proof -
  let ?m' = "snd (loadModel (saveModel now store m) m0)"
  have a: "architecture ?m' = architecture m"
    by (simp add: loadModel_saveModel[OF sym])
  have ww: "weights ?m' = weights m"
    using json_matrix_roundtrip[OF w] by (simp add: loadModel_saveModel[OF sym])
  have bb: "biases ?m' = biases m"
    using json_matrix_roundtrip[OF b] by (simp add: loadModel_saveModel[OF sym])
  have h: "trainingHistory ?m' = trainingHistory m"
    if "\<forall>t\<in>set (trainingHistory m). metrics_survive t"
    using that by (simp add: loadModel_saveModel[OF sym] map_idI metrics_roundtrip)
  have p: "predict ?m' features = predict m features"
    by (rule predict_cong[OF a ww bb])
  show ?thesis
    using a ww bb h p by (simp add: loadModel_saveModel[OF sym])
qed

theorem save_load_roundtrip_witness:
  "ml_symbol exampleModel = ml_symbol exampleModel
   \<and> fst (loadModel (saveModel 0 Map.empty exampleModel) exampleModel)
   \<and> predict (snd (loadModel (saveModel 0 Map.empty exampleModel) exampleModel)) [Num 1]
       = predict exampleModel [Num 1]
   \<and> predict exampleModel [Num 1] = Inr (Num (1 / 2))"
  using save_load_roundtrip[of exampleModel exampleModel 0 Map.empty "[Num 1]"]
  by (simp add: exampleModel_def predict_def forwardPropagate_def
        forwardStep_def forwardLayer_def weightAt_def Let_def)

text \<open>
  C5 as stated (every model state) fails for a weight that is \<open>NaN\<close>:
  \<open>JSON.stringify\<close> writes it as \<open>null\<close>, the loaded weight is \<open>null\<close>, which
  arithmetic reads as 0, and \<open>predict\<close> returns 0.5 where it returned \<open>NaN\<close>.
\<close>

theorem save_load_nan_counterexample:
  "predict nanModel [Num 1] = Inr NaN
   \<and> predict (snd (loadModel (saveModel 0 Map.empty nanModel) nanModel)) [Num 1] = Inr (Num (1 / 2))
   \<and> weights (snd (loadModel (saveModel 0 Map.empty nanModel) nanModel)) = [[Null]]"
  by (simp add: nanModel_def loadModel_def saveModel_def predict_def forwardPropagate_def
        forwardStep_def forwardLayer_def weightAt_def Let_def)


section \<open>The models of the engine of src/components/TradingBotEngine.ts\<close>

text \<open>
  A model with the shape \<open>initializeMLModels\<close> gives it has \<open>18 * 64\<close> weights in its
  first layer. On 19 features, neuron \<open>n\<close> of that layer reads the weights
  \<open>19 * n .. 19 * n + 18\<close>, so the last neurons read past the end of the array: the
  product with \<open>undefined\<close> is \<open>NaN\<close>, the sum stays \<open>NaN\<close>, every later layer adds
  a multiple of it, and the prediction is \<open>NaN\<close> whatever the weights and features.
\<close>

lemma jadd_NaN_right: "jadd a NaN = NaN"
  by (cases a) simp_all

lemma jmul_NaN_right: "jmul a NaN = NaN"
  by (cases a) simp_all

lemma foldl_NaN_sticky:
  "foldl (\<lambda>sum p. Number (jadd (toNumber sum) (g p))) (Number NaN) ps = Number NaN"
  by (induction ps) simp_all

lemma foldl_NaN_hit:
  assumes "p \<in> set ps" "g p = NaN"
  shows "foldl (\<lambda>sum p. Number (jadd (toNumber sum) (g p))) a ps = Number NaN"
  using assms(1)
proof (induction ps arbitrary: a)
  case Nil
  then show ?case by simp
next
  case (Cons q qs)
  show ?case
  proof (cases "q = p")
    case True
    then show ?thesis by (simp add: assms(2) jadd_NaN_right foldl_NaN_sticky)
  next
    case False
    then show ?thesis using Cons by simp
  qed
qed

lemma forwardLayer_fst:
  "fst (forwardLayer act prev ws bs) =
     map (\<lambda>neuron.
        foldl (\<lambda>sum p. Number (jadd (toNumber sum)
                 (jmul (toNumber (prev ! p)) (weightAt ws (neuron * length prev + p)))))
          (bs ! neuron) [0..<length prev])
       [0..<length bs]"
  by (simp add: forwardLayer_def Let_def)

lemma forwardLayer_snd:
  "snd (forwardLayer act prev ws bs) =
     map (\<lambda>sum. activate (toNumber sum) act) (fst (forwardLayer act prev ws bs))"
  by (simp add: forwardLayer_def Let_def)

lemma forwardLayer_length: "length (fst (forwardLayer act prev ws bs)) = length bs"
  by (simp add: forwardLayer_fst)

lemma forwardLayer_NaN_input:
  assumes "p < length prev" "toNumber (prev ! p) = NaN"
  shows "fst (forwardLayer act prev ws bs) = replicate (length bs) (Number NaN)"
proof -
  have "foldl (\<lambda>sum q. Number (jadd (toNumber sum)
                 (jmul (toNumber (prev ! q)) (weightAt ws (neuron * length prev + q)))))
          (bs ! neuron) [0..<length prev] = Number NaN" for neuron
    by (rule foldl_NaN_hit[of p]) (use assms in simp_all)
  then show ?thesis by (simp add: forwardLayer_fst map_replicate_const)
qed

lemma forwardLayer_NaN_weight:
  assumes "n < length bs" "p < length prev" "length ws \<le> n * length prev + p"
  shows "fst (forwardLayer act prev ws bs) ! n = Number NaN"
proof -
  have "foldl (\<lambda>sum q. Number (jadd (toNumber sum)
                 (jmul (toNumber (prev ! q)) (weightAt ws (n * length prev + q)))))
          (bs ! n) [0..<length prev] = Number NaN"
    by (rule foldl_NaN_hit[of p]) (use assms in \<open>simp_all add: weightAt_def jmul_NaN_right\<close>)
  then show ?thesis using assms(1) by (simp add: forwardLayer_fst)
qed

lemma predict_shaped:
  assumes w: "map length (weights m) = [1152, 2048, 512, 16]"
    and b: "map length (biases m) = [64, 32, 16, 1]"
    and f: "length features = 19"
  shows "predict m features = Inr NaN"
proof -
  have lw: "length (weights m) = 4" using arg_cong[OF w, of length] by simp
  have lb: "length (biases m) = 4" using arg_cong[OF b, of length] by simp
  have w0: "length (weights m ! 0) = 1152"
    using arg_cong[OF w, of "\<lambda>xs. xs ! 0"] lw by simp
  have bl: "length (biases m ! 0) = 64" "length (biases m ! 1) = 32"
    "length (biases m ! 2) = 16" "length (biases m ! 3) = 1"
    using arg_cong[OF b, of "\<lambda>xs. xs ! 0"] arg_cong[OF b, of "\<lambda>xs. xs ! 1"]
      arg_cong[OF b, of "\<lambda>xs. xs ! 2"] arg_cong[OF b, of "\<lambda>xs. xs ! 3"] lb by simp_all
  define a where "a = activationFunction (architecture m)"
  define o0 where "o0 = fst (forwardLayer a (map Number features) (weights m ! 0) (biases m ! 0))"
  define o1 where "o1 = fst (forwardLayer a o0 (weights m ! 1) (biases m ! 1))"
  define o2 where "o2 = fst (forwardLayer a o1 (weights m ! 2) (biases m ! 2))"
  define o3 where "o3 = fst (forwardLayer Sigmoid o2 (weights m ! 3) (biases m ! 3))"
  have n0: "o0 ! 63 = Number NaN" "length o0 = 64"
    unfolding o0_def
    by (rule forwardLayer_NaN_weight[of 63 _ 18]) (simp_all add: bl w0 f forwardLayer_length)
  have "toNumber (o0 ! 63) = NaN" "63 < length o0" using n0 by simp_all
  then have n1: "o1 = replicate 32 (Number NaN)"
    unfolding o1_def using forwardLayer_NaN_input[of 63 o0 a "weights m ! 1" "biases m ! 1"]
    by (simp only: bl)
  have "toNumber (o1 ! 0) = NaN" "0 < length o1" using n1 by simp_all
  then have n2: "o2 = replicate 16 (Number NaN)"
    unfolding o2_def using forwardLayer_NaN_input[of 0 o1 a "weights m ! 2" "biases m ! 2"]
    by (simp only: bl)
  have "toNumber (o2 ! 0) = NaN" "0 < length o2" using n2 by simp_all
  then have n3: "o3 = replicate 1 (Number NaN)"
    unfolding o3_def using forwardLayer_NaN_input[of 0 o2 Sigmoid "weights m ! 3" "biases m ! 3"]
    by (simp only: bl)
  have u: "[0..<4] = [0, 1, 2, 3]" by (simp add: upt_rec)
  have "forwardPropagate m features =
     Inr ([map Number features, o0, o1, o2, o3],
          [features,
           map (\<lambda>sum. activate (toNumber sum) a) o0,
           map (\<lambda>sum. activate (toNumber sum) a) o1,
           map (\<lambda>sum. activate (toNumber sum) a) o2,
           map (\<lambda>sum. activate (toNumber sum) Sigmoid) o3])"
    unfolding forwardPropagate_def lw u
    by (simp add: forwardStep_def lb lw Let_def forwardLayer_snd o0_def o1_def o2_def o3_def a_def)
  then show ?thesis
    by (simp add: predict_def n3)
qed

lemma normalizeData_length: "length (normalizeData xs) = length xs"
  by (simp add: normalizeData_def Let_def)

lemma extractEnhancedFeatures_length:
  "marketData \<noteq> [] \<Longrightarrow> length (extractEnhancedFeatures env marketData ind symb) = 19"
  by (simp add: extractEnhancedFeatures_def Let_def normalizeData_length)

lemma hasShape_engine:
  assumes "hasShape engineArchitecture m"
  shows "map length (weights m) = [1152, 2048, 512, 16]"
    "map length (biases m) = [64, 32, 16, 1]"
  using assms
  by (simp_all add: hasShape_def layerSizes_def engineArchitecture_def defaultArchitecture_def
        Let_def upt_rec)

lemma newModel_hasShape: "hasShape arch (newModel symb arch random)"
  by (simp add: hasShape_def newModel_def initializeWeights_def Let_def comp_def)

lemma loadModel_hasShape:
  assumes "hasShape arch m'" "ml_symbol m = ml_symbol m'"
  shows "hasShape arch (snd (loadModel (saveModel now store m') m))"
  using assms by (simp add: hasShape_def loadModel_def saveModel_def Let_def comp_def)

lemma initialEngine_models:
  "mlModels initialEngine symb = Some m \<Longrightarrow> hasShape engineArchitecture m"
  by (auto simp: initialEngine_def initializeMLModels_def getSupportedSymbols_def loadModel_def
        newModel_hasShape split: if_splits)

text \<open>The shape is kept by the engine: the constructor gives it, loading what was saved
  keeps it, and training keeps it as long as the epochs do (\<open>updateWeights\<close> changes
  the numbers in place).\<close>

lemma trainSymbol_hasShape:
  assumes fit: "\<And>m d. hasShape a m \<Longrightarrow> hasShape a (fst (fit env m d))"
    and inv: "\<And>s m. mlModels eng s = Some m \<Longrightarrow> hasShape a m"
  shows "trainSymbol env (results, eng) s = Inr (results', eng')
           \<Longrightarrow> mlModels eng' s' = Some m \<Longrightarrow> hasShape a m"
    and "trainSymbol env (results, eng) s = Inl (e, results', eng')
           \<Longrightarrow> mlModels eng' s' = Some m \<Longrightarrow> hasShape a m"
  using inv fit[OF inv, of s]
  by (auto simp: trainSymbol_def trainModel_def Let_def
        split: if_splits option.splits prod.splits sum.splits) (metis fst_conv)+


lemma trainLoop_hasShape:
  assumes fit: "\<And>m d. hasShape a m \<Longrightarrow> hasShape a (fst (fit env m d))"
  shows "(\<And>s m. mlModels eng s = Some m \<Longrightarrow> hasShape a m)
    \<Longrightarrow> mlModels (snd (trainLoop env symbols (results, eng))) s' = Some m' \<Longrightarrow> hasShape a m'"
proof (induction symbols arbitrary: results eng)
  case Nil
  then show ?case by simp
next
  case (Cons s symbols)
  show ?case
  proof (cases "trainSymbol env (results, eng) s")
    case (Inl x)
    then obtain e results' eng' where x: "x = (e, results', eng')" by (cases x) auto
    have "mlModels eng' s' = Some m'" using Cons.prems(2) Inl x by simp
    then show ?thesis
      using trainSymbol_hasShape(2)[OF fit Cons.prems(1),
              where results = results and s = s and e = e and results' = results'
                and eng' = eng' and s' = s' and m = m'] Inl x
      by simp
  next
    case (Inr y)
    then obtain results' eng' where y: "y = (results', eng')" by (cases y) auto
    have inv': "hasShape a m" if "mlModels eng' t = Some m" for t m
      using trainSymbol_hasShape(1)[OF fit Cons.prems(1),
              where results = results and s = s and results' = results'
                and eng' = eng' and s' = t and m = m] Inr y that
      by simp
    have "mlModels (snd (trainLoop env symbols (results', eng'))) s' = Some m'"
      using Cons.prems(2) Inr y by simp
    then show ?thesis using Cons.IH[of eng' results'] inv' by blast
  qed
qed

lemma trainModels_hasShape:
  assumes "\<And>m d. hasShape a m \<Longrightarrow> hasShape a (fst (fit env m d))"
    and "\<And>s m. mlModels eng s = Some m \<Longrightarrow> hasShape a m"
    and "mlModels (snd (trainModels env eng symbolArg)) s' = Some m'"
  shows "hasShape a m'"
proof (cases "isTraining eng")
  case True
  then show ?thesis using assms(2,3) by (simp add: trainModels_def)
next
  case False
  let ?symbols = "case symbolArg of None \<Rightarrow> getSupportedSymbols
                  | Some s \<Rightarrow> if s = [] then getSupportedSymbols else [s]"
  have "mlModels (snd (trainLoop env ?symbols (Map.empty, eng\<lparr>isTraining := True\<rparr>))) s' = Some m'"
    using assms(3) False by (simp add: trainModels_def Let_def)
  moreover have "hasShape a m" if "mlModels (eng\<lparr>isTraining := True\<rparr>) s = Some m" for s m
    using assms(2) that by simp
  ultimately show ?thesis
    using trainLoop_hasShape[OF assms(1), of "eng\<lparr>isTraining := True\<rparr>" ?symbols Map.empty s' m']
    by blast
qed

text \<open>With it the combined confidence is \<open>NaN\<close> and no signal is emitted.\<close>

lemma combineEnhanced_NaN: "combineEnhanced NaN rule sent = NaN"
  by (simp add: combineEnhanced_def Let_def)

lemma signalEnhanced_NaN: "signalEnhanced env symb cur ind rule sent NaN dur = None"
  by (simp add: signalEnhanced_def Let_def jgt_def)

lemma shaped_combined:
  assumes "hasShape engineArchitecture m"
  shows "combinedConfidenceEnhanced env m hist cur symb = Some NaN"
proof -
  have "predict m (extractEnhancedFeatures env (hist @ [cur])
                     (calculateTechnicalIndicators (hist @ [cur])) symb) = Inr NaN"
    by (rule predict_shaped[OF hasShape_engine[OF assms]])
       (simp add: extractEnhancedFeatures_length)
  then show ?thesis by (simp add: combinedConfidenceEnhanced_def Let_def combineEnhanced_NaN)
qed

lemma shaped_no_signal:
  assumes "\<And>m. mlModels eng symb = Some m \<Longrightarrow> hasShape engineArchitecture m"
  shows "fst (generateTradingSignal env eng symb dur) = None"
  using assms
  by (auto simp: generateTradingSignal_def Let_def shaped_combined signalEnhanced_NaN
        split: option.splits)

section \<open>Direction and confidence of a signal\<close>

subsection \<open>The combination in doubles\<close>

text \<open>The doubles of the literals 0.6 and 0.4, and the products and sums of the
  combination at the prediction 0.5 for the rule confidences 1, 3/4, 2/3, 1/4 and 0.\<close>

lemma fl_three_fifths: "fl (3 / 5) = Num (5404319552844595 / 9007199254740992)"
proof -
  have "fl (3 / 5) =
     Num (of_int (rne ((3 / 5) / 2 powr of_int (- 1 - 52))) * 2 powr of_int (- 1 - 52))"
    by (rule fl_eval) (simp_all add: powr_neg_numeral)
  then show ?thesis by (simp add: powr_neg_numeral rne_def Let_def)
qed

lemma fl_two_fifths: "fl (2 / 5) = Num (3602879701896397 / 9007199254740992)"
proof -
  have "fl (2 / 5) =
     Num (of_int (rne ((2 / 5) / 2 powr of_int (- 2 - 52))) * 2 powr of_int (- 2 - 52))"
    by (rule fl_eval) (simp_all add: powr_neg_numeral)
  then show ?thesis by (simp add: powr_neg_numeral rne_def Let_def)
qed

lemma fl_half_06: "fl (5404319552844595 / 18014398509481984) = Num (5404319552844595 / 18014398509481984)"
proof -
  have "fl (5404319552844595 / 18014398509481984) =
     Num (of_int (rne ((5404319552844595 / 18014398509481984) / 2 powr of_int (- 2 - 52))) * 2 powr of_int (- 2 - 52))"
    by (rule fl_eval) (simp_all add: powr_neg_numeral)
  then show ?thesis by (simp add: powr_neg_numeral rne_def Let_def)
qed

lemma fl_one_04: "fl (3602879701896397 / 9007199254740992) = Num (3602879701896397 / 9007199254740992)"
proof -
  have "fl (3602879701896397 / 9007199254740992) =
     Num (of_int (rne ((3602879701896397 / 9007199254740992) / 2 powr of_int (- 2 - 52))) * 2 powr of_int (- 2 - 52))"
    by (rule fl_eval) (simp_all add: powr_neg_numeral)
  then show ?thesis by (simp add: powr_neg_numeral rne_def Let_def)
qed

lemma fl_sum_one: "fl (12610078956637389 / 18014398509481984) = Num (3152519739159347 / 4503599627370496)"
proof -
  have "fl (12610078956637389 / 18014398509481984) =
     Num (of_int (rne ((12610078956637389 / 18014398509481984) / 2 powr of_int (- 1 - 52))) * 2 powr of_int (- 1 - 52))"
    by (rule fl_eval) (simp_all add: powr_neg_numeral)
  then show ?thesis by (simp add: powr_neg_numeral rne_def Let_def)
qed

lemma fl_three_quarters: "fl (3 / 4) = Num (3 / 4)"
proof -
  have "fl (3 / 4) =
     Num (of_int (rne ((3 / 4) / 2 powr of_int (- 1 - 52))) * 2 powr of_int (- 1 - 52))"
    by (rule fl_eval) (simp_all add: powr_neg_numeral)
  then show ?thesis by (simp add: powr_neg_numeral rne_def Let_def)
qed

lemma fl_three_quarters_04: "fl (10808639105689191 / 36028797018963968) = Num (1351079888211149 / 4503599627370496)"
proof -
  have "fl (10808639105689191 / 36028797018963968) =
     Num (of_int (rne ((10808639105689191 / 36028797018963968) / 2 powr of_int (- 2 - 52))) * 2 powr of_int (- 2 - 52))"
    by (rule fl_eval) (simp_all add: powr_neg_numeral)
  then show ?thesis by (simp add: powr_neg_numeral rne_def Let_def)
qed

lemma fl_sum_three_quarters: "fl (10808639105689191 / 18014398509481984) = Num (1351079888211149 / 2251799813685248)"
proof -
  have "fl (10808639105689191 / 18014398509481984) =
     Num (of_int (rne ((10808639105689191 / 18014398509481984) / 2 powr of_int (- 1 - 52))) * 2 powr of_int (- 1 - 52))"
    by (rule fl_eval) (simp_all add: powr_neg_numeral)
  then show ?thesis by (simp add: powr_neg_numeral rne_def Let_def)
qed

lemma fl_two_thirds: "fl (2 / 3) = Num (6004799503160661 / 9007199254740992)"
proof -
  have "fl (2 / 3) =
     Num (of_int (rne ((2 / 3) / 2 powr of_int (- 1 - 52))) * 2 powr of_int (- 1 - 52))"
    by (rule fl_eval) (simp_all add: powr_neg_numeral)
  then show ?thesis by (simp add: powr_neg_numeral rne_def Let_def)
qed

lemma fl_two_thirds_04: "fl (21634570243895115118877068038417 / 81129638414606681695789005144064) = Num (4803839602528529 / 18014398509481984)"
proof -
  have "fl (21634570243895115118877068038417 / 81129638414606681695789005144064) =
     Num (of_int (rne ((21634570243895115118877068038417 / 81129638414606681695789005144064) / 2 powr of_int (- 2 - 52))) * 2 powr of_int (- 2 - 52))"
    by (rule fl_eval) (simp_all add: powr_neg_numeral)
  then show ?thesis by (simp add: powr_neg_numeral rne_def Let_def)
qed

lemma fl_sum_two_thirds: "fl (2552039788843281 / 4503599627370496) = Num (2552039788843281 / 4503599627370496)"
proof -
  have "fl (2552039788843281 / 4503599627370496) =
     Num (of_int (rne ((2552039788843281 / 4503599627370496) / 2 powr of_int (- 1 - 52))) * 2 powr of_int (- 1 - 52))"
    by (rule fl_eval) (simp_all add: powr_neg_numeral)
  then show ?thesis by (simp add: powr_neg_numeral rne_def Let_def)
qed

lemma fl_quarter: "fl (1 / 4) = Num (1 / 4)"
proof -
  have "fl (1 / 4) =
     Num (of_int (rne ((1 / 4) / 2 powr of_int (- 2 - 52))) * 2 powr of_int (- 2 - 52))"
    by (rule fl_eval) (simp_all add: powr_neg_numeral)
  then show ?thesis by (simp add: powr_neg_numeral rne_def Let_def)
qed

lemma fl_quarter_04: "fl (3602879701896397 / 36028797018963968) = Num (3602879701896397 / 36028797018963968)"
proof -
  have "fl (3602879701896397 / 36028797018963968) =
     Num (of_int (rne ((3602879701896397 / 36028797018963968) / 2 powr of_int (- 4 - 52))) * 2 powr of_int (- 4 - 52))"
    by (rule fl_eval) (simp_all add: powr_neg_numeral)
  then show ?thesis by (simp add: powr_neg_numeral rne_def Let_def)
qed

lemma fl_sum_quarter: "fl (14411518807585587 / 36028797018963968) = Num (3602879701896397 / 9007199254740992)"
proof -
  have "fl (14411518807585587 / 36028797018963968) =
     Num (of_int (rne ((14411518807585587 / 36028797018963968) / 2 powr of_int (- 2 - 52))) * 2 powr of_int (- 2 - 52))"
    by (rule fl_eval) (simp_all add: powr_neg_numeral)
  then show ?thesis by (simp add: powr_neg_numeral rne_def Let_def)
qed

lemma fl_c_one_minus_half: "fl (900719925474099 / 4503599627370496) = Num (900719925474099 / 4503599627370496)"
proof -
  have "fl (900719925474099 / 4503599627370496) =
     Num (of_int (rne ((900719925474099 / 4503599627370496) / 2 powr of_int (- 3 - 52))) * 2 powr of_int (- 3 - 52))"
    by (rule fl_eval) (simp_all add: powr_neg_numeral)
  then show ?thesis by (simp add: powr_neg_numeral rne_def Let_def)
qed

lemma fl_conf_one: "fl (900719925474099 / 2251799813685248) = Num (900719925474099 / 2251799813685248)"
proof -
  have "fl (900719925474099 / 2251799813685248) =
     Num (of_int (rne ((900719925474099 / 2251799813685248) / 2 powr of_int (- 2 - 52))) * 2 powr of_int (- 2 - 52))"
    by (rule fl_eval) (simp_all add: powr_neg_numeral)
  then show ?thesis by (simp add: powr_neg_numeral rne_def Let_def)
qed

lemma fl_literals:
  "fl 0.6 = Num (5404319552844595 / 2 ^ 53)"
  "fl 0.4 = Num (3602879701896397 / 2 ^ 53)"
  using fl_three_fifths fl_two_fifths by simp_all

lemma combineBase_half:
  "combineBase (Num 0.5) \<lparr>rb_confidence = 1, rb_reasoning = rs\<rparr>
     = Num (3152519739159347 / 2 ^ 52)"
  "combineBase (Num 0.5) \<lparr>rb_confidence = 3 / 4, rb_reasoning = rs\<rparr>
     = Num (1351079888211149 / 2 ^ 51)"
  "combineBase (Num 0.5) \<lparr>rb_confidence = 2 / 3, rb_reasoning = rs\<rparr>
     = Num (2552039788843281 / 2 ^ 52)"
  "combineBase (Num 0.5) \<lparr>rb_confidence = 1 / 4, rb_reasoning = rs\<rparr>
     = Num (3602879701896397 / 2 ^ 53)"
  "combineBase (Num 0.5) \<lparr>rb_confidence = 0, rb_reasoning = rs\<rparr>
     = Num (5404319552844595 / 2 ^ 54)"
  by (simp_all add: combineBase_def fl_three_fifths fl_two_fifths fl_half_06 fl_1 fl_0
        fl_one_04 fl_sum_one fl_representable[OF representable_of_int]
        fl_three_quarters_04 fl_sum_three_quarters fl_two_thirds fl_two_thirds_04 fl_sum_two_thirds
        fl_quarter_04 fl_sum_quarter fl_three_quarters fl_quarter)

text \<open>No double lies between the double 0.6 and the real 0.6, nor between the real 0.4
  and the double 0.4: on doubles, the comparisons of the code are comparisons with the
  reals.\<close>

lemma above_06:
  assumes "representable r" "5404319552844595 / 9007199254740992 < r"
  shows "6 / 10 < r"
proof (cases "1 \<le> r")
  case True
  then show ?thesis by simp
next
  case False
  have "2 powr of_int (- 1) \<le> r" "r < 2 powr of_int (- 1 + 1)"
    using assms(2) False by (simp_all add: powr_neg_numeral powr_minus)
  then obtain N :: int where N: "r = of_int N * 2 powr of_int (- 1 - 52)"
    using representable_grid[OF assms(1), of "- 1"] by auto
  then have r: "r = of_int N / 9007199254740992" by (simp add: powr_neg_numeral)
  have "of_int 5404319552844595 < (of_int N :: real)" using assms(2) unfolding r by simp
  then have "5404319552844595 < N" by (simp only: of_int_less_iff)
  then have "5404319552844596 \<le> N" by simp
  then have "(of_int 5404319552844596 :: real) \<le> of_int N" by (simp only: of_int_le_iff)
  then show ?thesis unfolding r by simp
qed

lemma below_04:
  assumes "representable r" "r < 3602879701896397 / 9007199254740992"
  shows "r < 4 / 10"
proof (cases "r < 1 / 4")
  case True
  then show ?thesis by simp
next
  case False
  have "2 powr of_int (- 2) \<le> r" "r < 2 powr of_int (- 2 + 1)"
    using assms(2) False by (simp_all add: powr_neg_numeral powr_minus)
  then obtain N :: int where N: "r = of_int N * 2 powr of_int (- 2 - 52)"
    using representable_grid[OF assms(1), of "- 2"] by auto
  then have r: "r = of_int N / 18014398509481984" by (simp add: powr_neg_numeral)
  have "(of_int N :: real) < of_int 7205759403792794" using assms(2) unfolding r by simp
  then have "N < 7205759403792794" by (simp only: of_int_less_iff)
  then have "N \<le> 7205759403792793" by simp
  then have "(of_int N :: real) \<le> of_int 7205759403792793" by (simp only: of_int_le_iff)
  then show ?thesis unfolding r by simp
qed

lemma fl_thresholds:
  "jgt (fl x) (fl 0.6) \<longleftrightarrow> jgt (fl x) (Num 0.6)"
  "jlt (fl x) (fl 0.4) \<longleftrightarrow> jlt (fl x) (Num 0.4)"
proof -
  have c: "fl x = PosInf \<or> fl x = NegInf \<or> fl x = Num (rnd x)"
    by (simp add: fl_def Let_def)
  have a: "5404319552844595 / 9007199254740992 < rnd x \<longleftrightarrow> 6 / 10 < rnd x"
    using above_06[OF rnd_is_representable, of x] by auto
  have b: "rnd x < 3602879701896397 / 9007199254740992 \<longleftrightarrow> rnd x < 4 / 10"
    using below_04[OF rnd_is_representable, of x] by auto
  show "jgt (fl x) (fl 0.6) \<longleftrightarrow> jgt (fl x) (Num 0.6)"
    using c a by (auto simp: jgt_def fl_three_fifths)
  show "jlt (fl x) (fl 0.4) \<longleftrightarrow> jlt (fl x) (Num 0.4)"
    using c b by (auto simp: fl_two_fifths)
qed

lemma fadd_cases:
  "(\<exists>x. fadd a b = fl x) \<or> fadd a b = PosInf \<or> fadd a b = NegInf \<or> fadd a b = NaN"
  by (cases a; cases b) auto

lemma fadd_thresholds:
  "jgt (fadd a b) (fl 0.6) \<longleftrightarrow> jgt (fadd a b) (Num 0.6)"
  "jlt (fadd a b) (fl 0.4) \<longleftrightarrow> jlt (fadd a b) (Num 0.4)"
proof -
  show "jgt (fadd a b) (fl 0.6) \<longleftrightarrow> jgt (fadd a b) (Num 0.6)"
    using fadd_cases[of a b] fl_thresholds(1)
    by (elim disjE exE) (simp_all add: jgt_def fl_three_fifths)
  show "jlt (fadd a b) (fl 0.4) \<longleftrightarrow> jlt (fadd a b) (Num 0.4)"
    using fadd_cases[of a b] fl_thresholds(2)
    by (elim disjE exE) (simp_all add: fl_two_fifths)
qed

lemma combineBase_thresholds:
  "jgt (combineBase ml rule) (fl 0.6) \<longleftrightarrow> jgt (combineBase ml rule) (Num 0.6)"
  "jlt (combineBase ml rule) (fl 0.4) \<longleftrightarrow> jlt (combineBase ml rule) (Num 0.4)"
  unfolding combineBase_def by (rule fadd_thresholds(1), rule fadd_thresholds(2))

subsection \<open>Direction\<close>

lemma short_flat_snapshot:
  assumes n: "0 < length bars" "length bars < 14"
    and flat: "\<forall>b\<in>set bars. price b = c \<and> high b = c \<and> low b = c"
  shows "calculateTechnicalIndicators bars =
     \<lparr>rsi = Num 50,
      macd = \<lparr>macdLine = Num 0, signal = Num 0, histogram = Num 0\<rparr>,
      bollingerBands = \<lparr>upper = Num c, middle = Num c, lower = Num c\<rparr>,
      sma20 = Num c, sma50 = Num c, ema12 = Num c, ema26 = Num c,
      stochastic = \<lparr>percentK = Num 50, percentD = Num 50\<rparr>,
      volatility = Num 0, support = Num c, resistance = Num c\<rparr>"
proof -
  let ?n = "length bars"
  have p: "map price bars = replicate ?n c" "map high bars = replicate ?n c"
    "map low bars = replicate ?n c"
    using flat by (simp_all add: map_const_replicate)
  have ne: "bars \<noteq> []" using n by auto
  show ?thesis
    unfolding calculateTechnicalIndicators_def Let_def p
    using n ne
    by (simp add: calculateMACD_flat calculateBollingerBands_flat calculateSMA_flat
          calculateEMA_flat calculateSupportResistance_flat)
       (simp add: calculateRSI_def calculateStochastic_def calculateVolatility_def)
qed

lemma short_flat_scored:
  assumes "price bar = c" "c \<noteq> 0"
  shows "analyzeRuleBasedSignals
     \<lparr>rsi = Num 50,
      macd = \<lparr>macdLine = Num 0, signal = Num 0, histogram = Num 0\<rparr>,
      bollingerBands = \<lparr>upper = Num c, middle = Num c, lower = Num c\<rparr>,
      sma20 = Num c, sma50 = Num c, ema12 = Num c, ema26 = Num c,
      stochastic = \<lparr>percentK = Num 50, percentD = Num 50\<rparr>,
      volatility = Num 0, support = Num c, resistance = Num c\<rparr> bar =
     \<lparr>rb_confidence = 1,
      rb_reasoning = [''Price at lower Bollinger Band - oversold'',
                      ''Price near support level - potential bounce'']\<rparr>"
  using assms
  by (simp add: analyzeRuleBasedSignals_def checkRSI_def checkMACD_def checkBollingerBands_def
        checkMovingAverages_def checkStochastic_def checkSupportResistance_def Let_def
        bullish_def bearish_def jgt_def jle_def jge_def jsub_def)

lemma flat2_snapshot:
  "calculateTechnicalIndicators ([flatBar] @ [flatBar]) =
     \<lparr>rsi = Num 50,
      macd = \<lparr>macdLine = Num 0, signal = Num 0, histogram = Num 0\<rparr>,
      bollingerBands = \<lparr>upper = Num 1.1, middle = Num 1.1, lower = Num 1.1\<rparr>,
      sma20 = Num 1.1, sma50 = Num 1.1, ema12 = Num 1.1, ema26 = Num 1.1,
      stochastic = \<lparr>percentK = Num 50, percentD = Num 50\<rparr>,
      volatility = Num 0, support = Num 1.1, resistance = Num 1.1\<rparr>"
  by (rule short_flat_snapshot) (simp_all add: flatBar_def)

lemma flat2_scored:
  "analyzeRuleBasedSignals (calculateTechnicalIndicators ([flatBar] @ [flatBar])) flatBar =
     \<lparr>rb_confidence = 1,
      rb_reasoning = [''Price at lower Bollinger Band - oversold'',
                      ''Price near support level - potential bounce'']\<rparr>"
  unfolding flat2_snapshot by (rule short_flat_scored) (simp_all add: flatBar_def)

lemma generateTradingSignalBase_fst:
  assumes "fetchHistoricalData env symb ''3mo'' \<noteq> []" "fetchRealTimeData env symb = Some cur"
  shows "fst (generateTradingSignalBase env eng symb dur) =
     signalBase env cur
       (calculateTechnicalIndicators (fetchHistoricalData env symb ''3mo'' @ [cur]))
       (analyzeRuleBasedSignals
          (calculateTechnicalIndicators (fetchHistoricalData env symb ''3mo'' @ [cur])) cur)
       (combinedConfidenceBase eng (fetchHistoricalData env symb ''3mo'') cur symb) dur"
  using assms by (simp add: generateTradingSignalBase_def Let_def split: option.splits)

lemma jlt_not_jgt: "jlt c (Num a) \<Longrightarrow> a \<le> b \<Longrightarrow> \<not> jgt c (Num b)"
  by (cases c) (simp_all add: jgt_def)

lemma signalBase_cases:
  "(jgt c (fl 0.6) \<longrightarrow>
      (\<exists>sig. signalBase env cur ind rule c dur = Some sig \<and> direction sig = CALL
         \<and> confidence sig = fmul (jabs (fsub c (Num 0.5))) (Num 2)))
   \<and> (jlt c (fl 0.4) \<longrightarrow>
      (\<exists>sig. signalBase env cur ind rule c dur = Some sig \<and> direction sig = PUT
         \<and> confidence sig = fmul (jabs (fsub c (Num 0.5))) (Num 2)))
   \<and> (\<not> jgt c (fl 0.6) \<and> \<not> jlt c (fl 0.4) \<longrightarrow> signalBase env cur ind rule c dur = None)"
  using jlt_not_jgt[of c "3602879701896397 / 2 ^ 53" "5404319552844595 / 2 ^ 53"]
  by (auto simp: signalBase_def Let_def fl_three_fifths fl_two_fifths)

text \<open>The comparisons in the text of src/components/TradingBotEngine.ts are with 0.65
  and 0.35; with the models the engine builds, the number they see is \<open>NaN\<close>.\<close>

lemma signalEnhanced_cases:
  "(jgt c (Num 0.65) \<longrightarrow>
      (\<exists>sig. signalEnhanced env symb cur ind rule sent c dur = Some sig \<and> direction sig = CALL
         \<and> confidence sig = jmul (jabs (jsub c (Num 0.5))) (Num 2)))
   \<and> (jlt c (Num 0.35) \<longrightarrow>
      (\<exists>sig. signalEnhanced env symb cur ind rule sent c dur = Some sig \<and> direction sig = PUT
         \<and> confidence sig = jmul (jabs (jsub c (Num 0.5))) (Num 2)))
   \<and> (\<not> jgt c (Num 0.65) \<and> \<not> jlt c (Num 0.35) \<longrightarrow>
        signalEnhanced env symb cur ind rule sent c dur = None)"
  using jlt_not_jgt[of c "0.35" "0.65"]
  by (auto simp: signalEnhanced_def Let_def)

text \<open>
  C1. For every input that reaches the combination step, \<open>generateTradingSignal\<close>
  returns CALL when the combined confidence is greater than 0.6, PUT when it is less than
  0.4, and no signal otherwise, so none strictly between 0.4 and 0.6. In the first
  engine (src/unnamed/part_000) the code compares the combined confidence with the
  doubles 0.6 and 0.4, which on the doubles the combination delivers is the comparison
  with the numbers 0.6 and 0.4. In the engine of src/components/TradingBotEngine.ts
  every model has the shape \<open>initializeMLModels\<close> gives it, 18 inputs for the 19
  features, so the prediction and the combined confidence are \<open>NaN\<close>, which is neither
  greater than 0.6 nor less than 0.4 nor between them, and every call returns no signal.
\<close>

theorem generateTradingSignal_direction:
  "(fetchHistoricalData env symb ''3mo'' \<noteq> [] \<and> fetchRealTimeData env symb = Some currentData
      \<longrightarrow>
      (let c = combinedConfidenceBase eng (fetchHistoricalData env symb ''3mo'') currentData symb;
           r = fst (generateTradingSignalBase env eng symb dur)
       in (jgt c (Num 0.6) \<longrightarrow> (\<exists>sig. r = Some sig \<and> direction sig = CALL))
        \<and> (jlt c (Num 0.4) \<longrightarrow> (\<exists>sig. r = Some sig \<and> direction sig = PUT))
        \<and> (\<not> jgt c (Num 0.6) \<and> \<not> jlt c (Num 0.4) \<longrightarrow> r = None)))
   \<and> (fetchHistoricalData env (symb @ ''=X'') ''3mo'' \<noteq> []
        \<and> fetchRealTimeData env (symb @ ''=X'') = Some currentData
        \<and> mlModels eng symb = Some mlModel
        \<and> hasShape engineArchitecture mlModel
      \<longrightarrow>
        combinedConfidenceEnhanced env mlModel
          (fetchHistoricalData env (symb @ ''=X'') ''3mo'') currentData symb = Some NaN
        \<and> fst (generateTradingSignal env eng symb dur) = None)"
proof (intro conjI impI)
  assume h: "fetchHistoricalData env symb ''3mo'' \<noteq> [] \<and> fetchRealTimeData env symb = Some currentData"
  let ?c = "combinedConfidenceBase eng (fetchHistoricalData env symb ''3mo'') currentData symb"
  have t: "jgt ?c (Num 0.6) \<longleftrightarrow> jgt ?c (fl 0.6)" "jlt ?c (Num 0.4) \<longleftrightarrow> jlt ?c (fl 0.4)"
    unfolding combinedConfidenceBase_def Let_def using combineBase_thresholds by blast+
  show "let c = ?c;
            r = fst (generateTradingSignalBase env eng symb dur)
        in (jgt c (Num 0.6) \<longrightarrow> (\<exists>sig. r = Some sig \<and> direction sig = CALL))
         \<and> (jlt c (Num 0.4) \<longrightarrow> (\<exists>sig. r = Some sig \<and> direction sig = PUT))
         \<and> (\<not> jgt c (Num 0.6) \<and> \<not> jlt c (Num 0.4) \<longrightarrow> r = None)"
    unfolding Let_def t generateTradingSignalBase_fst[OF conjunct1[OF h] conjunct2[OF h]]
    using signalBase_cases by blast
next
  assume h: "fetchHistoricalData env (symb @ ''=X'') ''3mo'' \<noteq> []
        \<and> fetchRealTimeData env (symb @ ''=X'') = Some currentData
        \<and> mlModels eng symb = Some mlModel
        \<and> hasShape engineArchitecture mlModel"
  then show "combinedConfidenceEnhanced env mlModel
          (fetchHistoricalData env (symb @ ''=X'') ''3mo'') currentData symb = Some NaN"
    using shaped_combined by blast
next
  assume h: "fetchHistoricalData env (symb @ ''=X'') ''3mo'' \<noteq> []
        \<and> fetchRealTimeData env (symb @ ''=X'') = Some currentData
        \<and> mlModels eng symb = Some mlModel
        \<and> hasShape engineArchitecture mlModel"
  show "fst (generateTradingSignal env eng symb dur) = None"
    by (rule shaped_no_signal) (use h in simp)
qed

lemma flat2_base_combined:
  "combinedConfidenceBase initialEngine [flatBar] flatBar ''EURUSD'' = Num (3152519739159347 / 2 ^ 52)"
  unfolding combinedConfidenceBase_def Let_def flat2_scored
  using combineBase_half(1) by (simp add: initialEngine_def neuralNetworkPredict_def)

lemma initialEngine_EURUSD:
  "mlModels initialEngine ''EURUSD'' = Some (newModel ''EURUSD'' engineArchitecture (\<lambda>i j. 0.5))"
  by (simp add: initialEngine_def initializeMLModels_def getSupportedSymbols_def loadModel_def
        newModel_def)

lemma flat30_base_combined:
  "combinedConfidenceBase initialEngine (replicate 29 flatBar) flatBar ''EURUSD''
     = Num (2552039788843281 / 2 ^ 52)"
proof -
  have s: "calculateTechnicalIndicators (replicate 29 flatBar @ [flatBar]) =
     \<lparr>rsi = Num 100,
      macd = \<lparr>macdLine = Num 0, signal = Num 0, histogram = Num 0\<rparr>,
      bollingerBands = \<lparr>upper = Num (11 / 10), middle = Num (11 / 10), lower = Num (11 / 10)\<rparr>,
      sma20 = Num (11 / 10), sma50 = Num (11 / 10), ema12 = Num (11 / 10), ema26 = Num (11 / 10),
      stochastic = \<lparr>percentK = NaN, percentD = NaN\<rparr>,
      volatility = Num 0, support = Num (11 / 10), resistance = Num (11 / 10)\<rparr>"
    by (rule flat_snapshot) (auto simp: flatBar_def)
  show ?thesis
    unfolding combinedConfidenceBase_def Let_def s
    using combineBase_half(3) flat_scored[of flatBar "11 / 10"]
    by (simp add: initialEngine_def neuralNetworkPredict_def flatBar_def)
qed

theorem generateTradingSignal_direction_witness:
  "fetchHistoricalData flatEnv ''EURUSD'' ''3mo'' = [flatBar]
   \<and> fetchRealTimeData flatEnv ''EURUSD'' = Some flatBar
   \<and> combinedConfidenceBase initialEngine [flatBar] flatBar ''EURUSD''
       = Num (3152519739159347 / 2 ^ 52)
   \<and> jgt (Num (3152519739159347 / 2 ^ 52)) (Num 0.6)
   \<and> map_option direction (fst (generateTradingSignalBase flatEnv initialEngine ''EURUSD'' 1))
       = Some CALL
   \<and> fetchHistoricalData flatSeriesEnv ''EURUSD'' ''3mo'' = replicate 29 flatBar
   \<and> fetchRealTimeData flatSeriesEnv ''EURUSD'' = Some flatBar
   \<and> combinedConfidenceBase initialEngine (replicate 29 flatBar) flatBar ''EURUSD''
       = Num (2552039788843281 / 2 ^ 52)
   \<and> jgt (Num (2552039788843281 / 2 ^ 52)) (Num 0.4)
   \<and> jlt (Num (2552039788843281 / 2 ^ 52)) (Num 0.6)
   \<and> fst (generateTradingSignalBase flatSeriesEnv initialEngine ''EURUSD'' 1) = None
   \<and> mlModels initialEngine ''EURUSD'' = Some (newModel ''EURUSD'' engineArchitecture (\<lambda>i j. 0.5))
   \<and> hasShape engineArchitecture (newModel ''EURUSD'' engineArchitecture (\<lambda>i j. 0.5))
   \<and> combinedConfidenceEnhanced flatEnv (newModel ''EURUSD'' engineArchitecture (\<lambda>i j. 0.5))
        [flatBar] flatBar ''EURUSD'' = Some NaN
   \<and> fst (generateTradingSignal flatEnv initialEngine ''EURUSD'' 1) = None"
proof -
  have e: "fetchHistoricalData flatEnv sy ''3mo'' = [flatBar]"
    "fetchRealTimeData flatEnv sy = Some flatBar"
    "fetchHistoricalData flatSeriesEnv sy ''3mo'' = replicate 29 flatBar"
    "fetchRealTimeData flatSeriesEnv sy = Some flatBar" for sy
    by (simp_all add: flatEnv_def flatSeriesEnv_def exampleEnv_def)
  show ?thesis
    using generateTradingSignal_direction[of flatEnv "''EURUSD''" flatBar initialEngine 1
            "newModel ''EURUSD'' engineArchitecture (\<lambda>i j. 0.5)"]
          generateTradingSignal_direction[of flatSeriesEnv "''EURUSD''" flatBar initialEngine 1
            "newModel ''EURUSD'' engineArchitecture (\<lambda>i j. 0.5)"]
    by (auto simp: e flat2_base_combined flat30_base_combined initialEngine_EURUSD
          newModel_hasShape fl_three_fifths fl_two_fifths jgt_def Let_def)
qed

text \<open>At the prediction 0.5 and the rule confidence 3/4 the exact sum is 0.6; the code
  computes the next double above it and emits a CALL.\<close>

lemma three_to_one_is_call:
  "combineBase (Num 0.5) \<lparr>rb_confidence = 3 / 4, rb_reasoning = rs\<rparr>
     = Num (1351079888211149 / 2 ^ 51)
   \<and> (0.6::real) < 1351079888211149 / 2 ^ 51
   \<and> map_option direction
        (signalBase env cur ind \<lparr>rb_confidence = 3 / 4, rb_reasoning = rs\<rparr>
           (combineBase (Num 0.5) \<lparr>rb_confidence = 3 / 4, rb_reasoning = rs\<rparr>) dur) = Some CALL"
  using signalBase_cases[of "Num (1351079888211149 / 2 ^ 51)" env cur ind
          "\<lparr>rb_confidence = 3 / 4, rb_reasoning = rs\<rparr>" dur]
        combineBase_half(2)[of rs]
  by (auto simp: fl_three_fifths jgt_def)

subsection \<open>The reported confidence\<close>

text \<open>In the first engine the prediction is a sigmoid (or 0.5) and the rule confidence is
  a ratio of counts: both lie in \<open>[0, 1]\<close>, and rounding keeps every intermediate
  result between the doubles that bound it.\<close>

lemma sigmoid_range: "sigmoid x = NaN \<or> (\<exists>r. sigmoid x = Num r \<and> 0 \<le> r \<and> r \<le> 1)"
proof (cases x)
  case (Num a)
  have pos: "0 < 1 + exp (- a)" using exp_gt_zero[of "- a"] by linarith
  then have ne: "1 + exp (- a) \<noteq> 0" by linarith
  have ge: "1 \<le> 1 + exp (- a)" using exp_gt_zero[of "- a"] by linarith
  have s: "sigmoid x = Num (1 / (1 + exp (- a)))"
    unfolding Num sigmoid_def using ne by (simp del: add_eq_0_iff_both_eq_0)
  have "0 \<le> 1 / (1 + exp (- a))" using pos by (intro divide_nonneg_pos) simp_all
  moreover have "1 / (1 + exp (- a)) \<le> 1"
    using ge pos by (simp only: divide_le_eq_1_pos)
  ultimately show ?thesis using s by blast
qed (simp_all add: sigmoid_def)

lemma neuralNetworkPredict_range:
  "neuralNetworkPredict ws features symb = NaN
   \<or> (\<exists>r. neuralNetworkPredict ws features symb = Num r \<and> 0 \<le> r \<and> r \<le> 1)"
proof (cases "ws symb")
  case None
  then have "neuralNetworkPredict ws features symb = Num 0.5"
    by (simp add: neuralNetworkPredict_def)
  then show ?thesis by (intro disjI2 exI[of _ "0.5"]) simp
next
  case (Some a)
  then show ?thesis by (simp add: neuralNetworkPredict_def Let_def sigmoid_range)
qed

lemma tally_confidence_range:
  "0 \<le> rb_confidence (case t of (b, r, rs) \<Rightarrow>
           (let n = b + r; cf = (if n = 0 then 0.5 else real b / real n)
            in \<lparr>rb_confidence = cf, rb_reasoning = rs\<rparr>))
   \<and> rb_confidence (case t of (b, r, rs) \<Rightarrow>
           (let n = b + r; cf = (if n = 0 then 0.5 else real b / real n)
            in \<lparr>rb_confidence = cf, rb_reasoning = rs\<rparr>)) \<le> 1"
  by (cases t) (auto simp: Let_def divide_le_eq)

lemma rb_confidence_range:
  "0 \<le> rb_confidence (analyzeRuleBasedSignals indicators currentData)
   \<and> rb_confidence (analyzeRuleBasedSignals indicators currentData) \<le> 1"
  unfolding analyzeRuleBasedSignals_def
  by (simp only: Let_def) (rule tally_confidence_range[unfolded Let_def])

lemma representable_weights:
  "representable (5404319552844595 / 9007199254740992)"
  "representable (3602879701896397 / 9007199254740992)"
  by (rule representableI[of 5404319552844595 "- 53"], simp_all add: powr_neg_numeral)
     (rule representableI[of 3602879701896397 "- 53"], simp_all add: powr_neg_numeral)

lemma representable_neg_half: "representable (- (1 / 2))"
  using representable_minus[OF representable_half] by simp

lemma fmul_weight_range:
  assumes "ml = NaN \<or> (\<exists>r. ml = Num r \<and> 0 \<le> r \<and> r \<le> 1)"
    and "representable w" "0 \<le> w" "w < overflow_bound"
  shows "fmul ml (Num w) = NaN \<or> (\<exists>a. fmul ml (Num w) = Num a \<and> 0 \<le> a \<and> a \<le> w)"
proof -
  from assms(1) show ?thesis
  proof
    assume "ml = NaN"
    then show ?thesis by simp
  next
    assume "\<exists>r. ml = Num r \<and> 0 \<le> r \<and> r \<le> 1"
    then obtain r where r: "ml = Num r" "0 \<le> r" "r \<le> 1" by blast
    have "0 \<le> r * w" "r * w \<le> w" using r assms(3) by (simp_all add: mult_left_le_one_le)
    moreover have "- overflow_bound < 0" using overflow_bound_gt by simp
    ultimately have "\<exists>a. fl (r * w) = Num a \<and> 0 \<le> a \<and> a \<le> w"
      using fl_between[OF representable_0 assms(2) _ _ _ assms(4), of "r * w"] by blast
    then show ?thesis using r(1) by simp
  qed
qed

lemma combineBase_range:
  assumes "ml = NaN \<or> (\<exists>r. ml = Num r \<and> 0 \<le> r \<and> r \<le> 1)"
    and "0 \<le> rb_confidence rule \<and> rb_confidence rule \<le> 1"
  shows "combineBase ml rule = NaN \<or> (\<exists>c. combineBase ml rule = Num c \<and> 0 \<le> c \<and> c \<le> 1)"
proof -
  let ?w6 = "5404319552844595 / 9007199254740992 :: real"
  let ?w4 = "3602879701896397 / 9007199254740992 :: real"
  have ob: "- overflow_bound < 0" "1 < overflow_bound" "?w6 < overflow_bound" "?w4 < overflow_bound"
    using overflow_bound_gt by simp_all
  obtain q where q: "fl (rb_confidence rule) = Num q" "0 \<le> q" "q \<le> 1"
    using fl_between[OF representable_0 representable_1 _ _ ob(1,2), of "rb_confidence rule"]
      assms(2) by blast
  have "fmul (Num q) (Num ?w4) = NaN
      \<or> (\<exists>a. fmul (Num q) (Num ?w4) = Num a \<and> 0 \<le> a \<and> a \<le> ?w4)"
    by (rule fmul_weight_range[OF _ representable_weights(2) _ ob(4)]) (use q in simp_all)
  then obtain b where b: "fmul (Num q) (Num ?w4) = Num b" "0 \<le> b" "b \<le> ?w4"
    by (auto simp: fl_not_NaN)
  have "fmul ml (Num ?w6) = NaN \<or> (\<exists>a. fmul ml (Num ?w6) = Num a \<and> 0 \<le> a \<and> a \<le> ?w6)"
    by (rule fmul_weight_range[OF assms(1) representable_weights(1) _ ob(3)]) simp
  then show ?thesis
  proof
    assume "fmul ml (Num ?w6) = NaN"
    then show ?thesis using q(1) b(1) by (simp add: combineBase_def fl_three_fifths fl_two_fifths)
  next
    assume "\<exists>a. fmul ml (Num ?w6) = Num a \<and> 0 \<le> a \<and> a \<le> ?w6"
    then obtain a where a: "fmul ml (Num ?w6) = Num a" "0 \<le> a" "a \<le> ?w6" by blast
    have "0 \<le> a + b" "a + b \<le> 1" using a b by simp_all
    then obtain c where c: "fl (a + b) = Num c" "0 \<le> c" "c \<le> 1"
      using fl_between[OF representable_0 representable_1 _ _ ob(1,2), of "a + b"] by blast
    have "combineBase ml rule = Num c"
      using a(1) b(1) q(1) c(1) by (simp add: combineBase_def fl_three_fifths fl_two_fifths)
    then show ?thesis using c by blast
  qed
qed

lemma reported_confidence_range:
  assumes "0 \<le> c" "c \<le> 1"
  shows "\<exists>r. fmul (jabs (fsub (Num c) (Num 0.5))) (Num 2) = Num r \<and> 0 \<le> r \<and> r \<le> 1"
proof -
  have ob: "- overflow_bound < 0" "1 < overflow_bound" "- overflow_bound < - (1 / 2)"
    "1 / 2 < overflow_bound"
    using overflow_bound_gt by simp_all
  have "- (1 / 2) \<le> c - 1 / 2" "c - 1 / 2 \<le> 1 / 2" using assms by simp_all
  then obtain y where y: "fl (c - 1 / 2) = Num y" "- (1 / 2) \<le> y" "y \<le> 1 / 2"
    using fl_between[OF representable_neg_half representable_half _ _ ob(3,4), of "c - 1 / 2"]
    by blast
  have "0 \<le> \<bar>y\<bar> * 2" "\<bar>y\<bar> * 2 \<le> 1" using y(2,3) by (simp_all add: abs_if)
  then obtain r where r: "fl (\<bar>y\<bar> * 2) = Num r" "0 \<le> r" "r \<le> 1"
    using fl_between[OF representable_0 representable_1 _ _ ob(1,2), of "\<bar>y\<bar> * 2"] by blast
  have "fmul (jabs (fsub (Num c) (Num 0.5))) (Num 2) = Num r"
    using y(1) r(1) by (simp add: fsub_Num)
  then show ?thesis using r by blast
qed

lemma base_confidence_range:
  assumes "fst (generateTradingSignalBase env eng symb dur) = Some sig"
  shows "(\<exists>cur. fetchRealTimeData env symb = Some cur
            \<and> confidence sig =
                fmul (jabs (fsub (combinedConfidenceBase eng (fetchHistoricalData env symb ''3mo'')
                                    cur symb) (Num 0.5))) (Num 2))
       \<and> (\<exists>r. confidence sig = Num r \<and> 0 \<le> r \<and> r \<le> 1)"
proof -
  from assms have h: "fetchHistoricalData env symb ''3mo'' \<noteq> []"
    by (auto simp: generateTradingSignalBase_def Let_def split: if_splits)
  from assms h obtain cur where cur: "fetchRealTimeData env symb = Some cur"
    by (cases "fetchRealTimeData env symb") (auto simp: generateTradingSignalBase_def Let_def)
  let ?hist = "fetchHistoricalData env symb ''3mo''"
  let ?c = "combinedConfidenceBase eng ?hist cur symb"
  let ?ind = "calculateTechnicalIndicators (?hist @ [cur])"
  have s: "signalBase env cur ?ind (analyzeRuleBasedSignals ?ind cur) ?c dur = Some sig"
    using assms generateTradingSignalBase_fst[OF h cur] by simp
  have f: "confidence sig = fmul (jabs (fsub ?c (Num 0.5))) (Num 2)"
    using s signalBase_cases[of ?c env cur ?ind "analyzeRuleBasedSignals ?ind cur" dur]
    by (cases "jgt ?c (fl 0.6)"; cases "jlt ?c (fl 0.4)") auto
  have "?c = NaN \<or> (\<exists>c. ?c = Num c \<and> 0 \<le> c \<and> c \<le> 1)"
    unfolding combinedConfidenceBase_def Let_def
    by (rule combineBase_range[OF neuralNetworkPredict_range rb_confidence_range])
  then have "\<exists>r. confidence sig = Num r \<and> 0 \<le> r \<and> r \<le> 1"
  proof
    assume cn: "?c = NaN"
    have "signalBase env cur ?ind (analyzeRuleBasedSignals ?ind cur) NaN dur = None"
      by (simp add: signalBase_def Let_def jgt_def fl_three_fifths fl_two_fifths)
    then show ?thesis using s unfolding cn by simp
  next
    assume "\<exists>c. ?c = Num c \<and> 0 \<le> c \<and> c \<le> 1"
    then obtain c where c: "?c = Num c" "0 \<le> c" "c \<le> 1" by blast
    show ?thesis unfolding f c(1) by (rule reported_confidence_range[OF c(2,3)])
  qed
  then show ?thesis using cur f by blast
qed

text \<open>
  C2. For every emitted signal the confidence reported to the caller is
  \<open>abs(combinedConfidence - 0.5) * 2\<close>, a number in \<open>[0, 1]\<close>. The first engine
  combines a prediction and a rule confidence that both lie in \<open>[0, 1]\<close> with the
  weights 0.6 and 0.4. The engine of src/components/TradingBotEngine.ts, whose models
  have the shape \<open>initializeMLModels\<close> gives them, emits no signal.
\<close>

theorem generateTradingSignal_confidence:
  "(fst (generateTradingSignalBase env eng symb dur) = Some sig \<longrightarrow>
      (\<exists>currentData. fetchRealTimeData env symb = Some currentData
         \<and> confidence sig =
             fmul (jabs (fsub (combinedConfidenceBase eng (fetchHistoricalData env symb ''3mo'')
                                 currentData symb) (Num 0.5))) (Num 2))
      \<and> (\<exists>r. confidence sig = Num r \<and> 0 \<le> r \<and> r \<le> 1))
   \<and> (mlModels eng symb = Some mlModel \<and> hasShape engineArchitecture mlModel \<longrightarrow>
        fst (generateTradingSignal env eng symb dur) = None)"
proof (intro conjI impI)
  assume "fst (generateTradingSignalBase env eng symb dur) = Some sig"
  from base_confidence_range[OF this]
  show "\<exists>currentData. fetchRealTimeData env symb = Some currentData
         \<and> confidence sig =
             fmul (jabs (fsub (combinedConfidenceBase eng (fetchHistoricalData env symb ''3mo'')
                                 currentData symb) (Num 0.5))) (Num 2)"
    and "\<exists>r. confidence sig = Num r \<and> 0 \<le> r \<and> r \<le> 1"
    by blast+
next
  assume h: "mlModels eng symb = Some mlModel \<and> hasShape engineArchitecture mlModel"
  show "fst (generateTradingSignal env eng symb dur) = None"
    by (rule shaped_no_signal) (use h in simp)
qed

theorem generateTradingSignal_confidence_witness:
  "combinedConfidenceBase initialEngine [flatBar] flatBar ''EURUSD''
       = Num (3152519739159347 / 2 ^ 52)
   \<and> fmul (jabs (fsub (Num (3152519739159347 / 2 ^ 52)) (Num 0.5))) (Num 2)
       = Num (900719925474099 / 2 ^ 51)
   \<and> map_option confidence (fst (generateTradingSignalBase flatEnv initialEngine ''EURUSD'' 1))
       = Some (Num (900719925474099 / 2 ^ 51))
   \<and> mlModels initialEngine ''EURUSD'' = Some (newModel ''EURUSD'' engineArchitecture (\<lambda>i j. 0.5))
   \<and> hasShape engineArchitecture (newModel ''EURUSD'' engineArchitecture (\<lambda>i j. 0.5))
   \<and> fst (generateTradingSignal flatEnv initialEngine ''EURUSD'' 1) = None"
proof -
  have e: "fetchHistoricalData flatEnv sy ''3mo'' = [flatBar]"
    "fetchRealTimeData flatEnv sy = Some flatBar" for sy
    by (simp_all add: flatEnv_def exampleEnv_def)
  let ?c = "Num (3152519739159347 / 2 ^ 52)"
  have c: "combinedConfidenceBase initialEngine [flatBar] flatBar ''EURUSD'' = ?c"
    by (rule flat2_base_combined)
  have v: "fmul (jabs (fsub ?c (Num 0.5))) (Num 2) = Num (900719925474099 / 2 ^ 51)"
    by (simp add: fsub_Num fl_c_one_minus_half fl_conf_one)
  have "jgt ?c (fl 0.6)" by (simp add: fl_three_fifths jgt_def)
  then obtain sig where
    s: "signalBase flatEnv flatBar (calculateTechnicalIndicators ([flatBar] @ [flatBar]))
          (analyzeRuleBasedSignals (calculateTechnicalIndicators ([flatBar] @ [flatBar])) flatBar)
          ?c 1 = Some sig"
    using signalBase_cases[of ?c flatEnv flatBar] by blast
  have g: "fst (generateTradingSignalBase flatEnv initialEngine ''EURUSD'' 1) = Some sig"
    using generateTradingSignalBase_fst[of flatEnv "''EURUSD''" flatBar initialEngine 1] s
    by (simp add: e c)
  have "confidence sig = Num (900719925474099 / 2 ^ 51)"
    using generateTradingSignal_confidence[of flatEnv initialEngine "''EURUSD''" 1 sig
            "newModel ''EURUSD'' engineArchitecture (\<lambda>i j. 0.5)"] g v
    by (simp add: e c)
  moreover have "fst (generateTradingSignal flatEnv initialEngine ''EURUSD'' 1) = None"
    using generateTradingSignal_confidence[of flatEnv initialEngine "''EURUSD''" 1 sig
            "newModel ''EURUSD'' engineArchitecture (\<lambda>i j. 0.5)"]
    by (simp add: initialEngine_EURUSD newModel_hasShape)
  ultimately show ?thesis using c v g by (simp add: initialEngine_EURUSD newModel_hasShape)
qed

section \<open>Training is exclusive\<close>

lemma trainSymbol_isTraining:
  "trainSymbol env (results, eng) s = Inr (results', eng') \<Longrightarrow> isTraining eng' = isTraining eng"
  "trainSymbol env (results, eng) s = Inl (e, results', eng') \<Longrightarrow> isTraining eng' = isTraining eng"
  by (auto simp: trainSymbol_def Let_def split: if_splits option.splits prod.splits sum.splits)

lemma trainLoop_isTraining:
  "isTraining (snd (trainLoop env symbols (results, eng))) = isTraining eng"
proof (induction symbols arbitrary: results eng)
  case Nil
  then show ?case by simp
next
  case (Cons s symbols)
  show ?case
  proof (cases "trainSymbol env (results, eng) s")
    case (Inl a)
    then obtain e results' eng' where a: "a = (e, results', eng')" by (cases a) auto
    then show ?thesis using Inl trainSymbol_isTraining(2)[of env results eng s e results' eng']
      by simp
  next
    case (Inr b)
    then obtain results' eng' where b: "b = (results', eng')" by (cases b) auto
    then show ?thesis
      using Inr trainSymbol_isTraining(1)[of env results eng s results' eng'] Cons.IH[of results' eng']
      by simp
  qed
qed

text \<open>
  C6. A call of \<open>trainModels\<close> while \<open>isTraining\<close> is set throws the error
  \<open>Training already in progress\<close> and changes nothing (it neither queues nor returns
  silently). A call that passes the guard returns its results with the flag cleared,
  whether the loop ran to its end or an error was thrown inside it and caught; while
  the loop runs the flag stays set. \<open>isModelTraining\<close> reads the flag.
\<close>

theorem trainModels_exclusive:
  "(isTraining eng \<longrightarrow>
      trainModels env eng symbolArg = (Inl (Error ''Training already in progress''), eng))
   \<and> (\<not> isTraining eng \<longrightarrow>
        (\<exists>results eng'. trainModels env eng symbolArg = (Inr results, eng')
           \<and> \<not> isTraining eng' \<and> \<not> isModelTraining eng'))
   \<and> isTraining (snd (trainLoop env symbols (results0, eng\<lparr>isTraining := True\<rparr>)))
   \<and> isModelTraining eng = isTraining eng"
  by (simp add: trainModels_def isModelTraining_def Let_def trainLoop_isTraining)

theorem trainModels_exclusive_witness:
  "isTraining (exampleEngine\<lparr>isTraining := True\<rparr>)
   \<and> trainModels exampleEnv (exampleEngine\<lparr>isTraining := True\<rparr>) (Some ''EURUSD'')
       = (Inl (Error ''Training already in progress''), exampleEngine\<lparr>isTraining := True\<rparr>)
   \<and> \<not> isTraining exampleEngine
   \<and> trainModels exampleEnv exampleEngine None = (Inr Map.empty, exampleEngine)"
  using trainModels_exclusive[of "exampleEngine\<lparr>isTraining := True\<rparr>" exampleEnv "Some ''EURUSD''"]
        trainModels_exclusive[of exampleEngine exampleEnv None]
  by (simp add: exampleEngine_def exampleEnv_def trainModels_def getSupportedSymbols_def
        trainSymbol_def Let_def)


end
